theory Spec2Isabelle
  imports Main "HOL-Library.Word"
begin

section \<open>The conversion layer of the Aerospike Python client (src/main/conversions.c)\<close>

text \<open>
  The theory embeds the functions of \<^verbatim>\<open>conversions.c\<close> that convert between Python
  objects and the values, keys and records of the Aerospike C client. Python objects and
  C client values are datatypes; a C function that returns \<^verbatim>\<open>err->code\<close> and writes its
  result through a pointer becomes a function into \<open>as_error + 'a\<close>: \<open>Inr\<close> is
  \<^verbatim>\<open>AEROSPIKE_OK\<close> together with the object written, \<open>Inl e\<close> is the error record at
  return. Where a claim is about what is left behind on an error path, the out-parameter
  is returned as explicit state instead.

  Conventions that hold for the whole theory:
  \<^item> the object model and the type checks are those of the Python 2 C API, whose names
    the source uses (\<^verbatim>\<open>PyInt_Check\<close>, \<^verbatim>\<open>PyString_Check\<close>, ...); a C \<^verbatim>\<open>long\<close> has 64 bits;
  \<^item> allocations of Python objects succeed, and no Python exception is pending when a
    function is entered;
  \<^item> values, list elements and bin values of the C client are never NULL pointers;
  \<^item> what lives outside \<^verbatim>\<open>conversions.c\<close> (the serializer, the geo codec, the
    validation done by the C client's key initialisers) is a field of the record
    \<open>AerospikeClient\<close> or an explicit parameter.
\<close>

subsection \<open>Status codes and the error record\<close>

type_synonym byte = "8 word"

text \<open>A C \<^verbatim>\<open>double\<close> is carried by its 64-bit pattern; the conversions only copy it.\<close>

type_synonym double = "64 word"

datatype as_status =
    AEROSPIKE_OK
  | AEROSPIKE_ERR_PARAM
  | AEROSPIKE_ERR_CLIENT
  | AEROSPIKE_ERR_BIN_NAME
  | AEROSPIKE_ERR_RECORD_NOT_FOUND
  | AEROSPIKE_ERR

record as_error =
  code :: as_status
  message :: string

definition as_error_update :: "as_status \<Rightarrow> string \<Rightarrow> as_error" where
  "as_error_update c m = \<lparr>code = c, message = m\<rparr>"

subsection \<open>Python objects\<close>

text \<open>
  \<open>PyUnicode s\<close> is a unicode object whose UTF-8 encoding is \<open>s\<close>; \<open>PyString s\<close> is a
  byte string. \<open>PyInstance tn attrs\<close> is an instance of an extension class: \<open>tn\<close> is
  \<^verbatim>\<open>ob_type->tp_name\<close> and \<open>attrs\<close> its attributes.
\<close>

datatype pyobj =
    PyNone
  | PyBool bool
  | PyInt int
  | PyLong int
  | PyFloat double
  | PyUnicode string
  | PyString string
  | PyByteArray "byte list"
  | PyList "pyobj list"
  | PyTuple "pyobj list"
  | PyDict "(pyobj \<times> pyobj) list"
  | PyInstance string "(string \<times> pyobj) list"

datatype pyexc = OverflowError | TypeError | AttributeError | ValueError

text \<open>The type checks. \<^verbatim>\<open>bool\<close> is a subclass of \<^verbatim>\<open>int\<close>, so a boolean passes
  \<^verbatim>\<open>PyInt_Check\<close>; \<^verbatim>\<open>bytes\<close> is \<^verbatim>\<open>str\<close>, so \<^verbatim>\<open>PyBytes_Check\<close> is \<^verbatim>\<open>PyString_Check\<close>.\<close>

fun PyBool_Check :: "pyobj \<Rightarrow> bool" where
  "PyBool_Check (PyBool b) = True"
| "PyBool_Check x = False"

fun PyInt_Check :: "pyobj \<Rightarrow> bool" where
  "PyInt_Check (PyInt n) = True"
| "PyInt_Check (PyBool b) = True"
| "PyInt_Check x = False"

fun PyLong_Check :: "pyobj \<Rightarrow> bool" where
  "PyLong_Check (PyLong n) = True"
| "PyLong_Check x = False"

fun PyFloat_Check :: "pyobj \<Rightarrow> bool" where
  "PyFloat_Check (PyFloat d) = True"
| "PyFloat_Check x = False"

fun PyUnicode_Check :: "pyobj \<Rightarrow> bool" where
  "PyUnicode_Check (PyUnicode s) = True"
| "PyUnicode_Check x = False"

fun PyString_Check :: "pyobj \<Rightarrow> bool" where
  "PyString_Check (PyString s) = True"
| "PyString_Check x = False"

definition PyBytes_Check :: "pyobj \<Rightarrow> bool" where
  "PyBytes_Check x = PyString_Check x"

fun PyByteArray_Check :: "pyobj \<Rightarrow> bool" where
  "PyByteArray_Check (PyByteArray b) = True"
| "PyByteArray_Check x = False"

fun PyList_Check :: "pyobj \<Rightarrow> bool" where
  "PyList_Check (PyList xs) = True"
| "PyList_Check x = False"

fun PyTuple_Check :: "pyobj \<Rightarrow> bool" where
  "PyTuple_Check (PyTuple xs) = True"
| "PyTuple_Check x = False"

fun PyDict_Check :: "pyobj \<Rightarrow> bool" where
  "PyDict_Check (PyDict kvs) = True"
| "PyDict_Check x = False"

fun tp_name :: "pyobj \<Rightarrow> string" where
  "tp_name PyNone = ''NoneType''"
| "tp_name (PyBool b) = ''bool''"
| "tp_name (PyInt n) = ''int''"
| "tp_name (PyLong n) = ''long''"
| "tp_name (PyFloat d) = ''float''"
| "tp_name (PyUnicode s) = ''unicode''"
| "tp_name (PyString s) = ''str''"
| "tp_name (PyByteArray b) = ''bytearray''"
| "tp_name (PyList xs) = ''list''"
| "tp_name (PyTuple xs) = ''tuple''"
| "tp_name (PyDict kvs) = ''dict''"
| "tp_name (PyInstance tn attrs) = tn"

text \<open>Selectors for the payload of an object whose check has passed.\<close>

fun PyList_items :: "pyobj \<Rightarrow> pyobj list" where
  "PyList_items (PyList xs) = xs"
| "PyList_items x = []"

fun PyTuple_items :: "pyobj \<Rightarrow> pyobj list" where
  "PyTuple_items (PyTuple xs) = xs"
| "PyTuple_items x = []"

fun PyDict_items :: "pyobj \<Rightarrow> (pyobj \<times> pyobj) list" where
  "PyDict_items (PyDict kvs) = kvs"
| "PyDict_items x = []"

fun PyByteArray_AsString :: "pyobj \<Rightarrow> byte list" where
  "PyByteArray_AsString (PyByteArray b) = b"
| "PyByteArray_AsString x = []"

fun PyFloat_AsDouble :: "pyobj \<Rightarrow> double" where
  "PyFloat_AsDouble (PyFloat d) = d"
| "PyFloat_AsDouble x = 0"

text \<open>A C string ends at the first NUL character of the buffer it points to.\<close>

definition c_str :: "string \<Rightarrow> string" where
  "c_str s = takeWhile (\<lambda>c. c \<noteq> CHR 0x00) s"

definition strlen :: "string \<Rightarrow> nat" where
  "strlen s = length (c_str s)"

text \<open>\<^verbatim>\<open>PyString_AsString\<close> returns a pointer to the object's buffer, read by its
  callers as a C string; \<^verbatim>\<open>PyUnicode_AsUTF8String\<close> gives the byte string of the
  encoding.\<close>

fun PyString_AsString :: "pyobj \<Rightarrow> string" where
  "PyString_AsString (PyString s) = c_str s"
| "PyString_AsString x = []"

fun PyUnicode_AsUTF8String :: "pyobj \<Rightarrow> pyobj" where
  "PyUnicode_AsUTF8String (PyUnicode s) = PyString s"
| "PyUnicode_AsUTF8String x = PyString []"

text \<open>The whole buffer of a byte string, of \<^verbatim>\<open>PyBytes_Size\<close> bytes.\<close>

fun PyBytes_buffer :: "pyobj \<Rightarrow> byte list" where
  "PyBytes_buffer (PyString s) = map of_char s"
| "PyBytes_buffer x = []"

definition PyBytes_AsString :: "pyobj \<Rightarrow> string" where
  "PyBytes_AsString x = PyString_AsString x"

definition PyString_FromString :: "string \<Rightarrow> pyobj" where
  "PyString_FromString s = PyString (c_str s)"

definition PyInt_FromLong :: "64 word \<Rightarrow> pyobj" where
  "PyInt_FromLong w = PyInt (sint w)"

definition PyByteArray_FromStringAndSize :: "byte list \<Rightarrow> nat \<Rightarrow> pyobj" where
  "PyByteArray_FromStringAndSize b n = PyByteArray (take n b)"

text \<open>A NULL \<^verbatim>\<open>PyObject *\<close> is \<open>None\<close> of the option type; the recurring
  \<^verbatim>\<open>if (!p) { Py_INCREF(Py_None); p = Py_None; }\<close> is \<open>or_Py_None\<close>.\<close>

definition or_Py_None :: "pyobj option \<Rightarrow> pyobj" where
  "or_Py_None p = (case p of None \<Rightarrow> PyNone | Some x \<Rightarrow> x)"

text \<open>Dictionaries keep their entries in insertion order. Setting a key that is present
  replaces its value in place. Key equality is equality of the modelled objects;
  Python's equality across numeric types is not modelled. Lists, dictionaries and
  byte arrays are unhashable: \<^verbatim>\<open>PyDict_SetItem\<close> fails on them with a TypeError.\<close>

fun dict_set :: "(pyobj \<times> pyobj) list \<Rightarrow> pyobj \<Rightarrow> pyobj \<Rightarrow> (pyobj \<times> pyobj) list" where
  "dict_set [] k v = [(k, v)]"
| "dict_set ((k', v') # d) k v = (if k' = k then (k', v) # d else (k', v') # dict_set d k v)"

fun py_hashable :: "pyobj \<Rightarrow> bool" and py_hashable_all :: "pyobj list \<Rightarrow> bool" where
  "py_hashable (PyList xs) = False"
| "py_hashable (PyDict kvs) = False"
| "py_hashable (PyByteArray b) = False"
| "py_hashable (PyTuple xs) = py_hashable_all xs"
| "py_hashable x = True"
| "py_hashable_all [] = True"
| "py_hashable_all (x # xs) = (py_hashable x \<and> py_hashable_all xs)"

definition PyDict_SetItem ::
  "(pyobj \<times> pyobj) list \<Rightarrow> pyobj \<Rightarrow> pyobj \<Rightarrow> pyexc + (pyobj \<times> pyobj) list" where
  "PyDict_SetItem d k v = (if py_hashable k then Inr (dict_set d k v) else Inl TypeError)"

definition PyDict_SetItemString ::
  "(pyobj \<times> pyobj) list \<Rightarrow> string \<Rightarrow> pyobj \<Rightarrow> (pyobj \<times> pyobj) list" where
  "PyDict_SetItemString d name v = dict_set d (PyString_FromString name) v"

text \<open>\<^verbatim>\<open>PyDict_GetItemString\<close> looks the C string up as a \<^verbatim>\<open>str\<close> key, which a
  unicode key of the same text equals; NULL when the key is absent.\<close>

fun PyDict_GetItemString :: "(pyobj \<times> pyobj) list \<Rightarrow> string \<Rightarrow> pyobj option" where
  "PyDict_GetItemString [] name = None"
| "PyDict_GetItemString ((k, v) # d) name =
     (if k = PyString name \<or> k = PyUnicode name then Some v else PyDict_GetItemString d name)"

subsection \<open>Values, keys and records of the C client\<close>

text \<open>The value of a key is the union \<^verbatim>\<open>as_key_value\<close>: an integer, a string or bytes;
  \<open>KEY_OTHER\<close> stands for any other type tag. A digest holds
  \<^verbatim>\<open>AS_DIGEST_VALUE_SIZE\<close> bytes.\<close>

datatype as_key_value =
    KEY_INTEGER "64 word"
  | KEY_STRING string
  | KEY_BYTES "byte list"
  | KEY_OTHER

record as_digest =
  init :: bool
  digest_value :: "byte list"

record as_key =
  key_ns :: string
  key_set :: string
  key_valuep :: "as_key_value option"
  key_digest :: as_digest

definition AS_DIGEST_VALUE_SIZE :: nat where
  "AS_DIGEST_VALUE_SIZE = 20"

datatype as_bytes_type = AS_BYTES_BLOB | AS_BYTES_TYPE nat

text \<open>\<open>AS_STRING None\<close> is a string value whose character pointer is NULL. A map is
  the ordered sequence of its pairs; \<open>AS_CMP_WILDCARD\<close> and \<open>AS_CMP_INF\<close> are the
  comparator markers, whose type tags the read path does not know.\<close>

datatype as_val =
    AS_INTEGER "64 word"
  | AS_DOUBLE double
  | AS_STRING "string option"
  | AS_BYTES as_bytes_type "byte list"
  | AS_LIST "as_val list"
  | AS_MAP "(as_val \<times> as_val) list"
  | AS_REC as_record
  | AS_NIL
  | AS_GEOJSON string
  | AS_CMP_WILDCARD
  | AS_CMP_INF
and as_record =
    As_record (rec_key: as_key) (gen: "16 word") (ttl: "32 word")
      (bins: "(string \<times> as_val) list")

subsection \<open>The client and its collaborators\<close>

text \<open>
  \<open>strict_types\<close> is \<^verbatim>\<open>self->strict_types\<close> and \<open>has_geo\<close> is
  \<^verbatim>\<open>aerospike_has_geo(self->as)\<close>. The other fields are the functions of the
  repository's serializer and geo modules and of CPython that \<^verbatim>\<open>conversions.c\<close>
  calls: \<open>serialize\<close> is \<^verbatim>\<open>serialize_based_on_serializer_policy\<close>, \<open>deserialize\<close> is
  \<^verbatim>\<open>deserialize_based_on_as_bytes_type\<close>, \<open>geo_dumps\<close> and \<open>geo_loads\<close> are
  \<^verbatim>\<open>AerospikeGeospatial_DoDumps\<close> and \<^verbatim>\<open>AerospikeGeospatial_DoLoads\<close>; \<open>Inl e\<close> is
  a status other than \<^verbatim>\<open>AEROSPIKE_OK\<close> with the error record set to \<open>e\<close>. \<open>nb_int\<close>
  is the \<^verbatim>\<open>__int__\<close> of the instances of classes, which \<^verbatim>\<open>PyLong_AsLong\<close> calls
  (\<open>None\<close> when the class has none). \<open>bytes_pool_capacity\<close> is the capacity of
  the static pool of \<^verbatim>\<open>as_bytes\<close>, and \<open>AS_BIN_NAME_MAX_LEN\<close> the C client's constant.
\<close>

record AerospikeClient =
  strict_types :: bool
  has_geo :: bool
  serialize :: "int \<Rightarrow> pyobj option \<Rightarrow> as_error + (as_bytes_type \<times> byte list)"
  deserialize :: "as_bytes_type \<Rightarrow> byte list \<Rightarrow> as_error + pyobj"
  geo_dumps :: "pyobj option \<Rightarrow> string"
  geo_loads :: "pyobj \<Rightarrow> as_error + pyobj"
  nb_int :: "pyobj \<Rightarrow> int option"
  bytes_pool_capacity :: nat
  AS_BIN_NAME_MAX_LEN :: nat

definition AerospikeGeospatial_New :: "pyobj \<Rightarrow> pyobj" where
  "AerospikeGeospatial_New py_data = PyInstance ''aerospike.Geospatial'' [(''geo_data'', py_data)]"

subsection \<open>Key to Python\<close>

definition key_to_pyobject :: "as_key option \<Rightarrow> as_error + pyobj" where
  "key_to_pyobject key =
     (case key of
        None \<Rightarrow> Inl (as_error_update AEROSPIKE_ERR_CLIENT ''key is null'')
      | Some k \<Rightarrow>
          (let py_namespace =
                 (if strlen (key_ns k) > 0 then Some (PyString_FromString (key_ns k)) else None);
               py_set =
                 (if strlen (key_set k) > 0 then Some (PyString_FromString (key_set k)) else None);
               py_key =
                 (case key_valuep k of
                    None \<Rightarrow> None
                  | Some val \<Rightarrow>
                      (case val of
                         KEY_INTEGER ival \<Rightarrow> Some (PyInt_FromLong ival)
                       | KEY_STRING sval \<Rightarrow> Some (PyString_FromString sval)
                       | KEY_BYTES bval \<Rightarrow>
                           Some (PyByteArray_FromStringAndSize bval (length bval))
                       | KEY_OTHER \<Rightarrow> None));
               py_digest =
                 (if init (key_digest k)
                  then Some (PyByteArray_FromStringAndSize (digest_value (key_digest k))
                               AS_DIGEST_VALUE_SIZE)
                  else None)
           in Inr (PyTuple [or_Py_None py_namespace, or_Py_None py_set,
                            or_Py_None py_key, or_Py_None py_digest])))"

definition metadata_to_pyobject :: "as_record option \<Rightarrow> as_error + pyobj" where
  "metadata_to_pyobject rec =
     (case rec of
        None \<Rightarrow> Inl (as_error_update AEROSPIKE_ERR_CLIENT ''record is null'')
      | Some r \<Rightarrow>
          Inr (PyDict (PyDict_SetItemString
                         (PyDict_SetItemString [] ''ttl'' (PyInt (uint (ttl r))))
                         ''gen'' (PyInt (uint (gen r))))))"

subsection \<open>Values to Python\<close>

text \<open>
  \<^verbatim>\<open>do_val_to_pyobject\<close> and the converters of lists, maps and records call each other.
  \<open>list_to_pyobject_each\<close>, \<open>map_to_pyobject_each\<close> and \<open>do_bins_to_pyobject_each\<close> are
  the callbacks together with the \<^verbatim>\<open>foreach\<close> of the C client that drives them: the
  iteration stops at the first callback that returns false, and the caller then finds the
  error in \<^verbatim>\<open>err\<close>. \<open>py_tuple_list_loop\<close> is the loop of
  \<^verbatim>\<open>as_list_of_map_to_py_tuple_list\<close>. The callbacks call \<^verbatim>\<open>val_to_pyobject\<close>, which is
  \<^verbatim>\<open>do_val_to_pyobject\<close> with \<^verbatim>\<open>cnvt_list_to_map = false\<close>.

  \<^verbatim>\<open>as_list_of_map_to_py_tuple_list\<close> reads the size of the list into an \<^verbatim>\<open>int\<close>; the
  three list and map converters do not reset \<^verbatim>\<open>err\<close>, which their only caller
  \<^verbatim>\<open>do_val_to_pyobject\<close> has reset.
\<close>

function
  do_val_to_pyobject :: "AerospikeClient \<Rightarrow> as_val \<Rightarrow> bool \<Rightarrow> as_error + pyobj" and
  as_list_of_map_to_py_tuple_list :: "AerospikeClient \<Rightarrow> as_val list \<Rightarrow> as_error + pyobj" and
  py_tuple_list_loop :: "AerospikeClient \<Rightarrow> as_val list \<Rightarrow> as_error + pyobj list" and
  list_to_pyobject :: "AerospikeClient \<Rightarrow> as_val list \<Rightarrow> as_error + pyobj" and
  list_to_pyobject_each :: "AerospikeClient \<Rightarrow> as_val list \<Rightarrow> as_error + pyobj list" and
  map_to_pyobject :: "AerospikeClient \<Rightarrow> (as_val \<times> as_val) list \<Rightarrow> as_error + pyobj" and
  map_to_pyobject_each ::
    "AerospikeClient \<Rightarrow> (as_val \<times> as_val) list \<Rightarrow> (pyobj \<times> pyobj) list
       \<Rightarrow> as_error + (pyobj \<times> pyobj) list" and
  do_record_to_pyobject ::
    "AerospikeClient \<Rightarrow> as_record option \<Rightarrow> as_key option \<Rightarrow> bool \<Rightarrow> as_error + pyobj" and
  bins_to_pyobject :: "AerospikeClient \<Rightarrow> as_record option \<Rightarrow> bool \<Rightarrow> as_error + pyobj" and
  do_bins_to_pyobject_each ::
    "AerospikeClient \<Rightarrow> (string \<times> as_val) list \<Rightarrow> bool \<Rightarrow> (pyobj \<times> pyobj) list
       \<Rightarrow> as_error + (pyobj \<times> pyobj) list"
where
  "do_val_to_pyobject self val cnvt_list_to_map =
     (case val of
        AS_INTEGER i \<Rightarrow> Inr (PyInt_FromLong i)
      | AS_DOUBLE d \<Rightarrow> Inr (PyFloat d)
      | AS_STRING str \<Rightarrow>
          (case str of
             Some s \<Rightarrow> Inr (PyString_FromString s)
           | None \<Rightarrow> Inr PyNone)
      | AS_BYTES ty bval \<Rightarrow> deserialize self ty bval
      | AS_LIST l \<Rightarrow>
          (if cnvt_list_to_map then as_list_of_map_to_py_tuple_list self l
           else list_to_pyobject self l)
      | AS_MAP m \<Rightarrow> map_to_pyobject self m
      | AS_REC r \<Rightarrow> do_record_to_pyobject self (Some r) None False
      | AS_NIL \<Rightarrow> Inr PyNone
      | AS_GEOJSON locstr \<Rightarrow>
          (case geo_loads self (PyString_FromString locstr) of
             Inl e \<Rightarrow> Inl e
           | Inr py_loads \<Rightarrow> Inr (AerospikeGeospatial_New py_loads))
      | AS_CMP_WILDCARD \<Rightarrow> Inl (as_error_update AEROSPIKE_ERR_CLIENT ''Unknown type for value'')
      | AS_CMP_INF \<Rightarrow> Inl (as_error_update AEROSPIKE_ERR_CLIENT ''Unknown type for value''))"
| "as_list_of_map_to_py_tuple_list self l =
     (let size = sint (word_of_nat (length l) :: 32 word) in
      if size mod 2 \<noteq> 0
      then Inl (as_error_update AEROSPIKE_ERR_CLIENT ''Invalid key list of key/value pairs'')
      else if 0 < size
      then (case py_tuple_list_loop self l of
              Inl e \<Rightarrow> Inl e
            | Inr py_list \<Rightarrow> Inr (PyList py_list))
      else Inr (PyList []))"
| "py_tuple_list_loop self [] = Inr []"
| "py_tuple_list_loop self [key] =
     Inl (as_error_update AEROSPIKE_ERR_CLIENT ''Null object found in returned list'')"
| "py_tuple_list_loop self (key # value # rest) =
     (case do_val_to_pyobject self key False of
        Inl e \<Rightarrow> Inl e
      | Inr py_key \<Rightarrow>
          (case do_val_to_pyobject self value False of
             Inl e \<Rightarrow> Inl e
           | Inr py_value \<Rightarrow>
               (case py_tuple_list_loop self rest of
                  Inl e \<Rightarrow> Inl e
                | Inr py_list \<Rightarrow> Inr (PyTuple [py_key, py_value] # py_list))))"
| "list_to_pyobject self l =
     (case list_to_pyobject_each self l of
        Inl e \<Rightarrow> Inl e
      | Inr py_list \<Rightarrow> Inr (PyList py_list))"
| "list_to_pyobject_each self [] = Inr []"
| "list_to_pyobject_each self (val # rest) =
     (case do_val_to_pyobject self val False of
        Inl e \<Rightarrow> Inl e
      | Inr py_val \<Rightarrow>
          (case list_to_pyobject_each self rest of
             Inl e \<Rightarrow> Inl e
           | Inr py_list \<Rightarrow> Inr (py_val # py_list)))"
| "map_to_pyobject self m =
     (case map_to_pyobject_each self m [] of
        Inl e \<Rightarrow> Inl e
      | Inr py_dict \<Rightarrow> Inr (PyDict py_dict))"
| "map_to_pyobject_each self [] py_dict = Inr py_dict"
| "map_to_pyobject_each self ((key, val) # rest) py_dict =
     (case do_val_to_pyobject self key False of
        Inl e \<Rightarrow> Inl e
      | Inr py_key \<Rightarrow>
          (case do_val_to_pyobject self val False of
             Inl e \<Rightarrow> Inl e
           | Inr py_val \<Rightarrow>
               (case PyDict_SetItem py_dict py_key py_val of
                  Inl exc \<Rightarrow>
                    (if exc = TypeError
                     then Inl (as_error_update AEROSPIKE_ERR_CLIENT
                                 ''Unable to use unhashable type as a dictionary key'')
                     else Inl (as_error_update AEROSPIKE_ERR_CLIENT
                                 ''Unable to add dictionary item''))
                | Inr py_dict' \<Rightarrow> map_to_pyobject_each self rest py_dict')))"
| "do_record_to_pyobject self rec key cnvt_list_to_map =
     (case rec of
        None \<Rightarrow> Inl (as_error_update AEROSPIKE_ERR_CLIENT ''record is null'')
      | Some r \<Rightarrow>
          (case key_to_pyobject (case key of Some k \<Rightarrow> Some k | None \<Rightarrow> Some (rec_key r)) of
             Inl e \<Rightarrow> Inl e
           | Inr py_rec_key \<Rightarrow>
               (case metadata_to_pyobject (Some r) of
                  Inl e \<Rightarrow> Inl e
                | Inr py_rec_meta \<Rightarrow>
                    (case bins_to_pyobject self (Some r) cnvt_list_to_map of
                       Inl e \<Rightarrow> Inl e
                     | Inr py_rec_bins \<Rightarrow>
                         Inr (PyTuple [py_rec_key, py_rec_meta, py_rec_bins])))))"
| "bins_to_pyobject self rec cnvt_list_to_map =
     (case rec of
        None \<Rightarrow> Inl (as_error_update AEROSPIKE_ERR_CLIENT ''record is null'')
      | Some r \<Rightarrow>
          (case do_bins_to_pyobject_each self (bins r) cnvt_list_to_map [] of
             Inl e \<Rightarrow> Inl e
           | Inr py_bins \<Rightarrow> Inr (PyDict py_bins)))"
| "do_bins_to_pyobject_each self [] cnvt_list_to_map py_bins = Inr py_bins"
| "do_bins_to_pyobject_each self ((name, val) # rest) cnvt_list_to_map py_bins =
     (case (if cnvt_list_to_map then do_val_to_pyobject self val True
            else do_val_to_pyobject self val False) of
        Inl e \<Rightarrow> Inl e
      | Inr py_val \<Rightarrow>
          do_bins_to_pyobject_each self rest cnvt_list_to_map
            (PyDict_SetItemString py_bins name py_val))"
  by pat_completeness auto
termination
proof -
  have sz: "Suc (2 * size_list (size_prod (\<lambda>x. 0) size) (bins r)) < 2 * size r" for r :: as_record
    by (cases r) simp
  show ?thesis
    by (relation "measure (\<lambda>x. case x of
      Inl (Inl (Inl (self, val, c))) \<Rightarrow> 2 * size val
    | Inl (Inl (Inr (self, l))) \<Rightarrow> 2 * size_list size l + 1
    | Inl (Inr (Inl (self, l))) \<Rightarrow> 2 * size_list size l
    | Inl (Inr (Inr (Inl (self, l)))) \<Rightarrow> 2 * size_list size l + 1
    | Inl (Inr (Inr (Inr (self, l)))) \<Rightarrow> 2 * size_list size l
    | Inr (Inl (Inl (self, m))) \<Rightarrow> 2 * size_list (size_prod size size) m + 1
    | Inr (Inl (Inr (self, m, d))) \<Rightarrow> 2 * size_list (size_prod size size) m
    | Inr (Inr (Inl (self, r, k, c))) \<Rightarrow> (case r of None \<Rightarrow> 0 | Some r' \<Rightarrow> 2 * size r' + 1)
    | Inr (Inr (Inr (Inl (self, r, c)))) \<Rightarrow> (case r of None \<Rightarrow> 0 | Some r' \<Rightarrow> 2 * size r')
    | Inr (Inr (Inr (Inr (self, bs, c, d)))) \<Rightarrow>
        2 * size_list (size_prod (\<lambda>x. 0) size) bs + 1)")
      (simp_all add: sz)
qed

definition val_to_pyobject :: "AerospikeClient \<Rightarrow> as_val \<Rightarrow> as_error + pyobj" where
  "val_to_pyobject self val = do_val_to_pyobject self val False"

definition val_to_pyobject_cnvt_list_to_map :: "AerospikeClient \<Rightarrow> as_val \<Rightarrow> as_error + pyobj" where
  "val_to_pyobject_cnvt_list_to_map self val = do_val_to_pyobject self val True"

definition record_to_pyobject ::
  "AerospikeClient \<Rightarrow> as_record option \<Rightarrow> as_key option \<Rightarrow> as_error + pyobj" where
  "record_to_pyobject self rec key = do_record_to_pyobject self rec key False"

definition record_to_pyobject_cnvt_list_to_map ::
  "AerospikeClient \<Rightarrow> as_record option \<Rightarrow> as_key option \<Rightarrow> as_error + pyobj" where
  "record_to_pyobject_cnvt_list_to_map self rec key = do_record_to_pyobject self rec key True"

subsection \<open>Operate-ordered bins and batch results\<close>

text \<open>\<open>operate_bins_loop\<close> is the loop over the record iterator: each bin becomes the
  pair built by \<^verbatim>\<open>Py_BuildValue("sO", name, value)\<close>.\<close>

fun operate_bins_loop ::
  "AerospikeClient \<Rightarrow> (string \<times> as_val) list \<Rightarrow> as_error + pyobj list" where
  "operate_bins_loop self [] = Inr []"
| "operate_bins_loop self ((name, val) # rest) =
     (case val_to_pyobject self val of
        Inl e \<Rightarrow> Inl e
      | Inr py_bin_value \<Rightarrow>
          (case operate_bins_loop self rest of
             Inl e \<Rightarrow> Inl e
           | Inr py_bins \<Rightarrow>
               Inr (PyTuple [PyString_FromString name, py_bin_value] # py_bins)))"

definition operate_bins_to_pyobject ::
  "AerospikeClient \<Rightarrow> as_record option \<Rightarrow> as_error + pyobj" where
  "operate_bins_to_pyobject self rec =
     (case rec of
        None \<Rightarrow> Inl (as_error_update AEROSPIKE_ERR_CLIENT ''record is null'')
      | Some r \<Rightarrow>
          (case operate_bins_loop self (bins r) of
             Inl e \<Rightarrow> Inl e
           | Inr py_bins \<Rightarrow> Inr (PyList py_bins)))"

text \<open>An entry of the array of \<^verbatim>\<open>as_batch_read\<close> holds a pointer to its key; an
  \<^verbatim>\<open>as_batch_read_record\<close> holds the key itself.\<close>

record as_batch_read =
  br_key :: "as_key option"
  br_result :: as_status
  br_record :: as_record

record as_batch_read_record =
  brr_key :: as_key
  brr_result :: as_status
  brr_record :: as_record

text \<open>The body of the loop of \<^verbatim>\<open>as_batch_read_results_to_pyobject\<close>: one entry of the
  results becomes one tuple, or the error that ends the conversion.\<close>

definition as_batch_read_result_to_pyobject ::
  "AerospikeClient \<Rightarrow> as_batch_read \<Rightarrow> as_error + pyobj" where
  "as_batch_read_result_to_pyobject client r =
     (if br_result r = AEROSPIKE_OK
      then record_to_pyobject client (Some (br_record r)) (br_key r)
      else (case key_to_pyobject (br_key r) of
              Inl e \<Rightarrow> Inl e
            | Inr py_key \<Rightarrow> Inr (PyTuple [py_key, PyNone, PyNone])))"

fun as_batch_read_results_loop ::
  "AerospikeClient \<Rightarrow> as_batch_read list \<Rightarrow> as_error + pyobj list" where
  "as_batch_read_results_loop client [] = Inr []"
| "as_batch_read_results_loop client (r # results) =
     (case as_batch_read_result_to_pyobject client r of
        Inl e \<Rightarrow> Inl e
      | Inr py_rec \<Rightarrow>
          (case as_batch_read_results_loop client results of
             Inl e \<Rightarrow> Inl e
           | Inr py_recs \<Rightarrow> Inr (py_rec # py_recs)))"

definition as_batch_read_results_to_pyobject ::
  "AerospikeClient \<Rightarrow> as_batch_read list \<Rightarrow> as_error + pyobj" where
  "as_batch_read_results_to_pyobject client results =
     (case as_batch_read_results_loop client results of
        Inl e \<Rightarrow> Inl e
      | Inr temp_py_recs \<Rightarrow> Inr (PyList temp_py_recs))"

text \<open>The body of the loop of \<^verbatim>\<open>batch_read_records_to_pyobject\<close>.\<close>

definition batch_read_record_to_pyobject ::
  "AerospikeClient \<Rightarrow> as_batch_read_record \<Rightarrow> as_error + pyobj" where
  "batch_read_record_to_pyobject self batch =
     (if brr_result batch = AEROSPIKE_OK
      then record_to_pyobject self (Some (brr_record batch)) (Some (brr_key batch))
      else (case key_to_pyobject (Some (brr_key batch)) of
              Inl e \<Rightarrow> Inl e
            | Inr py_key \<Rightarrow> Inr (PyTuple [py_key, PyNone, PyNone])))"

fun batch_read_records_loop ::
  "AerospikeClient \<Rightarrow> as_batch_read_record list \<Rightarrow> as_error + pyobj list" where
  "batch_read_records_loop self [] = Inr []"
| "batch_read_records_loop self (batch # records) =
     (case batch_read_record_to_pyobject self batch of
        Inl e \<Rightarrow> Inl e
      | Inr py_rec \<Rightarrow>
          (case batch_read_records_loop self records of
             Inl e \<Rightarrow> Inl e
           | Inr py_recs \<Rightarrow> Inr (py_rec # py_recs)))"

definition batch_read_records_to_pyobject ::
  "AerospikeClient \<Rightarrow> as_batch_read_record list \<Rightarrow> as_error + pyobj" where
  "batch_read_records_to_pyobject self records =
     (case batch_read_records_loop self records of
        Inl e \<Rightarrow> Inl e
      | Inr py_recs \<Rightarrow> Inr (PyList py_recs))"

subsection \<open>Python integers to C integers\<close>

text \<open>The conversions of CPython return the C value together with the exception they
  raise, if any; on an exception the value is \<open>-1\<close>. \<^verbatim>\<open>PyLong_AsLong\<close> converts an object
  that is not an integer through the \<^verbatim>\<open>nb_int\<close> slot of its type: a \<^verbatim>\<open>float\<close> has one,
  \<^verbatim>\<open>float_trunc\<close>, an instance of a class has the \<^verbatim>\<open>__int__\<close> of the class, and
  \<^verbatim>\<open>None\<close>, \<^verbatim>\<open>str\<close>, \<^verbatim>\<open>unicode\<close>, \<^verbatim>\<open>bytearray\<close>, \<^verbatim>\<open>list\<close>, \<^verbatim>\<open>tuple\<close> and
  \<^verbatim>\<open>dict\<close> have none.

  \<^verbatim>\<open>float_trunc\<close> cuts the fraction off an IEEE 754 double: the sign is bit 63, the
  exponent the next 11 bits and the mantissa the low 52 bits; an infinity raises
  \<^verbatim>\<open>OverflowError\<close> and a NaN \<^verbatim>\<open>ValueError\<close>.\<close>

definition float_trunc :: "double \<Rightarrow> pyexc + int" where
  "float_trunc d =
     (let bits = uint d;
          sign = bits div 2 ^ 63;
          e = (bits div 2 ^ 52) mod 2 ^ 11;
          m = bits mod 2 ^ 52 in
      if e = 2047 then Inl (if m = 0 then OverflowError else ValueError)
      else (let mag = (if e = 0 then 0
                       else if 1075 \<le> e then (2 ^ 52 + m) * 2 ^ nat (e - 1075)
                       else (2 ^ 52 + m) div 2 ^ nat (1075 - e)) in
            Inr (if sign = 1 then - mag else mag)))"

definition as_C_long :: "int \<Rightarrow> 64 word \<times> pyexc option" where
  "as_C_long n =
     (if - (2 ^ 63) \<le> n \<and> n < 2 ^ 63 then (word_of_int n, None) else (- 1, Some OverflowError))"

definition as_C_unsigned_long :: "int \<Rightarrow> 64 word \<times> pyexc option" where
  "as_C_unsigned_long n =
     (if 0 \<le> n \<and> n < 2 ^ 64 then (word_of_int n, None) else (- 1, Some OverflowError))"

fun PyInt_AsLong :: "pyobj \<Rightarrow> 64 word \<times> pyexc option" where
  "PyInt_AsLong (PyInt n) = as_C_long n"
| "PyInt_AsLong (PyLong n) = as_C_long n"
| "PyInt_AsLong (PyBool b) = as_C_long (if b then 1 else 0)"
| "PyInt_AsLong x = (- 1, Some TypeError)"

definition PyLong_AsLongLong :: "pyobj \<Rightarrow> 64 word \<times> pyexc option" where
  "PyLong_AsLongLong x = PyInt_AsLong x"

definition PyLong_AsLong :: "AerospikeClient \<Rightarrow> pyobj \<Rightarrow> 64 word \<times> pyexc option" where
  "PyLong_AsLong self x =
     (if PyInt_Check x \<or> PyLong_Check x then PyInt_AsLong x
      else if PyFloat_Check x
      then (case float_trunc (PyFloat_AsDouble x) of
              Inl exc \<Rightarrow> (- 1, Some exc)
            | Inr n \<Rightarrow> as_C_long n)
      else (case x of
              PyInstance tn attrs \<Rightarrow>
                (case nb_int self x of
                   None \<Rightarrow> (- 1, Some TypeError)
                 | Some n \<Rightarrow> as_C_long n)
            | _ \<Rightarrow> (- 1, Some TypeError)))"

fun PyLong_AsUnsignedLong :: "pyobj \<Rightarrow> 64 word \<times> pyexc option" where
  "PyLong_AsUnsignedLong (PyInt n) = as_C_unsigned_long n"
| "PyLong_AsUnsignedLong (PyLong n) = as_C_unsigned_long n"
| "PyLong_AsUnsignedLong (PyBool b) = as_C_unsigned_long (if b then 1 else 0)"
| "PyLong_AsUnsignedLong x = (- 1, Some TypeError)"

fun PyObject_GetAttrString :: "pyobj \<Rightarrow> string \<Rightarrow> pyobj option" where
  "PyObject_GetAttrString (PyInstance tn attrs) name = map_of attrs name"
| "PyObject_GetAttrString x name = None"

subsection \<open>The static pool and the fallback serializer\<close>

record as_static_pool =
  current_bytes_id :: nat

text \<open>Modelled from the spec: the macro \<^verbatim>\<open>GET_BYTES_POOL\<close> of \<^verbatim>\<open>conversions.h\<close>, which is
  not among the sources. The pool has a fixed capacity and a high-water mark; taking a
  buffer from an exhausted pool is a hard error that surfaces as a client error, and
  leaves \<^verbatim>\<open>err\<close> alone otherwise.\<close>

definition GET_BYTES_POOL ::
  "AerospikeClient \<Rightarrow> as_static_pool \<Rightarrow> as_error option \<times> as_static_pool" where
  "GET_BYTES_POOL self static_pool =
     (if current_bytes_id static_pool < bytes_pool_capacity self
      then (None, static_pool\<lparr>current_bytes_id := current_bytes_id static_pool + 1\<rparr>)
      else (Some (as_error_update AEROSPIKE_ERR_CLIENT []), static_pool))"

text \<open>The block that the write converters repeat for every object that goes through the
  serializer: take an \<^verbatim>\<open>as_bytes\<close> from the pool, and if that worked serialize the object
  into it.\<close>

definition serialize_from_pool ::
  "AerospikeClient \<Rightarrow> int \<Rightarrow> pyobj option \<Rightarrow> as_static_pool
     \<Rightarrow> (as_error + as_val) \<times> as_static_pool" where
  "serialize_from_pool self serializer_type py_obj static_pool =
     (case GET_BYTES_POOL self static_pool of
        (Some e, static_pool') \<Rightarrow> (Inl e, static_pool')
      | (None, static_pool') \<Rightarrow>
          (case serialize self serializer_type py_obj of
             Inl e \<Rightarrow> (Inl e, static_pool')
           | Inr (ty, b) \<Rightarrow> (Inr (AS_BYTES ty b), static_pool')))"

text \<open>Modelled from the spec: \<^verbatim>\<open>AS_Matches_Classname\<close> and the two class names of
  \<^verbatim>\<open>cdt_types.h\<close>, which are not among the sources; the markers are detected by a match
  on the name of the object's type.\<close>

definition AS_Matches_Classname :: "pyobj \<Rightarrow> string \<Rightarrow> bool" where
  "AS_Matches_Classname py_obj name = (tp_name py_obj = name)"

definition AS_CDT_WILDCARD_NAME :: string where
  "AS_CDT_WILDCARD_NAME = ''aerospike.CDTWildcard''"

definition AS_CDT_INFINITE_NAME :: string where
  "AS_CDT_INFINITE_NAME = ''aerospike.CDTInfinite''"

text \<open>Modelled from the spec: \<^verbatim>\<open>as_hashmap\<close> of the C client. A map is an ordered
  sequence of pairs; setting a key that the map holds replaces its value.\<close>

fun as_map_set :: "(as_val \<times> as_val) list \<Rightarrow> as_val \<Rightarrow> as_val \<Rightarrow> (as_val \<times> as_val) list" where
  "as_map_set [] key val = [(key, val)]"
| "as_map_set ((k, v) # m) key val =
     (if k = key then (k, val) # m else (k, v) # as_map_set m key val)"

definition uint32_t :: "nat \<Rightarrow> nat" where
  "uint32_t n = unat (word_of_nat n :: 32 word)"

definition as_bytes_new_wrap :: "byte list \<Rightarrow> nat \<Rightarrow> as_val" where
  "as_bytes_new_wrap b n = AS_BYTES AS_BYTES_BLOB (take n b)"

subsection \<open>Python to values\<close>

text \<open>The converters thread the static pool. \<^verbatim>\<open>pyobject_to_val\<close> is never called with a
  NULL object in this file; the chain below starts at its second test.
  \<^verbatim>\<open>AerospikeGeospatial_DoDumps\<close> is taken to succeed.\<close>

function
  pyobject_to_val ::
    "AerospikeClient \<Rightarrow> int \<Rightarrow> pyobj \<Rightarrow> as_static_pool \<Rightarrow> (as_error + as_val) \<times> as_static_pool" and
  pyobject_to_list ::
    "AerospikeClient \<Rightarrow> int \<Rightarrow> pyobj list \<Rightarrow> as_static_pool
       \<Rightarrow> (as_error + as_val list) \<times> as_static_pool" and
  pyobject_to_map ::
    "AerospikeClient \<Rightarrow> int \<Rightarrow> (pyobj \<times> pyobj) list \<Rightarrow> (as_val \<times> as_val) list
       \<Rightarrow> as_static_pool \<Rightarrow> (as_error + (as_val \<times> as_val) list) \<times> as_static_pool"
where
  "pyobject_to_val self serializer_type py_obj static_pool =
     (if PyBool_Check py_obj
      then serialize_from_pool self serializer_type (Some py_obj) static_pool
      else if PyInt_Check py_obj
      then (let (i, exc) = PyInt_AsLong py_obj in
            if i = - 1 \<and> exc \<noteq> None \<and> exc = Some OverflowError
            then (Inl (as_error_update AEROSPIKE_ERR_PARAM ''integer value exceeds sys.maxsize''),
                  static_pool)
            else (Inr (AS_INTEGER i), static_pool))
      else if PyLong_Check py_obj
      then (let (l, exc) = PyLong_AsLongLong py_obj in
            if l = - 1 \<and> exc \<noteq> None \<and> exc = Some OverflowError
            then (Inl (as_error_update AEROSPIKE_ERR_PARAM ''integer value exceeds sys.maxsize''),
                  static_pool)
            else (Inr (AS_INTEGER l), static_pool))
      else if PyUnicode_Check py_obj
      then (Inr (AS_STRING (Some (PyBytes_AsString (PyUnicode_AsUTF8String py_obj)))), static_pool)
      else if PyString_Check py_obj
      then (Inr (AS_STRING (Some (PyString_AsString py_obj))), static_pool)
      else if PyBytes_Check py_obj
      then (Inr (as_bytes_new_wrap (PyBytes_buffer py_obj)
                   (uint32_t (length (PyBytes_buffer py_obj)))), static_pool)
      else if tp_name py_obj = ''aerospike.Geospatial''
      then (let py_data = PyObject_GetAttrString py_obj ''geo_data'';
                geo_value = geo_dumps self py_data in
            if has_geo self then (Inr (AS_GEOJSON geo_value), static_pool)
            else serialize_from_pool self serializer_type py_data static_pool)
      else if PyByteArray_Check py_obj
      then serialize_from_pool self serializer_type (Some py_obj) static_pool
      else if PyList_Check py_obj
      then (case pyobject_to_list self serializer_type (PyList_items py_obj) static_pool of
              (Inl e, static_pool') \<Rightarrow> (Inl e, static_pool')
            | (Inr l, static_pool') \<Rightarrow> (Inr (AS_LIST l), static_pool'))
      else if PyDict_Check py_obj
      then (case pyobject_to_map self serializer_type (PyDict_items py_obj) [] static_pool of
              (Inl e, static_pool') \<Rightarrow> (Inl e, static_pool')
            | (Inr m, static_pool') \<Rightarrow> (Inr (AS_MAP m), static_pool'))
      else if py_obj = PyNone
      then (Inr AS_NIL, static_pool)
      else if tp_name py_obj = ''aerospike.null''
      then (Inr AS_NIL, static_pool)
      else if AS_Matches_Classname py_obj AS_CDT_WILDCARD_NAME
      then (Inr AS_CMP_WILDCARD, static_pool)
      else if AS_Matches_Classname py_obj AS_CDT_INFINITE_NAME
      then (Inr AS_CMP_INF, static_pool)
      else if PyFloat_Check py_obj
      then (Inr (AS_DOUBLE (PyFloat_AsDouble py_obj)), static_pool)
      else serialize_from_pool self serializer_type (Some py_obj) static_pool)"
| "pyobject_to_list self serializer_type [] static_pool = (Inr [], static_pool)"
| "pyobject_to_list self serializer_type (py_val # py_list) static_pool =
     (case pyobject_to_val self serializer_type py_val static_pool of
        (Inl e, static_pool') \<Rightarrow> (Inl e, static_pool')
      | (Inr val, static_pool') \<Rightarrow>
          (case pyobject_to_list self serializer_type py_list static_pool' of
             (Inl e, static_pool'') \<Rightarrow> (Inl e, static_pool'')
           | (Inr l, static_pool'') \<Rightarrow> (Inr (val # l), static_pool'')))"
| "pyobject_to_map self serializer_type [] m static_pool = (Inr m, static_pool)"
| "pyobject_to_map self serializer_type ((py_key, py_val) # py_dict) m static_pool =
     (case pyobject_to_val self serializer_type py_key static_pool of
        (Inl e, static_pool') \<Rightarrow> (Inl e, static_pool')
      | (Inr key, static_pool') \<Rightarrow>
          (case pyobject_to_val self serializer_type py_val static_pool' of
             (Inl e, static_pool'') \<Rightarrow> (Inl e, static_pool'')
           | (Inr val, static_pool'') \<Rightarrow>
               pyobject_to_map self serializer_type py_dict (as_map_set m key val) static_pool''))"
  by pat_completeness auto
termination
proof -
  have l: "PyList_Check x \<Longrightarrow> size_list size (PyList_items x) < size x" for x
    by (cases x) simp_all
  have d: "PyDict_Check x \<Longrightarrow> size_list (size_prod size size) (PyDict_items x) < size x" for x
    by (cases x) simp_all
  show ?thesis
    by (relation "measure (\<lambda>x. case x of
      Inl (self, st, py_obj, p) \<Rightarrow> size py_obj
    | Inr (Inl (self, st, py_list, p)) \<Rightarrow> size_list size py_list
    | Inr (Inr (self, st, py_dict, m, p)) \<Rightarrow> size_list (size_prod size size) py_dict)")
      (simp_all add: l d)
qed


subsection \<open>Python to record\<close>

text \<open>
  What a call leaves in the structure that its caller passed for the result: nothing
  (the call never initialised it), an initialised structure that the caller now holds,
  or a structure that the call initialised and destroyed again.
\<close>

datatype 'a out_param = Untouched | Live 'a | Destroyed

text \<open>How the body of a loop ends: with the next iteration, with \<^verbatim>\<open>break\<close>, or with a
  \<^verbatim>\<open>return\<close> from the function.\<close>

datatype loop_ctl = LoopNext | LoopBreak | LoopReturn

text \<open>The variables that the loop of \<^verbatim>\<open>pyobject_to_record\<close> changes: \<^verbatim>\<open>err\<close> (\<open>None\<close> is
  \<^verbatim>\<open>AEROSPIKE_OK\<close>), the bins of \<^verbatim>\<open>rec\<close>, \<^verbatim>\<open>ret_val\<close> and the pool.\<close>

record record_build =
  rb_err :: "as_error option"
  rb_bins :: "(string \<times> as_val) list"
  rb_ret_val :: bool
  rb_pool :: as_static_pool

text \<open>Modelled from the spec: the setters of \<^verbatim>\<open>as_record\<close> in the C client
  (\<^verbatim>\<open>as_record_set_int64\<close>, \<^verbatim>\<open>as_record_set_strp\<close>, ...). The bins are an ordered mapping
  from names to values: a setter replaces the value of a bin of that name, or appends a
  bin while the record has room for one; it returns false, and changes nothing, when the
  name is longer than the client allows or the record is full.\<close>

fun bins_update :: "(string \<times> as_val) list \<Rightarrow> string \<Rightarrow> as_val \<Rightarrow> (string \<times> as_val) list" where
  "bins_update [] name val = [(name, val)]"
| "bins_update ((n, v) # bs) name val =
     (if n = name then (n, val) # bs else (n, v) # bins_update bs name val)"

definition as_record_set ::
  "AerospikeClient \<Rightarrow> nat \<Rightarrow> string \<Rightarrow> as_val \<Rightarrow> record_build \<Rightarrow> record_build" where
  "as_record_set self capacity name val st =
     (if AS_BIN_NAME_MAX_LEN self < strlen name then st\<lparr>rb_ret_val := False\<rparr>
      else if map_of (rb_bins st) name \<noteq> None \<or> length (rb_bins st) < capacity
      then st\<lparr>rb_bins := bins_update (rb_bins st) name val, rb_ret_val := True\<rparr>
      else st\<lparr>rb_ret_val := False\<rparr>)"

definition record_set_serialized ::
  "AerospikeClient \<Rightarrow> int \<Rightarrow> nat \<Rightarrow> string \<Rightarrow> pyobj option \<Rightarrow> record_build
     \<Rightarrow> loop_ctl \<times> record_build" where
  "record_set_serialized self serializer_type capacity name py_obj st =
     (case GET_BYTES_POOL self (rb_pool st) of
        (pool_err, static_pool') \<Rightarrow>
          (let st1 = st\<lparr>rb_pool := static_pool',
                        rb_err := (case pool_err of Some e \<Rightarrow> Some e | None \<Rightarrow> rb_err st)\<rparr> in
           if rb_err st1 = None
           then (case serialize self serializer_type py_obj of
                   Inl e \<Rightarrow> (LoopReturn, st1\<lparr>rb_err := Some e\<rparr>)
                 | Inr (ty, b) \<Rightarrow> (LoopNext, as_record_set self capacity name (AS_BYTES ty b) st1))
           else (LoopNext, st1)))"

definition pyobject_to_record_value ::
  "AerospikeClient \<Rightarrow> int \<Rightarrow> nat \<Rightarrow> string \<Rightarrow> pyobj \<Rightarrow> record_build \<Rightarrow> loop_ctl \<times> record_build" where
  "pyobject_to_record_value self serializer_type capacity name val st =
     (if PyBool_Check val
      then record_set_serialized self serializer_type capacity name (Some val) st
      else if PyInt_Check val
      then (let (v, exc) = PyInt_AsLong val in
            if v = - 1 \<and> exc \<noteq> None \<and> exc = Some OverflowError
            then (LoopReturn, st\<lparr>rb_err := Some (as_error_update AEROSPIKE_ERR_PARAM
                                                     ''integer value exceeds sys.maxsize'')\<rparr>)
            else (LoopNext, as_record_set self capacity name (AS_INTEGER v) st))
      else if PyLong_Check val
      then (let (v, exc) = PyLong_AsLongLong val in
            if v = - 1 \<and> exc \<noteq> None \<and> exc = Some OverflowError
            then (LoopReturn, st\<lparr>rb_err := Some (as_error_update AEROSPIKE_ERR_PARAM
                                                     ''integer value exceeds sys.maxsize'')\<rparr>)
            else (LoopNext, as_record_set self capacity name (AS_INTEGER v) st))
      else if tp_name val = ''aerospike.Geospatial''
      then (let py_data = PyObject_GetAttrString val ''geo_data'';
                geo_value = geo_dumps self py_data in
            if has_geo self
            then (LoopNext, as_record_set self capacity name (AS_GEOJSON geo_value) st)
            else record_set_serialized self serializer_type capacity name py_data st)
      else if PyUnicode_Check val
      then (LoopNext, as_record_set self capacity name
                        (AS_STRING (Some (PyBytes_AsString (PyUnicode_AsUTF8String val)))) st)
      else if PyString_Check val
      then (LoopNext, as_record_set self capacity name (AS_STRING (Some (PyString_AsString val))) st)
      else if PyByteArray_Check val
      then record_set_serialized self serializer_type capacity name (Some val) st
      else if PyList_Check val
      then (case pyobject_to_list self serializer_type (PyList_items val) (rb_pool st) of
              (Inl e, static_pool') \<Rightarrow> (LoopBreak, st\<lparr>rb_err := Some e, rb_pool := static_pool'\<rparr>)
            | (Inr l, static_pool') \<Rightarrow>
                (LoopNext, as_record_set self capacity name (AS_LIST l)
                             (st\<lparr>rb_err := None, rb_pool := static_pool'\<rparr>)))
      else if PyDict_Check val
      then (case pyobject_to_map self serializer_type (PyDict_items val) [] (rb_pool st) of
              (Inl e, static_pool') \<Rightarrow> (LoopBreak, st\<lparr>rb_err := Some e, rb_pool := static_pool'\<rparr>)
            | (Inr m, static_pool') \<Rightarrow>
                (LoopNext, as_record_set self capacity name (AS_MAP m)
                             (st\<lparr>rb_err := None, rb_pool := static_pool'\<rparr>)))
      else if tp_name val = ''aerospike.null''
      then (LoopNext, as_record_set self capacity name AS_NIL st)
      else if PyFloat_Check val
      then (LoopNext, as_record_set self capacity name (AS_DOUBLE (PyFloat_AsDouble val)) st)
      else record_set_serialized self serializer_type capacity name (Some val) st)"

definition pyobject_to_record_bin ::
  "AerospikeClient \<Rightarrow> int \<Rightarrow> nat \<Rightarrow> pyobj \<Rightarrow> pyobj \<Rightarrow> record_build \<Rightarrow> loop_ctl \<times> record_build" where
  "pyobject_to_record_bin self serializer_type capacity key val st =
     (if \<not> PyUnicode_Check key \<and> \<not> PyString_Check key
      then (LoopReturn, st\<lparr>rb_err := Some (as_error_update AEROSPIKE_ERR_CLIENT
                                               ''A bin name must be a string or unicode string.'')\<rparr>)
      else
        (let name = (if PyUnicode_Check key then PyBytes_AsString (PyUnicode_AsUTF8String key)
                     else PyString_AsString key) in
         if strict_types self \<and> AS_BIN_NAME_MAX_LEN self < strlen name
         then (LoopReturn, st\<lparr>rb_err := Some (as_error_update AEROSPIKE_ERR_BIN_NAME
                                  ''A bin name should not exceed 14 characters limit'')\<rparr>)
         else
           (case pyobject_to_record_value self serializer_type capacity name val st of
              (ctl, st') \<Rightarrow>
                if ctl \<noteq> LoopNext then (ctl, st')
                else if strict_types self \<and> \<not> rb_ret_val st'
                then (LoopReturn, st'\<lparr>rb_err := Some (as_error_update AEROSPIKE_ERR_BIN_NAME
                                                          ''Unable to set key-value pair'')\<rparr>)
                else (LoopNext, st'))))"

fun pyobject_to_record_loop ::
  "AerospikeClient \<Rightarrow> int \<Rightarrow> nat \<Rightarrow> (pyobj \<times> pyobj) list \<Rightarrow> record_build
     \<Rightarrow> loop_ctl \<times> record_build" where
  "pyobject_to_record_loop self serializer_type capacity [] st = (LoopNext, st)"
| "pyobject_to_record_loop self serializer_type capacity ((key, val) # py_rec) st =
     (case pyobject_to_record_bin self serializer_type capacity key val st of
        (ctl, st') \<Rightarrow>
          if ctl = LoopNext then pyobject_to_record_loop self serializer_type capacity py_rec st'
          else (ctl, st'))"

text \<open>The metadata block of \<^verbatim>\<open>pyobject_to_record\<close>: the conversion of \<^verbatim>\<open>ttl\<close>
  (\<open>record_meta_ttl\<close>), that of \<^verbatim>\<open>gen\<close> (\<open>record_meta_gen\<close>), and the block itself. A
  conversion leaves its Python exception pending, so the test on \<^verbatim>\<open>gen\<close> also sees one
  raised for \<^verbatim>\<open>ttl\<close>.\<close>

definition record_meta_ttl ::
  "pyobj \<Rightarrow> as_error option \<Rightarrow> as_error option \<times> 32 word \<times> pyexc option" where
  "record_meta_ttl py_ttl err =
     (if PyInt_Check py_ttl
      then (let (v, exc) = PyInt_AsLong py_ttl;
                rec_ttl = (ucast v :: 32 word) in
            (if rec_ttl = - 1 \<and> exc \<noteq> None \<and> exc = Some OverflowError
             then Some (as_error_update AEROSPIKE_ERR_PARAM ''integer value exceeds sys.maxsize'')
             else err, rec_ttl, exc))
      else if PyLong_Check py_ttl
      then (let (v, exc) = PyLong_AsLongLong py_ttl;
                rec_ttl = (ucast v :: 32 word) in
            (if rec_ttl = - 1 \<and> exc \<noteq> None \<and> exc = Some OverflowError
             then Some (as_error_update AEROSPIKE_ERR_PARAM ''integer value exceeds sys.maxsize'')
             else err, rec_ttl, exc))
      else (Some (as_error_update AEROSPIKE_ERR_PARAM ''TTL should be an int or long''), 0, None))"

definition record_meta_gen ::
  "pyobj \<Rightarrow> as_error option \<Rightarrow> pyexc option \<Rightarrow> as_error option \<times> 16 word" where
  "record_meta_gen py_gen err pending =
     (if PyInt_Check py_gen
      then (let (v, exc) = PyInt_AsLong py_gen;
                occurred = (case exc of Some x \<Rightarrow> Some x | None \<Rightarrow> pending);
                rec_gen = (ucast v :: 16 word) in
            (if rec_gen = - 1 \<and> occurred \<noteq> None \<and> occurred = Some OverflowError
             then Some (as_error_update AEROSPIKE_ERR_PARAM ''integer value exceeds sys.maxsize'')
             else err, rec_gen))
      else if PyLong_Check py_gen
      then (let (v, exc) = PyLong_AsLongLong py_gen;
                occurred = (case exc of Some x \<Rightarrow> Some x | None \<Rightarrow> pending);
                rec_gen = (ucast v :: 16 word) in
            (if rec_gen = - 1 \<and> occurred \<noteq> None \<and> occurred = Some OverflowError
             then Some (as_error_update AEROSPIKE_ERR_PARAM ''integer value exceeds sys.maxsize'')
             else err, rec_gen))
      else (Some (as_error_update AEROSPIKE_ERR_PARAM ''Generation should be an int or long''),
            0))"

definition pyobject_to_record_meta ::
  "pyobj option \<Rightarrow> as_error option \<Rightarrow> as_error option \<times> 16 word \<times> 32 word" where
  "pyobject_to_record_meta py_meta err =
     (if py_meta \<noteq> None \<and> py_meta \<noteq> Some PyNone
      then
        (if \<not> PyDict_Check (the py_meta)
         then (Some (as_error_update AEROSPIKE_ERR_PARAM ''meta must be a dictionary''), 0, 0)
         else
           (let py_gen = PyDict_GetItemString (PyDict_items (the py_meta)) ''gen'';
                py_ttl = PyDict_GetItemString (PyDict_items (the py_meta)) ''ttl'';
                (err1, rec_ttl, pending) =
                  (case py_ttl of
                     None \<Rightarrow> (err, 0, None)
                   | Some t \<Rightarrow> record_meta_ttl t err);
                (err2, rec_gen) =
                  (case py_gen of
                     None \<Rightarrow> (err1, 0)
                   | Some g \<Rightarrow> record_meta_gen g err1 pending)
            in (err2, rec_gen, rec_ttl)))
      else (err, 0, 0))"

definition as_key_empty :: as_key where
  "as_key_empty =
     \<lparr>key_ns = [], key_set = [], key_valuep = None,
      key_digest = \<lparr>init = False, digest_value = []\<rparr>\<rparr>"

definition uint16_t :: "nat \<Rightarrow> nat" where
  "uint16_t n = unat (word_of_nat n :: 16 word)"

text \<open>\<^verbatim>\<open>pyobject_to_record\<close> returns the error (\<open>None\<close> is \<^verbatim>\<open>AEROSPIKE_OK\<close>), what it
  leaves in \<^verbatim>\<open>rec\<close>, and the pool.\<close>

definition pyobject_to_record ::
  "AerospikeClient \<Rightarrow> pyobj option \<Rightarrow> pyobj option \<Rightarrow> int \<Rightarrow> as_static_pool
     \<Rightarrow> as_error option \<times> as_record out_param \<times> as_static_pool" where
  "pyobject_to_record self py_rec py_meta serializer_type static_pool =
     (case py_rec of
        None \<Rightarrow> (Some (as_error_update AEROSPIKE_ERR_CLIENT ''record is null''), Untouched,
                 static_pool)
      | Some r \<Rightarrow>
          if PyDict_Check r
          then
            (let size = length (PyDict_items r);
                 st0 = \<lparr>rb_err = None, rb_bins = [], rb_ret_val = False, rb_pool = static_pool\<rparr>
             in case pyobject_to_record_loop self serializer_type (uint16_t size)
                       (PyDict_items r) st0 of
                  (ctl, st) \<Rightarrow>
                    if ctl = LoopReturn
                    then (rb_err st, Live (As_record as_key_empty 0 0 (rb_bins st)), rb_pool st)
                    else
                      (case pyobject_to_record_meta py_meta (rb_err st) of
                         (err, rec_gen, rec_ttl) \<Rightarrow>
                           if err \<noteq> None then (err, Destroyed, rb_pool st)
                           else (None, Live (As_record as_key_empty rec_gen rec_ttl (rb_bins st)),
                                 rb_pool st)))
          else (Some (as_error_update AEROSPIKE_ERR_PARAM
                        ''Record should be passed as bin-value pair''), Untouched, static_pool))"

subsection \<open>Metadata of an operation\<close>

record as_operations =
  ops_gen :: "16 word"
  ops_ttl :: "32 word"

text \<open>\<^verbatim>\<open>check_for_meta\<close> returns the error and the operations as it leaves them;
  \<open>check_for_meta_ttl\<close> and \<open>check_for_meta_gen\<close> are its two blocks.\<close>

definition check_for_meta_ttl :: "pyobj \<Rightarrow> as_operations \<Rightarrow> as_error option \<times> as_operations" where
  "check_for_meta_ttl py_ttl ops =
     (if \<not> PyInt_Check py_ttl \<and> \<not> PyLong_Check py_ttl
      then (Some (as_error_update AEROSPIKE_ERR_PARAM ''Ttl should be an int or long''), ops)
      else (let (v, exc) = (if PyInt_Check py_ttl then PyInt_AsLong py_ttl
                            else PyLong_AsLongLong py_ttl);
                ttl' = (ucast v :: 32 word) in
            if - 1 = ttl' \<and> exc \<noteq> None
            then (Some (as_error_update AEROSPIKE_ERR_PARAM
                          ''integer value for ttl exceeds sys.maxsize''), ops)
            else (None, ops\<lparr>ops_ttl := ttl'\<rparr>)))"

definition check_for_meta_gen :: "pyobj \<Rightarrow> as_operations \<Rightarrow> as_error option \<times> as_operations" where
  "check_for_meta_gen py_gen ops =
     (if \<not> PyInt_Check py_gen \<and> \<not> PyLong_Check py_gen
      then (Some (as_error_update AEROSPIKE_ERR_PARAM ''Generation should be an int or long''),
            ops)
      else (let (v, exc) = (if PyInt_Check py_gen then PyInt_AsLong py_gen
                            else PyLong_AsLongLong py_gen);
                gen' = (ucast v :: 16 word) in
            if - 1 = gen' \<and> exc \<noteq> None
            then (Some (as_error_update AEROSPIKE_ERR_PARAM
                          ''integer value for gen exceeds sys.maxsize''), ops)
            else (None, ops\<lparr>ops_gen := gen'\<rparr>)))"

definition check_for_meta ::
  "pyobj option \<Rightarrow> as_operations \<Rightarrow> as_error option \<times> as_operations" where
  "check_for_meta py_meta ops =
     (if py_meta \<noteq> None \<and> PyDict_Check (the py_meta)
      then
        (let py_gen = PyDict_GetItemString (PyDict_items (the py_meta)) ''gen'';
             py_ttl = PyDict_GetItemString (PyDict_items (the py_meta)) ''ttl'' in
         case (case py_ttl of
                 None \<Rightarrow> (None, ops)
               | Some t \<Rightarrow> check_for_meta_ttl t ops) of
           (Some e, ops1) \<Rightarrow> (Some e, ops1)
         | (None, ops1) \<Rightarrow>
             (case py_gen of
                None \<Rightarrow> (None, ops1)
              | Some g \<Rightarrow> check_for_meta_gen g ops1))
      else if py_meta \<noteq> None \<and> py_meta \<noteq> Some PyNone
      then (Some (as_error_update AEROSPIKE_ERR_PARAM ''Metadata should be of type dictionary''),
            ops)
      else (None, ops))"

subsection \<open>Python to key\<close>

text \<open>\<^verbatim>\<open>%d\<close> of a C \<^verbatim>\<open>int\<close>, for the message about the size of a digest.\<close>

definition digit_char :: "nat \<Rightarrow> char" where
  "digit_char n = ''0123456789'' ! (n mod 10)"

function nat_to_dec :: "nat \<Rightarrow> string" where
  "nat_to_dec n = (if n < 10 then [digit_char n] else nat_to_dec (n div 10) @ [digit_char n])"
  by pat_completeness auto
termination
  by (relation "measure id") auto

definition printf_d :: "int \<Rightarrow> string" where
  "printf_d i = (if i < 0 then CHR ''-'' # nat_to_dec (nat (- i)) else nat_to_dec (nat i))"

text \<open>Modelled from the spec: the key initialisers of the C client
  (\<^verbatim>\<open>as_key_init_strp\<close>, \<^verbatim>\<open>as_key_init_int64\<close>, \<^verbatim>\<open>as_key_init_raw\<close>,
  \<^verbatim>\<open>as_key_init_digest\<close>). They store the namespace, the set (a NULL set is the empty
  set) and either a value or a digest, and return NULL when the client does not accept
  the namespace and set; \<open>key_ok\<close> is that test.\<close>

definition as_key_init ::
  "(string \<Rightarrow> string \<Rightarrow> bool) \<Rightarrow> string \<Rightarrow> string option \<Rightarrow> as_key_value option \<Rightarrow> as_digest
     \<Rightarrow> as_key option" where
  "as_key_init key_ok ns set_name valuep dig =
     (let set' = (case set_name of None \<Rightarrow> [] | Some s \<Rightarrow> s) in
      if key_ok ns set'
      then Some \<lparr>key_ns = ns, key_set = set', key_valuep = valuep, key_digest = dig\<rparr>
      else None)"

definition no_digest :: as_digest where
  "no_digest = \<lparr>init = False, digest_value = []\<rparr>"

text \<open>\<^verbatim>\<open>pyobject_to_key\<close> in the order of its source: the test of \<^verbatim>\<open>py_set\<close>
  (\<open>pyobject_to_key_set\<close>), the initialisation from a user key
  (\<open>pyobject_to_key_value\<close>) or else from a digest (\<open>pyobject_to_key_digest\<close>), the
  part from the test of \<^verbatim>\<open>py_ns\<close> on that puts them together
  (\<open>pyobject_to_key_parts\<close>), and the function itself, which starts by reading the
  four objects from a tuple or a dictionary.

  The choice between key and digest gives either an error that was recorded (and
  \<^verbatim>\<open>returnResult\<close> is still the pointer it started with) or the pointer that an
  initialiser returned.\<close>

definition pyobject_to_key_set :: "pyobj option \<Rightarrow> as_error + string option" where
  "pyobject_to_key_set py_set =
     (if py_set \<noteq> None \<and> py_set \<noteq> Some PyNone
      then (if PyString_Check (the py_set)
            then Inr (Some (PyString_AsString (the py_set)))
            else if PyUnicode_Check (the py_set)
            then Inr (Some (PyBytes_AsString (PyUnicode_AsUTF8String (the py_set))))
            else Inl (as_error_update AEROSPIKE_ERR_PARAM ''set must be a string''))
      else Inr None)"

definition pyobject_to_key_value ::
  "(string \<Rightarrow> string \<Rightarrow> bool) \<Rightarrow> string \<Rightarrow> string option \<Rightarrow> pyobj
     \<Rightarrow> as_error + as_key option" where
  "pyobject_to_key_value key_ok ns set_name py_key =
     (if PyUnicode_Check py_key
      then Inr (as_key_init key_ok ns set_name
                  (Some (KEY_STRING (PyBytes_AsString (PyUnicode_AsUTF8String py_key))))
                  no_digest)
      else if PyString_Check py_key
      then Inr (as_key_init key_ok ns set_name
                  (Some (KEY_STRING (PyString_AsString py_key))) no_digest)
      else if PyInt_Check py_key
      then (let (k, exc) = PyInt_AsLong py_key in
            if - 1 = k \<and> exc \<noteq> None
            then Inl (as_error_update AEROSPIKE_ERR_PARAM
                        ''integer value for KEY exceeds sys.maxsize'')
            else Inr (as_key_init key_ok ns set_name (Some (KEY_INTEGER k)) no_digest))
      else if PyLong_Check py_key
      then (let (k, exc) = PyLong_AsLongLong py_key in
            if - 1 = k \<and> exc \<noteq> None
            then Inl (as_error_update AEROSPIKE_ERR_PARAM
                        ''integer value for KEY exceeds sys.maxsize'')
            else Inr (as_key_init key_ok ns set_name (Some (KEY_INTEGER k)) no_digest))
      else if PyByteArray_Check py_key
      then (let sz = uint32_t (length (PyByteArray_AsString py_key)) in
            if sz \<le> 0
            then Inl (as_error_update AEROSPIKE_ERR_PARAM ''Byte array size cannot be 0'')
            else Inr (as_key_init key_ok ns set_name
                        (Some (KEY_BYTES (take sz (PyByteArray_AsString py_key)))) no_digest))
      else if PyBytes_Check py_key
      then Inr (as_key_init key_ok ns set_name
                  (Some (KEY_STRING (PyBytes_AsString py_key))) no_digest)
      else Inl (as_error_update AEROSPIKE_ERR_PARAM ''key is invalid''))"

definition pyobject_to_key_digest ::
  "(string \<Rightarrow> string \<Rightarrow> bool) \<Rightarrow> string \<Rightarrow> string option \<Rightarrow> pyobj
     \<Rightarrow> as_error + as_key option" where
  "pyobject_to_key_digest key_ok ns set_name py_digest =
     (if PyByteArray_Check py_digest
      then (let sz = uint32_t (length (PyByteArray_AsString py_digest)) in
            if sz \<noteq> AS_DIGEST_VALUE_SIZE
            then Inl (as_error_update AEROSPIKE_ERR_PARAM
                        (''digest size is invalid. should be 20 bytes, but received ''
                           @ printf_d (sint (word_of_nat sz :: 32 word))))
            else Inr (as_key_init key_ok ns set_name None
                        \<lparr>init = True,
                         digest_value = take AS_DIGEST_VALUE_SIZE
                                          (PyByteArray_AsString py_digest)\<rparr>))
      else Inl (as_error_update AEROSPIKE_ERR_PARAM ''digest is invalid. expected a bytearray''))"

definition pyobject_to_key_parts ::
  "(string \<Rightarrow> string \<Rightarrow> bool) \<Rightarrow> pyobj option \<Rightarrow> pyobj option \<Rightarrow> pyobj option \<Rightarrow> pyobj option
     \<Rightarrow> as_error + as_key" where
  "pyobject_to_key_parts key_ok py_ns py_set py_key py_digest =
     (case py_ns of
        None \<Rightarrow> Inl (as_error_update AEROSPIKE_ERR_PARAM ''namespace is required'')
      | Some py_ns' \<Rightarrow>
          if \<not> PyString_Check py_ns'
          then Inl (as_error_update AEROSPIKE_ERR_PARAM ''namespace must be a string'')
          else
            (let ns = PyString_AsString py_ns' in
             case pyobject_to_key_set py_set of
               Inl e \<Rightarrow> Inl e
             | Inr set_name \<Rightarrow>
                 (case (if py_key \<noteq> None \<and> py_key \<noteq> Some PyNone
                        then pyobject_to_key_value key_ok ns set_name (the py_key)
                        else if py_digest \<noteq> None \<and> py_digest \<noteq> Some PyNone
                        then pyobject_to_key_digest key_ok ns set_name (the py_digest)
                        else Inl (as_error_update AEROSPIKE_ERR_PARAM
                                    ''either key or digest is required'')) of
                    Inl e \<Rightarrow> Inl e
                  | Inr returnResult \<Rightarrow>
                      (case returnResult of
                         None \<Rightarrow> Inl (as_error_update AEROSPIKE_ERR_PARAM ''key is invalid'')
                       | Some key \<Rightarrow> Inr key))))"

definition pyobject_to_key ::
  "(string \<Rightarrow> string \<Rightarrow> bool) \<Rightarrow> pyobj option \<Rightarrow> as_error + as_key" where
  "pyobject_to_key key_ok py_keytuple =
     (case py_keytuple of
        None \<Rightarrow> Inl (as_error_update AEROSPIKE_ERR_PARAM ''key is null'')
      | Some kt \<Rightarrow>
          if PyTuple_Check kt
          then (let size = length (PyTuple_items kt) in
                if size < 3 \<or> size > 4
                then Inl (as_error_update AEROSPIKE_ERR_PARAM
                  ''key tuple must be (Namespace, Set, Key) or (Namespace, Set, None, Digest)'')
                else pyobject_to_key_parts key_ok
                       (Some (PyTuple_items kt ! 0)) (Some (PyTuple_items kt ! 1))
                       (Some (PyTuple_items kt ! 2))
                       (if size = 4 then Some (PyTuple_items kt ! 3) else None))
          else if PyDict_Check kt
          then pyobject_to_key_parts key_ok
                 (PyDict_GetItemString (PyDict_items kt) ''ns'')
                 (PyDict_GetItemString (PyDict_items kt) ''set'')
                 (PyDict_GetItemString (PyDict_items kt) ''key'')
                 (PyDict_GetItemString (PyDict_items kt) ''digest'')
          else Inl (as_error_update AEROSPIKE_ERR_PARAM ''key is invalid''))"

subsection \<open>The context of a nested operation\<close>

text \<open>The kinds of a context step are the constants of the C client's
  \<^verbatim>\<open>as_cdt_ctx.h\<close>. An item of the context holds its kind and either an integer or a
  value.\<close>

definition AS_CDT_CTX_LIST_INDEX :: "64 word" where "AS_CDT_CTX_LIST_INDEX = 0x10"
definition AS_CDT_CTX_LIST_RANK :: "64 word" where "AS_CDT_CTX_LIST_RANK = 0x11"
definition AS_CDT_CTX_LIST_VALUE :: "64 word" where "AS_CDT_CTX_LIST_VALUE = 0x13"
definition AS_CDT_CTX_MAP_INDEX :: "64 word" where "AS_CDT_CTX_MAP_INDEX = 0x20"
definition AS_CDT_CTX_MAP_RANK :: "64 word" where "AS_CDT_CTX_MAP_RANK = 0x21"
definition AS_CDT_CTX_MAP_KEY :: "64 word" where "AS_CDT_CTX_MAP_KEY = 0x22"
definition AS_CDT_CTX_MAP_VALUE :: "64 word" where "AS_CDT_CTX_MAP_VALUE = 0x23"

definition requires_int :: "64 word \<Rightarrow> bool" where
  "requires_int op =
     (op = AS_CDT_CTX_LIST_INDEX \<or> op = AS_CDT_CTX_LIST_RANK \<or>
      op = AS_CDT_CTX_MAP_INDEX \<or> op = AS_CDT_CTX_MAP_RANK)"

datatype as_cdt_ctx_value = Ival "32 word" | Pval as_val

type_synonym as_cdt_ctx = "(64 word \<times> as_cdt_ctx_value) list"

definition as_cdt_ctx_add_int :: "as_cdt_ctx \<Rightarrow> 64 word \<Rightarrow> 32 word \<Rightarrow> as_cdt_ctx" where
  "as_cdt_ctx_add_int ctx item_type int_val = ctx @ [(item_type, Ival int_val)]"

definition as_cdt_ctx_add_val :: "as_cdt_ctx \<Rightarrow> 64 word \<Rightarrow> as_val \<Rightarrow> as_cdt_ctx" where
  "as_cdt_ctx_add_val ctx item_type val = ctx @ [(item_type, Pval val)]"

definition CTX_KEY :: string where
  "CTX_KEY = ''ctx''"

text \<open>The loop of \<^verbatim>\<open>get_cdt_ctx\<close> over the steps. It returns the error (\<open>None\<close> is
  \<^verbatim>\<open>AEROSPIKE_OK\<close>), what is left in \<^verbatim>\<open>cdt_ctx\<close>, and the pool.\<close>

fun get_cdt_ctx_loop ::
  "AerospikeClient \<Rightarrow> int \<Rightarrow> pyobj list \<Rightarrow> as_cdt_ctx \<Rightarrow> as_static_pool
     \<Rightarrow> as_error option \<times> as_cdt_ctx out_param \<times> as_static_pool" where
  "get_cdt_ctx_loop self serializer_type [] cdt_ctx static_pool =
     (None, Live cdt_ctx, static_pool)"
| "get_cdt_ctx_loop self serializer_type (py_val # py_ctx) cdt_ctx static_pool =
     (case PyObject_GetAttrString py_val ''id'' of
        None \<Rightarrow> (Some (as_error_update AEROSPIKE_ERR_PARAM (''Failed to convert '' @ CTX_KEY)),
                 Destroyed, static_pool)
      | Some id_temp \<Rightarrow>
          (case PyObject_GetAttrString py_val ''value'' of
             None \<Rightarrow> (Some (as_error_update AEROSPIKE_ERR_PARAM (''Failed to convert '' @ CTX_KEY)),
                      Destroyed, static_pool)
           | Some value_temp \<Rightarrow>
               (let (item_type, exc) = PyLong_AsUnsignedLong id_temp in
                if exc \<noteq> None
                then (Some (as_error_update AEROSPIKE_ERR_PARAM (''Failed to convert '' @ CTX_KEY)),
                      Destroyed, static_pool)
                else if requires_int item_type
                then (let (v, exc') = PyLong_AsLong self value_temp;
                          int_val = (ucast v :: 32 word) in
                      if exc' \<noteq> None
                      then (Some (as_error_update AEROSPIKE_ERR_PARAM
                                    (''Failed to convert '' @ CTX_KEY)), Destroyed, static_pool)
                      else if item_type = AS_CDT_CTX_LIST_INDEX \<or> item_type = AS_CDT_CTX_LIST_RANK
                              \<or> item_type = AS_CDT_CTX_MAP_INDEX \<or> item_type = AS_CDT_CTX_MAP_RANK
                      then get_cdt_ctx_loop self serializer_type py_ctx
                             (as_cdt_ctx_add_int cdt_ctx item_type int_val) static_pool
                      else (Some (as_error_update AEROSPIKE_ERR_PARAM
                                    (''Failed to convert, unknown ctx operation '' @ CTX_KEY)),
                            Destroyed, static_pool))
                else (case pyobject_to_val self serializer_type value_temp static_pool of
                        (Inl e, static_pool') \<Rightarrow>
                          (Some (as_error_update AEROSPIKE_ERR_PARAM
                                   (''Failed to convert '' @ CTX_KEY)), Live cdt_ctx, static_pool')
                      | (Inr val, static_pool') \<Rightarrow>
                          if item_type = AS_CDT_CTX_LIST_VALUE \<or> item_type = AS_CDT_CTX_MAP_KEY
                             \<or> item_type = AS_CDT_CTX_MAP_VALUE
                          then get_cdt_ctx_loop self serializer_type py_ctx
                                 (as_cdt_ctx_add_val cdt_ctx item_type val) static_pool'
                          else (Some (as_error_update AEROSPIKE_ERR_PARAM
                                        (''Failed to convert, unknown ctx operation '' @ CTX_KEY)),
                                Destroyed, static_pool')))))"

text \<open>\<^verbatim>\<open>get_cdt_ctx\<close> also returns whether it has set \<^verbatim>\<open>*ctx_in_use\<close>.\<close>

definition get_cdt_ctx ::
  "AerospikeClient \<Rightarrow> pyobj \<Rightarrow> as_static_pool \<Rightarrow> int
     \<Rightarrow> as_error option \<times> as_cdt_ctx out_param \<times> bool \<times> as_static_pool" where
  "get_cdt_ctx self op_dict static_pool serializer_type =
     (case PyDict_GetItemString (PyDict_items op_dict) CTX_KEY of
        None \<Rightarrow> (None, Untouched, False, static_pool)
      | Some py_ctx \<Rightarrow>
          if PyList_Check py_ctx
          then (case get_cdt_ctx_loop self serializer_type (PyList_items py_ctx) [] static_pool of
                  (err, cdt_ctx, static_pool') \<Rightarrow> (err, cdt_ctx, True, static_pool'))
          else (Some (as_error_update AEROSPIKE_ERR_PARAM (''Failed to convert '' @ CTX_KEY)),
                Destroyed, True, static_pool))"

subsection \<open>The validity of a key, in the words of the specification\<close>

text \<open>A field of a key is supplied when it is neither absent (a NULL pointer) nor
  \<^verbatim>\<open>None\<close>. \<open>claimed_key_validity\<close> is the condition under which the specification
  says that \<^verbatim>\<open>pyobject_to_key\<close> succeeds: the namespace is a non-empty text and exactly
  one of user key and digest is supplied.\<close>

definition present :: "pyobj option \<Rightarrow> bool" where
  "present p = (p \<noteq> None \<and> p \<noteq> Some PyNone)"

definition claimed_key_validity :: "pyobj option \<Rightarrow> pyobj option \<Rightarrow> pyobj option \<Rightarrow> bool" where
  "claimed_key_validity py_ns py_key py_digest =
     ((case py_ns of
         Some (PyString s) \<Rightarrow> s \<noteq> []
       | Some (PyUnicode s) \<Rightarrow> s \<noteq> []
       | _ \<Rightarrow> False)
      \<and> present py_key \<noteq> present py_digest)"

subsection \<open>A client for the examples\<close>

text \<open>The serializer of \<open>example_client\<close> stores a byte array as a blob and a boolean as
  one byte of another class of payloads; it refuses every other object. Its deserializer
  reads a blob back into a byte array.\<close>

definition example_client :: AerospikeClient where
  "example_client =
     \<lparr>strict_types = False, has_geo = True,
      serialize = (\<lambda>serializer_type py_obj.
         case py_obj of
           Some (PyByteArray b) \<Rightarrow> Inr (AS_BYTES_BLOB, b)
         | Some (PyBool b) \<Rightarrow> Inr (AS_BYTES_TYPE 9, [if b then 1 else 0])
         | _ \<Rightarrow> Inl (as_error_update AEROSPIKE_ERR_CLIENT [])),
      deserialize = (\<lambda>ty b.
         if ty = AS_BYTES_BLOB then Inr (PyByteArray b)
         else Inl (as_error_update AEROSPIKE_ERR_CLIENT [])),
      geo_dumps = (\<lambda>py_data. []),
      geo_loads = (\<lambda>py_str. Inr py_str),
      nb_int = (\<lambda>x. None),
      bytes_pool_capacity = 4,
      AS_BIN_NAME_MAX_LEN = 14\<rparr>"

text \<open>A key and a record with one bin, for the examples.\<close>

definition example_key :: "int \<Rightarrow> as_key" where
  "example_key n =
     \<lparr>key_ns = ''test'', key_set = ''demo'', key_valuep = Some (KEY_INTEGER (word_of_int n)),
      key_digest = no_digest\<rparr>"

definition example_record :: "int \<Rightarrow> as_val \<Rightarrow> as_record" where
  "example_record n v = As_record (example_key n) 2 100 [(''a'', v)]"

text \<open>A step of a context, as \<^verbatim>\<open>aerospike_helpers.cdt_ctx\<close> builds it: an object with the
  attributes \<^verbatim>\<open>id\<close> and \<^verbatim>\<open>value\<close>.\<close>

definition example_ctx_step :: "int \<Rightarrow> pyobj \<Rightarrow> pyobj" where
  "example_ctx_step kind payload =
     PyInstance ''aerospike_helpers.cdt_ctx._cdt_ctx'' [(''id'', PyInt kind), (''value'', payload)]"

subsection \<open>The round trip of a value, in the words of the specification\<close>

text \<open>\<open>representable\<close> is the set of values of which the specification says that they
  come back from the wire: integers of 64 bits, doubles, strings, raw bytes (byte
  arrays), and the lists and dictionaries nested from these. A string is taken without a
  NUL character and the keys of a dictionary are scalars, distinct as Python compares
  them. \<open>external\<close> is the object that is equal to \<open>x\<close> under the equality of the
  specification and that the read path builds: an \<^verbatim>\<open>int\<close> for an integer, a \<^verbatim>\<open>str\<close> for a
  text, the same double and the same bytes, element by element and in order for lists and
  dictionaries. \<open>bytes_needed\<close> counts the byte arrays of a value, which take one buffer of
  the static pool each, and \<open>wire\<close> is the value of the C client that stands for \<open>x\<close>.\<close>

fun external :: "pyobj \<Rightarrow> pyobj" where
  "external (PyLong n) = PyInt n"
| "external (PyUnicode s) = PyString s"
| "external (PyList xs) = PyList (map external xs)"
| "external (PyDict kvs) = PyDict (map (\<lambda>kv. (external (fst kv), external (snd kv))) kvs)"
| "external x = x"

fun scalar_key :: "pyobj \<Rightarrow> bool" where
  "scalar_key (PyInt n) = True"
| "scalar_key (PyLong n) = True"
| "scalar_key (PyFloat d) = True"
| "scalar_key (PyString s) = True"
| "scalar_key (PyUnicode s) = True"
| "scalar_key x = False"

fun representable :: "pyobj \<Rightarrow> bool" where
  "representable (PyInt n) = (- (2 ^ 63) \<le> n \<and> n < 2 ^ 63)"
| "representable (PyLong n) = (- (2 ^ 63) \<le> n \<and> n < 2 ^ 63)"
| "representable (PyFloat d) = True"
| "representable (PyString s) = (CHR 0x00 \<notin> set s)"
| "representable (PyUnicode s) = (CHR 0x00 \<notin> set s)"
| "representable (PyByteArray b) = True"
| "representable (PyList xs) = list_all representable xs"
| "representable (PyDict kvs) =
     (list_all (\<lambda>kv. scalar_key (fst kv) \<and> representable (fst kv) \<and> representable (snd kv)) kvs
      \<and> distinct (map (\<lambda>kv. external (fst kv)) kvs))"
| "representable x = False"

fun bytes_needed :: "pyobj \<Rightarrow> nat" where
  "bytes_needed (PyByteArray b) = 1"
| "bytes_needed (PyList xs) = sum_list (map bytes_needed xs)"
| "bytes_needed (PyDict kvs) =
     sum_list (map (\<lambda>kv. bytes_needed (fst kv) + bytes_needed (snd kv)) kvs)"
| "bytes_needed x = 0"

fun wire :: "AerospikeClient \<Rightarrow> int \<Rightarrow> pyobj \<Rightarrow> as_val" where
  "wire self serializer_type (PyInt n) = AS_INTEGER (word_of_int n)"
| "wire self serializer_type (PyLong n) = AS_INTEGER (word_of_int n)"
| "wire self serializer_type (PyFloat d) = AS_DOUBLE d"
| "wire self serializer_type (PyString s) = AS_STRING (Some s)"
| "wire self serializer_type (PyUnicode s) = AS_STRING (Some s)"
| "wire self serializer_type (PyByteArray b) =
     (case serialize self serializer_type (Some (PyByteArray b)) of
        Inr (ty, bs) \<Rightarrow> AS_BYTES ty bs
      | Inl e \<Rightarrow> AS_NIL)"
| "wire self serializer_type (PyList xs) = AS_LIST (map (wire self serializer_type) xs)"
| "wire self serializer_type (PyDict kvs) =
     AS_MAP (map (\<lambda>kv. (wire self serializer_type (fst kv), wire self serializer_type (snd kv)))
               kvs)"
| "wire self serializer_type x = AS_NIL"

text \<open>\<open>round_trip\<close> is the composition of the specification,
  \<^verbatim>\<open>value_to_external(external_to_value(x))\<close>: \<open>pyobject_to_val\<close> and then \<open>val_to_pyobject\<close>
  on its result.\<close>

definition round_trip ::
  "AerospikeClient \<Rightarrow> int \<Rightarrow> pyobj \<Rightarrow> as_static_pool \<Rightarrow> as_error + pyobj" where
  "round_trip self serializer_type x static_pool =
     (case pyobject_to_val self serializer_type x static_pool of
        (Inl e, static_pool') \<Rightarrow> Inl e
      | (Inr val, static_pool') \<Rightarrow> val_to_pyobject self val)"

text \<open>The serializer and the deserializer of the client are inverse on byte arrays.\<close>

definition bytes_round_trip :: "AerospikeClient \<Rightarrow> int \<Rightarrow> pyobj \<Rightarrow> bool" where
  "bytes_round_trip self serializer_type x =
     (case serialize self serializer_type (Some x) of
        Inr (ty, bs) \<Rightarrow> deserialize self ty bs = Inr x
      | Inl e \<Rightarrow> False)"

section \<open>Properties\<close>

subsection \<open>Auxiliary facts\<close>

declare do_val_to_pyobject.simps [simp del]
declare as_list_of_map_to_py_tuple_list.simps [simp del]
declare list_to_pyobject.simps [simp del]
declare map_to_pyobject.simps [simp del]
declare do_record_to_pyobject.simps [simp del]
declare bins_to_pyobject.simps [simp del]
declare pyobject_to_val.simps [simp del]

lemma sint_length_int:
  assumes "n < 2 ^ 31"
  shows "sint (word_of_nat n :: 32 word) = int n"
proof -
  have "sint (word_of_nat n :: 32 word) = signed_take_bit 31 (int n)"
    using sint_sbintrunc' [where ?'a = 32, of "int n"] by simp
  moreover have "signed_take_bit 31 (int n) = int n"
    using assms by (intro signed_take_bit_int_eq_self) auto
  ultimately show ?thesis by simp
qed

lemma py_tuple_list_loop_pairs:
  "length l = 2 * n \<Longrightarrow> (\<forall>v\<in>set l. \<exists>p. val_to_pyobject self v = Inr p) \<Longrightarrow>
   py_tuple_list_loop self l =
     Inr (map (\<lambda>i. PyTuple [projr (val_to_pyobject self (l ! (2 * i))),
                             projr (val_to_pyobject self (l ! (2 * i + 1)))]) [0..<n])"
proof (induction n arbitrary: l)
  case 0
  then show ?case by simp
next
  case (Suc n)
  then obtain k v rest where l: "l = k # v # rest"
    by (cases l; cases "tl l") auto
  with Suc.prems have len: "length rest = 2 * n" by simp
  from Suc.prems l obtain pk pv where
    pk: "val_to_pyobject self k = Inr pk" and pv: "val_to_pyobject self v = Inr pv"
    by auto
  have rest: "\<forall>x\<in>set rest. \<exists>p. val_to_pyobject self x = Inr p"
    using Suc.prems l by simp
  have ih: "py_tuple_list_loop self rest =
     Inr (map (\<lambda>i. PyTuple [projr (val_to_pyobject self (rest ! (2 * i))),
                             projr (val_to_pyobject self (rest ! (2 * i + 1)))]) [0..<n])"
    by (rule Suc.IH [OF len rest])
  have shift: "map (\<lambda>i. PyTuple [projr (val_to_pyobject self (l ! (2 * i))),
                             projr (val_to_pyobject self (l ! (2 * i + 1)))]) [0..<Suc n]
      = PyTuple [pk, pv] #
        map (\<lambda>i. PyTuple [projr (val_to_pyobject self (rest ! (2 * i))),
                             projr (val_to_pyobject self (rest ! (2 * i + 1)))]) [0..<n]"
    by (simp add: l pk pv upt_conv_Cons map_Suc_upt [symmetric] del: upt_Suc)
  show ?case
    using pk pv ih unfolding shift
    by (simp add: l val_to_pyobject_def)
qed


lemma do_val_to_pyobject_simps:
  "do_val_to_pyobject self (AS_INTEGER i) c = Inr (PyInt (sint i))"
  "do_val_to_pyobject self (AS_DOUBLE d) c = Inr (PyFloat d)"
  "do_val_to_pyobject self (AS_STRING (Some s)) c = Inr (PyString (c_str s))"
  "do_val_to_pyobject self (AS_STRING None) c = Inr PyNone"
  "do_val_to_pyobject self (AS_BYTES ty b) c = deserialize self ty b"
  "do_val_to_pyobject self (AS_LIST l) False = list_to_pyobject self l"
  "do_val_to_pyobject self (AS_LIST l) True = as_list_of_map_to_py_tuple_list self l"
  "do_val_to_pyobject self (AS_MAP m) c = map_to_pyobject self m"
  "do_val_to_pyobject self (AS_REC r) c = do_record_to_pyobject self (Some r) None False"
  "do_val_to_pyobject self AS_NIL c = Inr PyNone"
  "do_val_to_pyobject self AS_CMP_WILDCARD c =
     Inl (as_error_update AEROSPIKE_ERR_CLIENT ''Unknown type for value'')"
  "do_val_to_pyobject self AS_CMP_INF c =
     Inl (as_error_update AEROSPIKE_ERR_CLIENT ''Unknown type for value'')"
  by (simp_all add: do_val_to_pyobject.simps PyInt_FromLong_def PyString_FromString_def)

lemma val_to_pyobject_simps:
  "val_to_pyobject self (AS_INTEGER i) = Inr (PyInt (sint i))"
  "val_to_pyobject self (AS_DOUBLE d) = Inr (PyFloat d)"
  "val_to_pyobject self (AS_STRING (Some s)) = Inr (PyString (c_str s))"
  "val_to_pyobject self (AS_STRING None) = Inr PyNone"
  "val_to_pyobject self (AS_BYTES ty b) = deserialize self ty b"
  "val_to_pyobject self (AS_LIST l) = list_to_pyobject self l"
  "val_to_pyobject self (AS_MAP m) = map_to_pyobject self m"
  "val_to_pyobject self AS_NIL = Inr PyNone"
  "val_to_pyobject self AS_CMP_WILDCARD =
     Inl (as_error_update AEROSPIKE_ERR_CLIENT ''Unknown type for value'')"
  "val_to_pyobject self AS_CMP_INF =
     Inl (as_error_update AEROSPIKE_ERR_CLIENT ''Unknown type for value'')"
  by (simp_all add: val_to_pyobject_def do_val_to_pyobject.simps PyInt_FromLong_def
        PyString_FromString_def)

lemma c_str_simps [simp]:
  "c_str [] = []"
  "c_str (c # s) = (if c = CHR 0x00 then [] else c # c_str s)"
  by (simp_all add: c_str_def)

subsection \<open>Flatten mode\<close>

text \<open>
  Claim C5. In flatten mode (\<^verbatim>\<open>as_list_of_map_to_py_tuple_list\<close>, which
  \<^verbatim>\<open>val_to_pyobject_cnvt_list_to_map\<close> runs on a list), a list of odd length is rejected
  with a client error, and a list of even length \<open>2 * n\<close> whose elements convert becomes
  the list of the \<open>n\<close> pairs (element \<open>2 * i\<close>, element \<open>2 * i + 1\<close>), in the original order.
  The size of the list is read into a C \<^verbatim>\<open>int\<close>, hence the bound on the length.
\<close>

theorem flatten_mode_parity:
  assumes "length l < 2 ^ 31"
  shows "(odd (length l) \<longrightarrow>
            as_list_of_map_to_py_tuple_list self l =
              Inl (as_error_update AEROSPIKE_ERR_CLIENT ''Invalid key list of key/value pairs''))
       \<and> (length l = 2 * n \<and> (\<forall>v\<in>set l. \<exists>p. val_to_pyobject self v = Inr p) \<longrightarrow>
            as_list_of_map_to_py_tuple_list self l =
              Inr (PyList (map (\<lambda>i. PyTuple [projr (val_to_pyobject self (l ! (2 * i))),
                                              projr (val_to_pyobject self (l ! (2 * i + 1)))])
                             [0..<n])))
       \<and> val_to_pyobject_cnvt_list_to_map self (AS_LIST l) =
            as_list_of_map_to_py_tuple_list self l"
proof (intro conjI impI)
  have size: "sint (word_of_nat (length l) :: 32 word) = int (length l)"
    using assms by (rule sint_length_int)
  show "as_list_of_map_to_py_tuple_list self l =
          Inl (as_error_update AEROSPIKE_ERR_CLIENT ''Invalid key list of key/value pairs'')"
    if "odd (length l)"
  proof -
    from that have "int (length l) mod 2 \<noteq> 0" by presburger
    then show ?thesis
      by (simp add: as_list_of_map_to_py_tuple_list.simps size)
  qed
  show "as_list_of_map_to_py_tuple_list self l =
          Inr (PyList (map (\<lambda>i. PyTuple [projr (val_to_pyobject self (l ! (2 * i))),
                                          projr (val_to_pyobject self (l ! (2 * i + 1)))])
                         [0..<n]))"
    if h: "length l = 2 * n \<and> (\<forall>v\<in>set l. \<exists>p. val_to_pyobject self v = Inr p)"
  proof -
    from h have loop: "py_tuple_list_loop self l =
        Inr (map (\<lambda>i. PyTuple [projr (val_to_pyobject self (l ! (2 * i))),
                                projr (val_to_pyobject self (l ! (2 * i + 1)))]) [0..<n])"
      by (intro py_tuple_list_loop_pairs) auto
    from h have even: "int (length l) mod 2 = 0" by simp
    show ?thesis
    proof (cases "n = 0")
      case True
      with h show ?thesis
        by (simp add: as_list_of_map_to_py_tuple_list.simps)
    next
      case False
      with h have "0 < int (length l)" by simp
      with even loop show ?thesis
        by (simp add: as_list_of_map_to_py_tuple_list.simps size)
    qed
  qed
  show "val_to_pyobject_cnvt_list_to_map self (AS_LIST l) = as_list_of_map_to_py_tuple_list self l"
    by (simp add: val_to_pyobject_cnvt_list_to_map_def do_val_to_pyobject.simps)
qed

theorem flatten_mode_parity_witness:
  "as_list_of_map_to_py_tuple_list example_client
     [AS_INTEGER 1, AS_STRING (Some ''a''), AS_INTEGER 2, AS_STRING (Some ''b'')] =
     Inr (PyList [PyTuple [PyInt 1, PyString ''a''], PyTuple [PyInt 2, PyString ''b'']])
   \<and> as_list_of_map_to_py_tuple_list example_client [AS_INTEGER 1, AS_INTEGER 2, AS_INTEGER 3] =
     Inl (as_error_update AEROSPIKE_ERR_CLIENT ''Invalid key list of key/value pairs'')"
  using flatten_mode_parity [of "[AS_INTEGER 1, AS_STRING (Some ''a''), AS_INTEGER 2,
                                  AS_STRING (Some ''b'')]" example_client 2]
        flatten_mode_parity [of "[AS_INTEGER 1, AS_INTEGER 2, AS_INTEGER 3]" example_client 0]
  by (simp add: val_to_pyobject_simps upt_conv_Cons)


subsection \<open>Operate-ordered bins\<close>

lemma operate_bins_loop_iff:
  "(operate_bins_loop self bs = Inr ys) =
     ((\<forall>b\<in>set bs. \<exists>p. val_to_pyobject self (snd b) = Inr p) \<and>
      ys = map (\<lambda>b. PyTuple [PyString (c_str (fst b)), projr (val_to_pyobject self (snd b))]) bs)"
proof (induction bs arbitrary: ys)
  case Nil
  then show ?case by auto
next
  case (Cons b bs)
  obtain name val where b: "b = (name, val)" by (cases b)
  show ?case
  proof (cases "val_to_pyobject self val")
    case (Inl e)
    then show ?thesis by (simp add: b)
  next
    case v: (Inr p)
    show ?thesis
    proof (cases "operate_bins_loop self bs")
      case (Inl e)
      with Cons.IH have "\<not> (\<forall>b\<in>set bs. \<exists>p. val_to_pyobject self (snd b) = Inr p)"
        by auto
      with Inl v show ?thesis by (simp add: b)
    next
      case (Inr ps)
      with Cons.IH [of ps] v show ?thesis
        by (auto simp: b PyString_FromString_def)
    qed
  qed
qed

text \<open>
  Claim C6. \<^verbatim>\<open>operate_bins_to_pyobject\<close> succeeds exactly when every bin value converts,
  and its result is then the list of the pairs (bin name, converted value), one for each
  bin of the record in the order of the record: bins of the same name stay apart. The
  witness is the record \<^verbatim>\<open>[("b",5),("b",6),("c",[3,4,5])]\<close> of the claim.
\<close>

theorem operate_bins_ordered:
  "(operate_bins_to_pyobject self (Some r) = Inr py_bins) =
     ((\<forall>b\<in>set (bins r). \<exists>p. val_to_pyobject self (snd b) = Inr p) \<and>
      py_bins = PyList (map (\<lambda>b. PyTuple [PyString (c_str (fst b)),
                                           projr (val_to_pyobject self (snd b))]) (bins r)))"
proof
  assume "operate_bins_to_pyobject self (Some r) = Inr py_bins"
  then obtain ys where "operate_bins_loop self (bins r) = Inr ys" and "py_bins = PyList ys"
    by (auto simp: operate_bins_to_pyobject_def split: sum.splits)
  then show "(\<forall>b\<in>set (bins r). \<exists>p. val_to_pyobject self (snd b) = Inr p) \<and>
      py_bins = PyList (map (\<lambda>b. PyTuple [PyString (c_str (fst b)),
                                           projr (val_to_pyobject self (snd b))]) (bins r))"
    by (simp add: operate_bins_loop_iff)
next
  assume h: "(\<forall>b\<in>set (bins r). \<exists>p. val_to_pyobject self (snd b) = Inr p) \<and>
      py_bins = PyList (map (\<lambda>b. PyTuple [PyString (c_str (fst b)),
                                           projr (val_to_pyobject self (snd b))]) (bins r))"
  then have "operate_bins_loop self (bins r) =
      Inr (map (\<lambda>b. PyTuple [PyString (c_str (fst b)),
                              projr (val_to_pyobject self (snd b))]) (bins r))"
    by (simp add: operate_bins_loop_iff)
  with h show "operate_bins_to_pyobject self (Some r) = Inr py_bins"
    by (simp add: operate_bins_to_pyobject_def)
qed

theorem operate_bins_ordered_witness:
  "operate_bins_to_pyobject example_client
     (Some (As_record as_key_empty 0 0
        [(''b'', AS_INTEGER 5), (''b'', AS_INTEGER 6),
         (''c'', AS_LIST [AS_INTEGER 3, AS_INTEGER 4, AS_INTEGER 5])])) =
   Inr (PyList [PyTuple [PyString ''b'', PyInt 5], PyTuple [PyString ''b'', PyInt 6],
                PyTuple [PyString ''c'', PyList [PyInt 3, PyInt 4, PyInt 5]]])"
  using operate_bins_ordered [of example_client
     "As_record as_key_empty 0 0
        [(''b'', AS_INTEGER 5), (''b'', AS_INTEGER 6),
         (''c'', AS_LIST [AS_INTEGER 3, AS_INTEGER 4, AS_INTEGER 5])]"
     "PyList [PyTuple [PyString ''b'', PyInt 5], PyTuple [PyString ''b'', PyInt 6],
                PyTuple [PyString ''c'', PyList [PyInt 3, PyInt 4, PyInt 5]]]"]
  by (simp add: val_to_pyobject_simps do_val_to_pyobject_simps list_to_pyobject.simps)


subsection \<open>Batch results\<close>

lemma record_to_pyobject_iff:
  "(record_to_pyobject self (Some r) key = Inr y) =
     (\<exists>k m b. y = PyTuple [k, m, b] \<and>
        key_to_pyobject (case key of Some k' \<Rightarrow> Some k' | None \<Rightarrow> Some (rec_key r)) = Inr k \<and>
        metadata_to_pyobject (Some r) = Inr m \<and>
        bins_to_pyobject self (Some r) False = Inr b)"
  by (auto simp: record_to_pyobject_def do_record_to_pyobject.simps split: sum.splits)

lemma sum_loop_list_all2:
  assumes nil: "loop [] = Inr []"
    and cons: "\<And>x xs. loop (x # xs) =
      (case body x of Inl e \<Rightarrow> Inl e
       | Inr y \<Rightarrow> (case loop xs of Inl e \<Rightarrow> Inl e | Inr ys \<Rightarrow> Inr (y # ys)))"
  shows "(loop xs = Inr ys) = list_all2 (\<lambda>x y. body x = Inr y) xs ys"
proof (induction xs arbitrary: ys)
  case Nil
  then show ?case by (auto simp: nil)
next
  case (Cons x xs)
  show ?case
  proof (cases "body x")
    case (Inl e)
    then show ?thesis by (cases ys) (simp_all add: cons)
  next
    case b: (Inr y)
    show ?thesis
    proof (cases "loop xs")
      case (Inl e)
      have "\<not> list_all2 (\<lambda>x y. body x = Inr y) xs zs" for zs
        using Cons.IH [of zs] Inl by simp
      with Inl b show ?thesis by (cases ys) (simp_all add: cons)
    next
      case (Inr zs)
      have "list_all2 (\<lambda>x y. body x = Inr y) (x # xs) ys =
          (\<exists>ws. ys = y # ws \<and> list_all2 (\<lambda>x y. body x = Inr y) xs ws)"
        using b by (cases ys) auto
      also have "\<dots> = (\<exists>ws. ys = y # ws \<and> loop xs = Inr ws)"
        by (simp add: Cons.IH)
      also have "\<dots> = (ys = y # zs)"
        using Inr by auto
      finally have r: "list_all2 (\<lambda>x y. body x = Inr y) (x # xs) ys = (ys = y # zs)" .
      have "(loop (x # xs) = Inr ys) = (ys = y # zs)"
        using b Inr by (auto simp: cons)
      with r show ?thesis by simp
    qed
  qed
qed

lemma sum_loop_abort:
  assumes nil: "loop [] = Inr []"
    and cons: "\<And>x xs. loop (x # xs) =
      (case body x of Inl e \<Rightarrow> Inl e
       | Inr y \<Rightarrow> (case loop xs of Inl e \<Rightarrow> Inl e | Inr ys \<Rightarrow> Inr (y # ys)))"
  shows "loop pre = Inr ys \<Longrightarrow> body x = Inl e \<Longrightarrow> loop (pre @ x # post) = Inl e"
  by (induction pre arbitrary: ys) (auto simp: cons split: sum.splits)

lemma as_batch_read_result_shape:
  "(as_batch_read_result_to_pyobject client r = Inr y) =
     (if br_result r = AEROSPIKE_OK
      then (\<exists>k m b. y = PyTuple [k, m, b] \<and>
              key_to_pyobject (case br_key r of Some k' \<Rightarrow> Some k'
                               | None \<Rightarrow> Some (rec_key (br_record r))) = Inr k \<and>
              metadata_to_pyobject (Some (br_record r)) = Inr m \<and>
              bins_to_pyobject client (Some (br_record r)) False = Inr b)
      else (\<exists>k. y = PyTuple [k, PyNone, PyNone] \<and> key_to_pyobject (br_key r) = Inr k))"
  by (auto simp: as_batch_read_result_to_pyobject_def record_to_pyobject_iff split: sum.splits)

lemma batch_read_record_shape:
  "(batch_read_record_to_pyobject self r = Inr y) =
     (if brr_result r = AEROSPIKE_OK
      then (\<exists>k m b. y = PyTuple [k, m, b] \<and>
              key_to_pyobject (Some (brr_key r)) = Inr k \<and>
              metadata_to_pyobject (Some (brr_record r)) = Inr m \<and>
              bins_to_pyobject self (Some (brr_record r)) False = Inr b)
      else (\<exists>k. y = PyTuple [k, PyNone, PyNone] \<and> key_to_pyobject (Some (brr_key r)) = Inr k))"
  by (auto simp: batch_read_record_to_pyobject_def record_to_pyobject_iff split: sum.splits)

lemma key_to_pyobject_example [simp]:
  "key_to_pyobject (Some (example_key 1)) =
     Inr (PyTuple [PyString ''test'', PyString ''demo'', PyInt 1, PyNone])"
  "key_to_pyobject (Some (example_key 2)) =
     Inr (PyTuple [PyString ''test'', PyString ''demo'', PyInt 2, PyNone])"
  by (simp_all add: key_to_pyobject_def example_key_def no_digest_def strlen_def
        PyString_FromString_def PyInt_FromLong_def or_Py_None_def)

lemma metadata_to_pyobject_example [simp]:
  "metadata_to_pyobject (Some (example_record n v)) =
     Inr (PyDict [(PyString ''ttl'', PyInt 100), (PyString ''gen'', PyInt 2)])"
  by (simp add: metadata_to_pyobject_def example_record_def PyDict_SetItemString_def
        PyString_FromString_def)

lemma bins_to_pyobject_example [simp]:
  "bins_to_pyobject self (Some (example_record n (AS_INTEGER 7))) False =
     Inr (PyDict [(PyString ''a'', PyInt 7)])"
  "bins_to_pyobject self (Some (example_record n AS_CMP_WILDCARD)) False =
     Inl (as_error_update AEROSPIKE_ERR_CLIENT ''Unknown type for value'')"
  by (simp_all add: bins_to_pyobject.simps example_record_def do_val_to_pyobject_simps
        PyDict_SetItemString_def PyString_FromString_def)

lemma example_entries [simp]:
  "as_batch_read_result_to_pyobject self
     \<lparr>br_key = Some (example_key 1), br_result = AEROSPIKE_OK,
      br_record = example_record 1 (AS_INTEGER 7)\<rparr> =
     Inr (PyTuple [PyTuple [PyString ''test'', PyString ''demo'', PyInt 1, PyNone],
                   PyDict [(PyString ''ttl'', PyInt 100), (PyString ''gen'', PyInt 2)],
                   PyDict [(PyString ''a'', PyInt 7)]])"
  "as_batch_read_result_to_pyobject self
     \<lparr>br_key = Some (example_key 1), br_result = AEROSPIKE_OK,
      br_record = example_record 1 AS_CMP_WILDCARD\<rparr> =
     Inl (as_error_update AEROSPIKE_ERR_CLIENT ''Unknown type for value'')"
  "as_batch_read_result_to_pyobject self
     \<lparr>br_key = Some (example_key 2), br_result = AEROSPIKE_ERR_RECORD_NOT_FOUND,
      br_record = r\<rparr> =
     Inr (PyTuple [PyTuple [PyString ''test'', PyString ''demo'', PyInt 2, PyNone],
                   PyNone, PyNone])"
  by (simp_all add: as_batch_read_result_to_pyobject_def record_to_pyobject_def
        do_record_to_pyobject.simps)

text \<open>
  Claim C4, as amended. Both batch converters succeed exactly when every entry converts,
  and the result then holds one tuple for each entry, in the order of the entries:
  (key, meta, bins) for an entry whose result is \<^verbatim>\<open>AEROSPIKE_OK\<close>, and
  (key, None, None) for any other entry. The first entry that fails to convert ends the
  conversion with its error, and no list is returned.
\<close>

theorem batch_one_tuple_per_entry:
  "((as_batch_read_results_to_pyobject client results = Inr py_records) =
      (\<exists>ys. py_records = PyList ys \<and>
         list_all2 (\<lambda>r y.
            if br_result r = AEROSPIKE_OK
            then (\<exists>k m b. y = PyTuple [k, m, b] \<and>
                    key_to_pyobject (case br_key r of Some k' \<Rightarrow> Some k'
                                     | None \<Rightarrow> Some (rec_key (br_record r))) = Inr k \<and>
                    metadata_to_pyobject (Some (br_record r)) = Inr m \<and>
                    bins_to_pyobject client (Some (br_record r)) False = Inr b)
            else (\<exists>k. y = PyTuple [k, PyNone, PyNone] \<and> key_to_pyobject (br_key r) = Inr k))
           results ys))
   \<and> ((batch_read_records_to_pyobject client records = Inr py_recs) =
      (\<exists>ys. py_recs = PyList ys \<and>
         list_all2 (\<lambda>r y.
            if brr_result r = AEROSPIKE_OK
            then (\<exists>k m b. y = PyTuple [k, m, b] \<and>
                    key_to_pyobject (Some (brr_key r)) = Inr k \<and>
                    metadata_to_pyobject (Some (brr_record r)) = Inr m \<and>
                    bins_to_pyobject client (Some (brr_record r)) False = Inr b)
            else (\<exists>k. y = PyTuple [k, PyNone, PyNone] \<and>
                    key_to_pyobject (Some (brr_key r)) = Inr k))
           records ys))
   \<and> (as_batch_read_results_to_pyobject client pre = Inr py_pre \<and>
        as_batch_read_result_to_pyobject client r = Inl e \<longrightarrow>
        as_batch_read_results_to_pyobject client (pre @ r # post) = Inl e)
   \<and> (batch_read_records_to_pyobject client pre' = Inr py_pre' \<and>
        batch_read_record_to_pyobject client r' = Inl e' \<longrightarrow>
        batch_read_records_to_pyobject client (pre' @ r' # post') = Inl e')"
proof (intro conjI impI)
  have l1: "(as_batch_read_results_loop client xs = Inr ys) =
      list_all2 (\<lambda>x y. as_batch_read_result_to_pyobject client x = Inr y) xs ys" for xs ys
    by (rule sum_loop_list_all2) simp_all
  have l2: "(batch_read_records_loop client xs = Inr ys) =
      list_all2 (\<lambda>x y. batch_read_record_to_pyobject client x = Inr y) xs ys" for xs ys
    by (rule sum_loop_list_all2) simp_all
  show "(as_batch_read_results_to_pyobject client results = Inr py_records) =
      (\<exists>ys. py_records = PyList ys \<and>
         list_all2 (\<lambda>r y.
            if br_result r = AEROSPIKE_OK
            then (\<exists>k m b. y = PyTuple [k, m, b] \<and>
                    key_to_pyobject (case br_key r of Some k' \<Rightarrow> Some k'
                                     | None \<Rightarrow> Some (rec_key (br_record r))) = Inr k \<and>
                    metadata_to_pyobject (Some (br_record r)) = Inr m \<and>
                    bins_to_pyobject client (Some (br_record r)) False = Inr b)
            else (\<exists>k. y = PyTuple [k, PyNone, PyNone] \<and> key_to_pyobject (br_key r) = Inr k))
           results ys)"
    unfolding as_batch_read_result_shape [symmetric] l1 [symmetric]
    by (cases "as_batch_read_results_loop client results")
       (auto simp: as_batch_read_results_to_pyobject_def)
  show "(batch_read_records_to_pyobject client records = Inr py_recs) =
      (\<exists>ys. py_recs = PyList ys \<and>
         list_all2 (\<lambda>r y.
            if brr_result r = AEROSPIKE_OK
            then (\<exists>k m b. y = PyTuple [k, m, b] \<and>
                    key_to_pyobject (Some (brr_key r)) = Inr k \<and>
                    metadata_to_pyobject (Some (brr_record r)) = Inr m \<and>
                    bins_to_pyobject client (Some (brr_record r)) False = Inr b)
            else (\<exists>k. y = PyTuple [k, PyNone, PyNone] \<and>
                    key_to_pyobject (Some (brr_key r)) = Inr k))
           records ys)"
    unfolding batch_read_record_shape [symmetric] l2 [symmetric]
    by (cases "batch_read_records_loop client records")
       (auto simp: batch_read_records_to_pyobject_def)
  show "as_batch_read_results_to_pyobject client (pre @ r # post) = Inl e"
    if "as_batch_read_results_to_pyobject client pre = Inr py_pre \<and>
        as_batch_read_result_to_pyobject client r = Inl e"
  proof -
    from that obtain ys where "as_batch_read_results_loop client pre = Inr ys"
      by (auto simp: as_batch_read_results_to_pyobject_def split: sum.splits)
    with that have "as_batch_read_results_loop client (pre @ r # post) = Inl e"
      by (intro sum_loop_abort [where body = "as_batch_read_result_to_pyobject client"]) simp_all
    then show ?thesis by (simp add: as_batch_read_results_to_pyobject_def)
  qed
  show "batch_read_records_to_pyobject client (pre' @ r' # post') = Inl e'"
    if "batch_read_records_to_pyobject client pre' = Inr py_pre' \<and>
        batch_read_record_to_pyobject client r' = Inl e'"
  proof -
    from that obtain ys where "batch_read_records_loop client pre' = Inr ys"
      by (auto simp: batch_read_records_to_pyobject_def split: sum.splits)
    with that have "batch_read_records_loop client (pre' @ r' # post') = Inl e'"
      by (intro sum_loop_abort [where body = "batch_read_record_to_pyobject client"]) simp_all
    then show ?thesis by (simp add: batch_read_records_to_pyobject_def)
  qed
qed


theorem batch_one_tuple_per_entry_witness:
  "as_batch_read_results_to_pyobject example_client
     [\<lparr>br_key = Some (example_key 1), br_result = AEROSPIKE_OK,
       br_record = example_record 1 (AS_INTEGER 7)\<rparr>,
      \<lparr>br_key = Some (example_key 2), br_result = AEROSPIKE_ERR_RECORD_NOT_FOUND,
       br_record = example_record 2 AS_NIL\<rparr>] =
     Inr (PyList
       [PyTuple [PyTuple [PyString ''test'', PyString ''demo'', PyInt 1, PyNone],
                 PyDict [(PyString ''ttl'', PyInt 100), (PyString ''gen'', PyInt 2)],
                 PyDict [(PyString ''a'', PyInt 7)]],
        PyTuple [PyTuple [PyString ''test'', PyString ''demo'', PyInt 2, PyNone],
                 PyNone, PyNone]])
   \<and> as_batch_read_results_to_pyobject example_client
     ([\<lparr>br_key = Some (example_key 2), br_result = AEROSPIKE_ERR_RECORD_NOT_FOUND,
        br_record = example_record 2 AS_NIL\<rparr>] @
      \<lparr>br_key = Some (example_key 1), br_result = AEROSPIKE_OK,
       br_record = example_record 1 AS_CMP_WILDCARD\<rparr> # []) =
     Inl (as_error_update AEROSPIKE_ERR_CLIENT ''Unknown type for value'')"
  using batch_one_tuple_per_entry [where client = example_client
    and results = "[\<lparr>br_key = Some (example_key 1), br_result = AEROSPIKE_OK,
       br_record = example_record 1 (AS_INTEGER 7)\<rparr>,
      \<lparr>br_key = Some (example_key 2), br_result = AEROSPIKE_ERR_RECORD_NOT_FOUND,
       br_record = example_record 2 AS_NIL\<rparr>]"
    and py_records = "PyList
       [PyTuple [PyTuple [PyString ''test'', PyString ''demo'', PyInt 1, PyNone],
                 PyDict [(PyString ''ttl'', PyInt 100), (PyString ''gen'', PyInt 2)],
                 PyDict [(PyString ''a'', PyInt 7)]],
        PyTuple [PyTuple [PyString ''test'', PyString ''demo'', PyInt 2, PyNone],
                 PyNone, PyNone]]"
    and pre = "[\<lparr>br_key = Some (example_key 2), br_result = AEROSPIKE_ERR_RECORD_NOT_FOUND,
        br_record = example_record 2 AS_NIL\<rparr>]"
    and py_pre = "PyList [PyTuple [PyTuple [PyString ''test'', PyString ''demo'', PyInt 2, PyNone],
                 PyNone, PyNone]]"
    and r = "\<lparr>br_key = Some (example_key 1), br_result = AEROSPIKE_OK,
       br_record = example_record 1 AS_CMP_WILDCARD\<rparr>"
    and e = "as_error_update AEROSPIKE_ERR_CLIENT ''Unknown type for value''"
    and post = "[]"]
  by (simp add: as_batch_read_results_to_pyobject_def)

text \<open>
  Claim C4 as stated fails: a record that does not convert (here a bin whose value has a
  type that \<^verbatim>\<open>do_val_to_pyobject\<close> does not know) fails the whole batch, although no
  allocation failed; the entry after it is never looked at.
\<close>

theorem batch_aborts_on_conversion_failure:
  "as_batch_read_results_to_pyobject example_client
     [\<lparr>br_key = Some (example_key 1), br_result = AEROSPIKE_OK,
       br_record = example_record 1 AS_CMP_WILDCARD\<rparr>,
      \<lparr>br_key = Some (example_key 2), br_result = AEROSPIKE_ERR_RECORD_NOT_FOUND,
       br_record = example_record 2 AS_NIL\<rparr>] =
     Inl (as_error_update AEROSPIKE_ERR_CLIENT ''Unknown type for value'')
   \<and> batch_read_records_to_pyobject example_client
     [\<lparr>brr_key = example_key 1, brr_result = AEROSPIKE_OK,
       brr_record = example_record 1 AS_CMP_WILDCARD\<rparr>,
      \<lparr>brr_key = example_key 2, brr_result = AEROSPIKE_ERR_RECORD_NOT_FOUND,
       brr_record = example_record 2 AS_NIL\<rparr>] =
     Inl (as_error_update AEROSPIKE_ERR_CLIENT ''Unknown type for value'')"
  by (simp add: as_batch_read_results_to_pyobject_def batch_read_records_to_pyobject_def
        batch_read_record_to_pyobject_def record_to_pyobject_def do_record_to_pyobject.simps)


subsection \<open>Keys\<close>

lemma key_set_err: "pyobject_to_key_set py_set = Inl e \<Longrightarrow> code e = AEROSPIKE_ERR_PARAM"
  by (auto simp: pyobject_to_key_set_def as_error_update_def split: if_splits)

lemma key_value_err:
  "pyobject_to_key_value key_ok ns set_name k = Inl e \<Longrightarrow> code e = AEROSPIKE_ERR_PARAM"
  by (auto simp: pyobject_to_key_value_def as_error_update_def Let_def split: if_splits prod.splits)

lemma key_digest_err:
  "pyobject_to_key_digest key_ok ns set_name d = Inl e \<Longrightarrow> code e = AEROSPIKE_ERR_PARAM"
  by (auto simp: pyobject_to_key_digest_def as_error_update_def Let_def split: if_splits)

lemma parts_err_param:
  assumes "pyobject_to_key_parts key_ok py_ns py_set py_key py_digest = Inl e"
  shows "code e = AEROSPIKE_ERR_PARAM"
proof (cases py_ns)
  case None
  with assms show ?thesis by (auto simp: pyobject_to_key_parts_def as_error_update_def)
next
  case (Some ns)
  show ?thesis
  proof (cases "PyString_Check ns")
    case False
    with assms Some show ?thesis by (auto simp: pyobject_to_key_parts_def as_error_update_def)
  next
    case True
    show ?thesis
    proof (cases "pyobject_to_key_set py_set")
      case (Inl e')
      with assms Some True show ?thesis
        by (auto simp: pyobject_to_key_parts_def Let_def dest: key_set_err)
    next
      case (Inr set_name)
      with assms Some True show ?thesis
        by (auto simp: pyobject_to_key_parts_def as_error_update_def Let_def
            dest: key_value_err key_digest_err split: if_splits sum.splits option.splits)
    qed
  qed
qed

lemma key_err_param:
  "pyobject_to_key key_ok py_keytuple = Inl e \<Longrightarrow> code e = AEROSPIKE_ERR_PARAM"
  by (auto simp: pyobject_to_key_def Let_def as_error_update_def dest: parts_err_param
      split: option.splits if_splits)

lemma parts_necessary:
  assumes "pyobject_to_key_parts key_ok py_ns py_set py_key py_digest = Inr k"
  shows "(\<exists>s. py_ns = Some (PyString s)) \<and> (present py_key \<or> present py_digest)"
proof -
  from assms obtain ns where ns: "py_ns = Some ns" "PyString_Check ns"
    by (cases py_ns) (auto simp: pyobject_to_key_parts_def split: if_splits)
  then have 1: "\<exists>s. py_ns = Some (PyString s)" by (cases ns) auto
  from assms ns have 2: "present py_key \<or> present py_digest"
    by (auto simp: pyobject_to_key_parts_def present_def Let_def split: sum.splits if_splits)
  from 1 2 show ?thesis by simp
qed

lemma parts_precedence:
  "present py_key \<Longrightarrow>
     pyobject_to_key_parts key_ok py_ns py_set py_key py_digest =
     pyobject_to_key_parts key_ok py_ns py_set py_key None"
  by (simp add: pyobject_to_key_parts_def present_def Let_def
        cong: option.case_cong sum.case_cong if_cong)

lemma uint32_t_20 [simp]: "uint32_t 20 = 20"
  by (simp add: uint32_t_def)

lemma nat_to_dec_digit [simp]: "n < 10 \<Longrightarrow> nat_to_dec n = [digit_char n]"
  by simp

lemma digit_char_simps [simp]:
  "digit_char 0 = CHR ''0''" "digit_char 1 = CHR ''1''" "digit_char 2 = CHR ''2''"
  "digit_char 3 = CHR ''3''" "digit_char 4 = CHR ''4''" "digit_char 5 = CHR ''5''"
  "digit_char 6 = CHR ''6''" "digit_char 7 = CHR ''7''" "digit_char 8 = CHR ''8''"
  "digit_char 9 = CHR ''9''"
  by (simp_all add: digit_char_def)

lemma key_set_accepted:
  assumes "(st = None \<or> st = Some PyNone) \<and> set_name = []
           \<or> (st = Some (PyString s) \<or> st = Some (PyUnicode s)) \<and> set_name = c_str s"
  shows "\<exists>sn. pyobject_to_key_set st = Inr sn \<and> (case sn of None \<Rightarrow> [] | Some x \<Rightarrow> x) = set_name"
  using assms by (auto simp: pyobject_to_key_set_def PyBytes_AsString_def)

lemma key_init_result:
  assumes "(case sn of None \<Rightarrow> [] | Some x \<Rightarrow> x) = set_name"
  shows "(case as_key_init key_ok ns sn v dig of
            None \<Rightarrow> Inl (as_error_update AEROSPIKE_ERR_PARAM ''key is invalid'')
          | Some key \<Rightarrow> Inr key) =
         (if key_ok ns set_name
          then Inr \<lparr>key_ns = ns, key_set = set_name, key_valuep = v, key_digest = dig\<rparr>
          else Inl (as_error_update AEROSPIKE_ERR_PARAM ''key is invalid''))"
  using assms by (auto simp: as_key_init_def)

lemma parts_with_key:
  assumes "pyobject_to_key_set st = Inr sn" and "k \<noteq> PyNone"
  shows "pyobject_to_key_parts key_ok (Some (PyString n)) st (Some k) dg =
     (case pyobject_to_key_value key_ok (c_str n) sn k of
        Inl e \<Rightarrow> Inl e
      | Inr returnResult \<Rightarrow>
          (case returnResult of
             None \<Rightarrow> Inl (as_error_update AEROSPIKE_ERR_PARAM ''key is invalid'')
           | Some key \<Rightarrow> Inr key))"
  using assms by (simp add: pyobject_to_key_parts_def)

lemma parts_without_key:
  assumes "pyobject_to_key_set st = Inr sn" and "\<not> present ky"
  shows "pyobject_to_key_parts key_ok (Some (PyString n)) st ky dg =
     (case (if present dg then pyobject_to_key_digest key_ok (c_str n) sn (the dg)
            else Inl (as_error_update AEROSPIKE_ERR_PARAM ''either key or digest is required'')) of
        Inl e \<Rightarrow> Inl e
      | Inr returnResult \<Rightarrow>
          (case returnResult of
             None \<Rightarrow> Inl (as_error_update AEROSPIKE_ERR_PARAM ''key is invalid'')
           | Some key \<Rightarrow> Inr key))"
proof -
  have k: "(ky \<noteq> None \<and> ky \<noteq> Some PyNone) = False"
    using assms(2) by (simp add: present_def)
  show ?thesis
    unfolding pyobject_to_key_parts_def present_def Let_def k by (simp add: assms(1))
qed

lemma key_value_string:
  assumes "k = PyString u \<or> k = PyUnicode u"
  shows "pyobject_to_key_value key_ok ns sn k =
     Inr (as_key_init key_ok ns sn (Some (KEY_STRING (c_str u))) no_digest)"
  using assms by (auto simp: pyobject_to_key_value_def PyBytes_AsString_def)

lemma key_value_integer:
  assumes "k = PyInt i \<or> k = PyLong i"
  shows "pyobject_to_key_value key_ok ns sn k =
     (if - (2 ^ 63) \<le> i \<and> i < 2 ^ 63
      then Inr (as_key_init key_ok ns sn (Some (KEY_INTEGER (word_of_int i))) no_digest)
      else Inl (as_error_update AEROSPIKE_ERR_PARAM ''integer value for KEY exceeds sys.maxsize''))"
  using assms
  by (auto simp: pyobject_to_key_value_def PyLong_AsLongLong_def as_C_long_def)

lemma key_value_bool:
  "pyobject_to_key_value key_ok ns sn (PyBool b) =
     Inr (as_key_init key_ok ns sn (Some (KEY_INTEGER (if b then 1 else 0))) no_digest)"
  by (simp add: pyobject_to_key_value_def as_C_long_def)

lemma key_value_bytearray:
  "pyobject_to_key_value key_ok ns sn (PyByteArray b) =
     (if uint32_t (length b) = 0
      then Inl (as_error_update AEROSPIKE_ERR_PARAM ''Byte array size cannot be 0'')
      else Inr (as_key_init key_ok ns sn
                  (Some (KEY_BYTES (take (uint32_t (length b)) b))) no_digest))"
  by (simp add: pyobject_to_key_value_def)

lemma key_value_other:
  assumes "\<not> PyUnicode_Check k" "\<not> PyString_Check k" "\<not> PyInt_Check k" "\<not> PyLong_Check k"
    "\<not> PyByteArray_Check k"
  shows "pyobject_to_key_value key_ok ns sn k =
     Inl (as_error_update AEROSPIKE_ERR_PARAM ''key is invalid'')"
  using assms by (simp add: pyobject_to_key_value_def PyBytes_Check_def)

lemma key_digest_bytearray:
  "pyobject_to_key_digest key_ok ns sn (PyByteArray d) =
     (if uint32_t (length d) \<noteq> 20
      then Inl (as_error_update AEROSPIKE_ERR_PARAM
                  (''digest size is invalid. should be 20 bytes, but received '' @
                     printf_d (sint (word_of_nat (uint32_t (length d)) :: 32 word))))
      else Inr (as_key_init key_ok ns sn None \<lparr>init = True, digest_value = take 20 d\<rparr>))"
  by (simp add: pyobject_to_key_digest_def AS_DIGEST_VALUE_SIZE_def)

lemma key_digest_other:
  "\<not> PyByteArray_Check x \<Longrightarrow>
   pyobject_to_key_digest key_ok ns sn x =
     Inl (as_error_update AEROSPIKE_ERR_PARAM ''digest is invalid. expected a bytearray'')"
  by (simp add: pyobject_to_key_digest_def)

lemma parts_bad_set:
  assumes "\<not> PyString_Check x" "\<not> PyUnicode_Check x" "x \<noteq> PyNone"
  shows "pyobject_to_key_parts key_ok (Some (PyString n)) (Some x) ky dg =
     Inl (as_error_update AEROSPIKE_ERR_PARAM ''set must be a string'')"
  using assms by (simp add: pyobject_to_key_parts_def pyobject_to_key_set_def)

lemma parts_bad_ns:
  "pyobject_to_key_parts key_ok None st ky dg =
     Inl (as_error_update AEROSPIKE_ERR_PARAM ''namespace is required'')"
  "\<not> PyString_Check x \<Longrightarrow> pyobject_to_key_parts key_ok (Some x) st ky dg =
     Inl (as_error_update AEROSPIKE_ERR_PARAM ''namespace must be a string'')"
  by (simp_all add: pyobject_to_key_parts_def)

lemma key_bad_shape:
  "pyobject_to_key key_ok None = Inl (as_error_update AEROSPIKE_ERR_PARAM ''key is null'')"
  "length xs < 3 \<or> 4 < length xs \<Longrightarrow> pyobject_to_key key_ok (Some (PyTuple xs)) =
     Inl (as_error_update AEROSPIKE_ERR_PARAM
       ''key tuple must be (Namespace, Set, Key) or (Namespace, Set, None, Digest)'')"
  "\<not> PyTuple_Check x \<Longrightarrow> \<not> PyDict_Check x \<Longrightarrow> pyobject_to_key key_ok (Some x) =
     Inl (as_error_update AEROSPIKE_ERR_PARAM ''key is invalid'')"
  by (auto simp: pyobject_to_key_def)

text \<open>
  Claim C2, as amended. \<^verbatim>\<open>pyobject_to_key\<close> reads namespace, set, key and digest from a
  tuple of three or four objects or from a dictionary; anything else fails, and every
  failure is \<^verbatim>\<open>AEROSPIKE_ERR_PARAM\<close>. It succeeds only if the namespace is a \<^verbatim>\<open>str\<close> and
  at least one of user key and digest is supplied, and a user key that is supplied takes
  precedence: the digest is then not looked at. A missing namespace, a namespace that is
  not a \<^verbatim>\<open>str\<close>, and a set that is neither \<^verbatim>\<open>None\<close> nor a \<^verbatim>\<open>str\<close> nor a
  \<^verbatim>\<open>unicode\<close> fail. With a \<^verbatim>\<open>str\<close> namespace (which may be empty) and a set that is
  absent, \<^verbatim>\<open>None\<close>, a \<^verbatim>\<open>str\<close> or a \<^verbatim>\<open>unicode\<close>, the outcome is, case by case:

  \<^item> a user key that is a \<^verbatim>\<open>str\<close> or a \<^verbatim>\<open>unicode\<close>, an \<^verbatim>\<open>int\<close> or a \<^verbatim>\<open>long\<close> that fits a C
    \<^verbatim>\<open>long\<close>, a \<^verbatim>\<open>bool\<close>, or a byte array that is not empty gives the key with that
    value, if the C client accepts namespace and set, and ``key is invalid'' if not;
  \<^item> an \<^verbatim>\<open>int\<close> or \<^verbatim>\<open>long\<close> that does not fit a C \<^verbatim>\<open>long\<close>, an empty byte array, and a
    user key of any other type fail;
  \<^item> with no user key, a digest that is a byte array of 20 bytes gives the key with that
    digest (under the same proviso), a byte array of another size fails with a message that
    ends with the size received, a digest that is not a byte array fails, and so does a
    key with neither user key nor digest.
\<close>

theorem key_validity:
  assumes "(st = None \<or> st = Some PyNone) \<and> set_name = []
           \<or> (st = Some (PyString s) \<or> st = Some (PyUnicode s)) \<and> set_name = c_str s"
  shows
  "(pyobject_to_key key_ok py_keytuple = Inl e \<longrightarrow> code e = AEROSPIKE_ERR_PARAM)
   \<and> pyobject_to_key key_ok (Some (PyTuple [py_ns, py_set, py_key])) =
       pyobject_to_key_parts key_ok (Some py_ns) (Some py_set) (Some py_key) None
   \<and> pyobject_to_key key_ok (Some (PyTuple [py_ns, py_set, py_key, py_digest])) =
       pyobject_to_key_parts key_ok (Some py_ns) (Some py_set) (Some py_key) (Some py_digest)
   \<and> pyobject_to_key key_ok (Some (PyDict py_dict)) =
       pyobject_to_key_parts key_ok (PyDict_GetItemString py_dict ''ns'')
         (PyDict_GetItemString py_dict ''set'') (PyDict_GetItemString py_dict ''key'')
         (PyDict_GetItemString py_dict ''digest'')
   \<and> pyobject_to_key key_ok None = Inl (as_error_update AEROSPIKE_ERR_PARAM ''key is null'')
   \<and> (length xs < 3 \<or> 4 < length xs \<longrightarrow>
        pyobject_to_key key_ok (Some (PyTuple xs)) =
          Inl (as_error_update AEROSPIKE_ERR_PARAM
            ''key tuple must be (Namespace, Set, Key) or (Namespace, Set, None, Digest)''))
   \<and> (\<not> PyTuple_Check other \<and> \<not> PyDict_Check other \<longrightarrow>
        pyobject_to_key key_ok (Some other) =
          Inl (as_error_update AEROSPIKE_ERR_PARAM ''key is invalid''))
   \<and> (pyobject_to_key_parts key_ok ns any_set ky dg = Inr key \<longrightarrow>
        (\<exists>s. ns = Some (PyString s)) \<and> (present ky \<or> present dg))
   \<and> (present ky \<longrightarrow>
        pyobject_to_key_parts key_ok ns any_set ky dg =
        pyobject_to_key_parts key_ok ns any_set ky None)
   \<and> pyobject_to_key_parts key_ok None any_set ky dg =
        Inl (as_error_update AEROSPIKE_ERR_PARAM ''namespace is required'')
   \<and> (\<not> PyString_Check bad_ns \<longrightarrow>
        pyobject_to_key_parts key_ok (Some bad_ns) any_set ky dg =
          Inl (as_error_update AEROSPIKE_ERR_PARAM ''namespace must be a string''))
   \<and> (\<not> PyString_Check bad_set \<and> \<not> PyUnicode_Check bad_set \<and> bad_set \<noteq> PyNone \<longrightarrow>
        pyobject_to_key_parts key_ok (Some (PyString n)) (Some bad_set) ky dg =
          Inl (as_error_update AEROSPIKE_ERR_PARAM ''set must be a string''))
   \<and> (k = PyString u \<or> k = PyUnicode u \<longrightarrow>
        pyobject_to_key_parts key_ok (Some (PyString n)) st (Some k) dg =
          (if key_ok (c_str n) set_name
           then Inr \<lparr>key_ns = c_str n, key_set = set_name,
                     key_valuep = Some (KEY_STRING (c_str u)), key_digest = no_digest\<rparr>
           else Inl (as_error_update AEROSPIKE_ERR_PARAM ''key is invalid'')))
   \<and> (k = PyInt i \<or> k = PyLong i \<longrightarrow>
        pyobject_to_key_parts key_ok (Some (PyString n)) st (Some k) dg =
          (if i < - (2 ^ 63) \<or> 2 ^ 63 \<le> i
           then Inl (as_error_update AEROSPIKE_ERR_PARAM
                       ''integer value for KEY exceeds sys.maxsize'')
           else if key_ok (c_str n) set_name
           then Inr \<lparr>key_ns = c_str n, key_set = set_name,
                     key_valuep = Some (KEY_INTEGER (word_of_int i)), key_digest = no_digest\<rparr>
           else Inl (as_error_update AEROSPIKE_ERR_PARAM ''key is invalid'')))
   \<and> pyobject_to_key_parts key_ok (Some (PyString n)) st (Some (PyBool b)) dg =
          (if key_ok (c_str n) set_name
           then Inr \<lparr>key_ns = c_str n, key_set = set_name,
                     key_valuep = Some (KEY_INTEGER (if b then 1 else 0)),
                     key_digest = no_digest\<rparr>
           else Inl (as_error_update AEROSPIKE_ERR_PARAM ''key is invalid''))
   \<and> pyobject_to_key_parts key_ok (Some (PyString n)) st (Some (PyByteArray bs)) dg =
          (if uint32_t (length bs) = 0
           then Inl (as_error_update AEROSPIKE_ERR_PARAM ''Byte array size cannot be 0'')
           else if key_ok (c_str n) set_name
           then Inr \<lparr>key_ns = c_str n, key_set = set_name,
                     key_valuep = Some (KEY_BYTES (take (uint32_t (length bs)) bs)),
                     key_digest = no_digest\<rparr>
           else Inl (as_error_update AEROSPIKE_ERR_PARAM ''key is invalid''))
   \<and> (\<not> PyUnicode_Check k \<and> \<not> PyString_Check k \<and> \<not> PyInt_Check k \<and> \<not> PyLong_Check k
        \<and> \<not> PyByteArray_Check k \<and> k \<noteq> PyNone \<longrightarrow>
        pyobject_to_key_parts key_ok (Some (PyString n)) st (Some k) dg =
          Inl (as_error_update AEROSPIKE_ERR_PARAM ''key is invalid''))
   \<and> (\<not> present ky \<longrightarrow>
        pyobject_to_key_parts key_ok (Some (PyString n)) st ky (Some (PyByteArray d)) =
          (if uint32_t (length d) \<noteq> 20
           then Inl (as_error_update AEROSPIKE_ERR_PARAM
                 (''digest size is invalid. should be 20 bytes, but received '' @
                    printf_d (sint (word_of_nat (uint32_t (length d)) :: 32 word))))
           else if key_ok (c_str n) set_name
           then Inr \<lparr>key_ns = c_str n, key_set = set_name, key_valuep = None,
                     key_digest = \<lparr>init = True, digest_value = take 20 d\<rparr>\<rparr>
           else Inl (as_error_update AEROSPIKE_ERR_PARAM ''key is invalid'')))
   \<and> (\<not> present ky \<and> \<not> PyByteArray_Check bad_dg \<and> bad_dg \<noteq> PyNone \<longrightarrow>
        pyobject_to_key_parts key_ok (Some (PyString n)) st ky (Some bad_dg) =
          Inl (as_error_update AEROSPIKE_ERR_PARAM ''digest is invalid. expected a bytearray''))
   \<and> (\<not> present ky \<and> \<not> present dg \<longrightarrow>
        pyobject_to_key_parts key_ok (Some (PyString n)) st ky dg =
          Inl (as_error_update AEROSPIKE_ERR_PARAM ''either key or digest is required''))"
proof -
  from key_set_accepted [OF assms] obtain sn where
    sn: "pyobject_to_key_set st = Inr sn" "(case sn of None \<Rightarrow> [] | Some x \<Rightarrow> x) = set_name"
    by blast
  note ki = key_init_result [OF sn(2)]
  note wk = parts_with_key [OF sn(1)]
  note nk = parts_without_key [OF sn(1)]
  have c1: "code e = AEROSPIKE_ERR_PARAM" if "pyobject_to_key key_ok py_keytuple = Inl e"
    using that by (rule key_err_param)
  have c2: "pyobject_to_key key_ok (Some (PyTuple [py_ns, py_set, py_key])) =
       pyobject_to_key_parts key_ok (Some py_ns) (Some py_set) (Some py_key) None"
    by (simp add: pyobject_to_key_def)
  have c3: "pyobject_to_key key_ok (Some (PyTuple [py_ns, py_set, py_key, py_digest])) =
       pyobject_to_key_parts key_ok (Some py_ns) (Some py_set) (Some py_key) (Some py_digest)"
    by (simp add: pyobject_to_key_def)
  have c4: "pyobject_to_key key_ok (Some (PyDict py_dict)) =
       pyobject_to_key_parts key_ok (PyDict_GetItemString py_dict ''ns'')
         (PyDict_GetItemString py_dict ''set'') (PyDict_GetItemString py_dict ''key'')
         (PyDict_GetItemString py_dict ''digest'')"
    by (simp add: pyobject_to_key_def)
  have c5: "pyobject_to_key key_ok None =
      Inl (as_error_update AEROSPIKE_ERR_PARAM ''key is null'')"
    by (rule key_bad_shape(1))
  have c6: "pyobject_to_key key_ok (Some (PyTuple xs)) =
          Inl (as_error_update AEROSPIKE_ERR_PARAM
            ''key tuple must be (Namespace, Set, Key) or (Namespace, Set, None, Digest)'')"
    if "length xs < 3 \<or> 4 < length xs"
    using that by (rule key_bad_shape(2))
  have c7: "pyobject_to_key key_ok (Some other) =
          Inl (as_error_update AEROSPIKE_ERR_PARAM ''key is invalid'')"
    if "\<not> PyTuple_Check other \<and> \<not> PyDict_Check other"
    using that by (intro key_bad_shape(3)) simp_all
  have c8: "(\<exists>s. ns = Some (PyString s)) \<and> (present ky \<or> present dg)"
    if "pyobject_to_key_parts key_ok ns any_set ky dg = Inr key"
    using that by (rule parts_necessary)
  have c9: "pyobject_to_key_parts key_ok ns any_set ky dg =
        pyobject_to_key_parts key_ok ns any_set ky None"
    if "present ky"
    using that by (rule parts_precedence)
  have c10: "pyobject_to_key_parts key_ok None any_set ky dg =
        Inl (as_error_update AEROSPIKE_ERR_PARAM ''namespace is required'')"
    by (rule parts_bad_ns(1))
  have c11: "pyobject_to_key_parts key_ok (Some bad_ns) any_set ky dg =
          Inl (as_error_update AEROSPIKE_ERR_PARAM ''namespace must be a string'')"
    if "\<not> PyString_Check bad_ns"
    using that by (rule parts_bad_ns(2))
  have c12: "pyobject_to_key_parts key_ok (Some (PyString n)) (Some bad_set) ky dg =
          Inl (as_error_update AEROSPIKE_ERR_PARAM ''set must be a string'')"
    if "\<not> PyString_Check bad_set \<and> \<not> PyUnicode_Check bad_set \<and> bad_set \<noteq> PyNone"
    using that by (intro parts_bad_set) simp_all
  have c13: "pyobject_to_key_parts key_ok (Some (PyString n)) st (Some k) dg =
          (if key_ok (c_str n) set_name
           then Inr \<lparr>key_ns = c_str n, key_set = set_name,
                     key_valuep = Some (KEY_STRING (c_str u)), key_digest = no_digest\<rparr>
           else Inl (as_error_update AEROSPIKE_ERR_PARAM ''key is invalid''))"
    if h: "k = PyString u \<or> k = PyUnicode u"
  proof -
    from h have "k \<noteq> PyNone" by auto
    then show ?thesis
      unfolding wk [OF \<open>k \<noteq> PyNone\<close>] key_value_string [OF h] by (simp add: ki)
  qed
  have c14: "pyobject_to_key_parts key_ok (Some (PyString n)) st (Some k) dg =
          (if i < - (2 ^ 63) \<or> 2 ^ 63 \<le> i
           then Inl (as_error_update AEROSPIKE_ERR_PARAM
                       ''integer value for KEY exceeds sys.maxsize'')
           else if key_ok (c_str n) set_name
           then Inr \<lparr>key_ns = c_str n, key_set = set_name,
                     key_valuep = Some (KEY_INTEGER (word_of_int i)), key_digest = no_digest\<rparr>
           else Inl (as_error_update AEROSPIKE_ERR_PARAM ''key is invalid''))"
    if h: "k = PyInt i \<or> k = PyLong i"
  proof -
    from h have "k \<noteq> PyNone" by auto
    then show ?thesis
      unfolding wk [OF \<open>k \<noteq> PyNone\<close>] key_value_integer [OF h]
      by (cases "- (2 ^ 63) \<le> i \<and> i < 2 ^ 63") (auto simp: ki)
  qed
  have c15: "pyobject_to_key_parts key_ok (Some (PyString n)) st (Some (PyBool b)) dg =
          (if key_ok (c_str n) set_name
           then Inr \<lparr>key_ns = c_str n, key_set = set_name,
                     key_valuep = Some (KEY_INTEGER (if b then 1 else 0)),
                     key_digest = no_digest\<rparr>
           else Inl (as_error_update AEROSPIKE_ERR_PARAM ''key is invalid''))"
    unfolding wk [of "PyBool b", simplified] key_value_bool by (simp add: ki)
  have c16: "pyobject_to_key_parts key_ok (Some (PyString n)) st (Some (PyByteArray bs)) dg =
          (if uint32_t (length bs) = 0
           then Inl (as_error_update AEROSPIKE_ERR_PARAM ''Byte array size cannot be 0'')
           else if key_ok (c_str n) set_name
           then Inr \<lparr>key_ns = c_str n, key_set = set_name,
                     key_valuep = Some (KEY_BYTES (take (uint32_t (length bs)) bs)),
                     key_digest = no_digest\<rparr>
           else Inl (as_error_update AEROSPIKE_ERR_PARAM ''key is invalid''))"
    unfolding wk [of "PyByteArray bs", simplified] key_value_bytearray
    by (cases "uint32_t (length bs) = 0") (simp_all add: ki)
  have c17: "pyobject_to_key_parts key_ok (Some (PyString n)) st (Some k) dg =
          Inl (as_error_update AEROSPIKE_ERR_PARAM ''key is invalid'')"
    if h: "\<not> PyUnicode_Check k \<and> \<not> PyString_Check k \<and> \<not> PyInt_Check k \<and> \<not> PyLong_Check k
        \<and> \<not> PyByteArray_Check k \<and> k \<noteq> PyNone"
  proof -
    from h have nn: "k \<noteq> PyNone" by simp
    from h have "pyobject_to_key_value key_ok (c_str n) sn k =
        Inl (as_error_update AEROSPIKE_ERR_PARAM ''key is invalid'')"
      by (intro key_value_other) simp_all
    then show ?thesis unfolding wk [OF nn] by simp
  qed
  have c18: "pyobject_to_key_parts key_ok (Some (PyString n)) st ky (Some (PyByteArray d)) =
          (if uint32_t (length d) \<noteq> 20
           then Inl (as_error_update AEROSPIKE_ERR_PARAM
                 (''digest size is invalid. should be 20 bytes, but received '' @
                    printf_d (sint (word_of_nat (uint32_t (length d)) :: 32 word))))
           else if key_ok (c_str n) set_name
           then Inr \<lparr>key_ns = c_str n, key_set = set_name, key_valuep = None,
                     key_digest = \<lparr>init = True, digest_value = take 20 d\<rparr>\<rparr>
           else Inl (as_error_update AEROSPIKE_ERR_PARAM ''key is invalid''))"
    if h: "\<not> present ky"
    unfolding nk [OF h]
    by (cases "uint32_t (length d) = 20") (simp_all add: present_def key_digest_bytearray ki)
  have c19: "pyobject_to_key_parts key_ok (Some (PyString n)) st ky (Some bad_dg) =
          Inl (as_error_update AEROSPIKE_ERR_PARAM ''digest is invalid. expected a bytearray'')"
    if h: "\<not> present ky \<and> \<not> PyByteArray_Check bad_dg \<and> bad_dg \<noteq> PyNone"
  proof -
    from h have a: "\<not> present ky" and b: "\<not> PyByteArray_Check bad_dg"
      and c: "bad_dg \<noteq> PyNone"
      by simp_all
    show ?thesis
      unfolding nk [OF a] using c by (simp add: present_def key_digest_other [OF b])
  qed
  have c20: "pyobject_to_key_parts key_ok (Some (PyString n)) st ky dg =
          Inl (as_error_update AEROSPIKE_ERR_PARAM ''either key or digest is required'')"
    if h: "\<not> present ky \<and> \<not> present dg"
  proof -
    from h have a: "\<not> present ky" and b: "\<not> present dg" by simp_all
    show ?thesis unfolding nk [OF a] using b by simp
  qed
  from c1 c2 c3 c4 c5 c6 c7 c8 c9 c10 c11 c12 c13 c14 c15 c16 c17 c18 c19 c20
  show ?thesis by blast
qed

theorem key_validity_witness:
  "pyobject_to_key (\<lambda>ns st. True)
     (Some (PyTuple [PyString ''test'', PyString ''demo'', PyNone,
                     PyByteArray [1, 2, 3]])) =
     Inl (as_error_update AEROSPIKE_ERR_PARAM
            ''digest size is invalid. should be 20 bytes, but received 3'')
   \<and> pyobject_to_key (\<lambda>ns st. True)
     (Some (PyTuple [PyString ''test'', PyString ''demo'', PyNone,
                     PyByteArray [1, 2, 3, 4, 5, 6, 7, 8, 9, 10, 11, 12, 13, 14, 15, 16, 17, 18,
                                  19, 20]])) =
     Inr \<lparr>key_ns = ''test'', key_set = ''demo'', key_valuep = None,
          key_digest = \<lparr>init = True,
            digest_value = [1, 2, 3, 4, 5, 6, 7, 8, 9, 10, 11, 12, 13, 14, 15, 16, 17, 18,
                            19, 20]\<rparr>\<rparr>
   \<and> pyobject_to_key (\<lambda>ns st. True)
     (Some (PyTuple [PyString ''test'', PyString ''demo'', PyUnicode ''k'',
                     PyByteArray [1, 2, 3]])) =
     Inr \<lparr>key_ns = ''test'', key_set = ''demo'', key_valuep = Some (KEY_STRING ''k''),
          key_digest = no_digest\<rparr>
   \<and> pyobject_to_key (\<lambda>ns st. True)
     (Some (PyTuple [PyString ''test'', PyString ''demo'', PyLong 18446744073709551616])) =
     Inl (as_error_update AEROSPIKE_ERR_PARAM ''integer value for KEY exceeds sys.maxsize'')
   \<and> pyobject_to_key (\<lambda>ns st. True)
     (Some (PyTuple [PyString ''test'', PyString ''demo'', PyFloat 0])) =
     Inl (as_error_update AEROSPIKE_ERR_PARAM ''key is invalid'')
   \<and> pyobject_to_key (\<lambda>ns st. True)
     (Some (PyTuple [PyString ''test'', PyInt 5, PyInt 1])) =
     Inl (as_error_update AEROSPIKE_ERR_PARAM ''set must be a string'')"
proof -
  have a: "(Some (PyString ''demo'') = None \<or> Some (PyString ''demo'') = Some PyNone)
        \<and> ''demo'' = []
      \<or> (Some (PyString ''demo'') = Some (PyString ''demo'')
          \<or> Some (PyString ''demo'') = Some (PyUnicode ''demo'')) \<and> ''demo'' = c_str ''demo''"
    by simp
  note kv = key_validity [where st = "Some (PyString ''demo'')" and s = "''demo''"
      and set_name = "''demo''", OF a, where n = "''test''" and key_ok = "\<lambda>ns st. True"]
  have np: "\<not> present (Some PyNone)"
    by (simp add: present_def)
  have tup3: "pyobject_to_key (\<lambda>ns st. True) (Some (PyTuple [a, b, c])) =
      pyobject_to_key_parts (\<lambda>ns st. True) (Some a) (Some b) (Some c) None" for a b c
    by (rule kv [THEN conjunct2, THEN conjunct1])
  have tup4: "pyobject_to_key (\<lambda>ns st. True) (Some (PyTuple [a, b, c, d])) =
      pyobject_to_key_parts (\<lambda>ns st. True) (Some a) (Some b) (Some c) (Some d)" for a b c d
    by (rule kv [THEN conjunct2, THEN conjunct2, THEN conjunct1])
  have bad_set: "pyobject_to_key_parts (\<lambda>ns st. True) (Some (PyString ''test''))
      (Some (PyInt 5)) (Some (PyInt 1)) None =
      Inl (as_error_update AEROSPIKE_ERR_PARAM ''set must be a string'')"
    using kv [where bad_set = "PyInt 5",
        THEN conjunct2, THEN conjunct2, THEN conjunct2, THEN conjunct2, THEN conjunct2,
        THEN conjunct2, THEN conjunct2, THEN conjunct2, THEN conjunct2, THEN conjunct2,
        THEN conjunct2, THEN conjunct1]
    by simp
  have user: "pyobject_to_key_parts (\<lambda>ns st. True) (Some (PyString ''test''))
      (Some (PyString ''demo'')) (Some (PyUnicode ''k'')) (Some (PyByteArray [1, 2, 3])) =
      Inr \<lparr>key_ns = ''test'', key_set = ''demo'', key_valuep = Some (KEY_STRING ''k''),
          key_digest = no_digest\<rparr>"
    using kv [where k = "PyUnicode ''k''" and u = "''k''",
        THEN conjunct2, THEN conjunct2, THEN conjunct2, THEN conjunct2, THEN conjunct2,
        THEN conjunct2, THEN conjunct2, THEN conjunct2, THEN conjunct2, THEN conjunct2,
        THEN conjunct2, THEN conjunct2, THEN conjunct1]
    by simp
  have big: "pyobject_to_key_parts (\<lambda>ns st. True) (Some (PyString ''test''))
      (Some (PyString ''demo'')) (Some (PyLong 18446744073709551616)) None =
      Inl (as_error_update AEROSPIKE_ERR_PARAM ''integer value for KEY exceeds sys.maxsize'')"
    using kv [where k = "PyLong 18446744073709551616" and i = 18446744073709551616,
        THEN conjunct2, THEN conjunct2, THEN conjunct2, THEN conjunct2, THEN conjunct2,
        THEN conjunct2, THEN conjunct2, THEN conjunct2, THEN conjunct2, THEN conjunct2,
        THEN conjunct2, THEN conjunct2, THEN conjunct2, THEN conjunct1]
    by simp
  have other: "pyobject_to_key_parts (\<lambda>ns st. True) (Some (PyString ''test''))
      (Some (PyString ''demo'')) (Some (PyFloat 0)) None =
      Inl (as_error_update AEROSPIKE_ERR_PARAM ''key is invalid'')"
    using kv [where k = "PyFloat 0",
        THEN conjunct2, THEN conjunct2, THEN conjunct2, THEN conjunct2, THEN conjunct2,
        THEN conjunct2, THEN conjunct2, THEN conjunct2, THEN conjunct2, THEN conjunct2,
        THEN conjunct2, THEN conjunct2, THEN conjunct2, THEN conjunct2, THEN conjunct2,
        THEN conjunct2, THEN conjunct1]
    by simp
  have short: "pyobject_to_key_parts (\<lambda>ns st. True) (Some (PyString ''test''))
      (Some (PyString ''demo'')) (Some PyNone) (Some (PyByteArray [1, 2, 3])) =
      Inl (as_error_update AEROSPIKE_ERR_PARAM
            ''digest size is invalid. should be 20 bytes, but received 3'')"
    using kv [where ky = "Some PyNone" and d = "[1, 2, 3]",
        THEN conjunct2, THEN conjunct2, THEN conjunct2, THEN conjunct2, THEN conjunct2,
        THEN conjunct2, THEN conjunct2, THEN conjunct2, THEN conjunct2, THEN conjunct2,
        THEN conjunct2, THEN conjunct2, THEN conjunct2, THEN conjunct2, THEN conjunct2,
        THEN conjunct2, THEN conjunct2, THEN conjunct1] np
    by (simp add: uint32_t_def printf_d_def)
  have full: "pyobject_to_key_parts (\<lambda>ns st. True) (Some (PyString ''test''))
      (Some (PyString ''demo'')) (Some PyNone)
      (Some (PyByteArray [1, 2, 3, 4, 5, 6, 7, 8, 9, 10, 11, 12, 13, 14, 15, 16, 17, 18,
                          19, 20])) =
      Inr \<lparr>key_ns = ''test'', key_set = ''demo'', key_valuep = None,
          key_digest = \<lparr>init = True,
            digest_value = [1, 2, 3, 4, 5, 6, 7, 8, 9, 10, 11, 12, 13, 14, 15, 16, 17, 18,
                            19, 20]\<rparr>\<rparr>"
    using kv [where ky = "Some PyNone"
        and d = "[1, 2, 3, 4, 5, 6, 7, 8, 9, 10, 11, 12, 13, 14, 15, 16, 17, 18, 19, 20]",
        THEN conjunct2, THEN conjunct2, THEN conjunct2, THEN conjunct2, THEN conjunct2,
        THEN conjunct2, THEN conjunct2, THEN conjunct2, THEN conjunct2, THEN conjunct2,
        THEN conjunct2, THEN conjunct2, THEN conjunct2, THEN conjunct2, THEN conjunct2,
        THEN conjunct2, THEN conjunct2, THEN conjunct1] np
    by (simp add: uint32_t_def)
  show ?thesis
    by (simp only: tup3 tup4 short full user big other bad_set simp_thms)
qed

text \<open>
  Claim C2 as stated fails in both directions. A namespace that is a non-empty text and a
  user key alone do not make the call succeed: a float is not accepted as a user key. And
  when a user key and a digest are both supplied the call succeeds, and a digest of three
  bytes is not an error.
\<close>

theorem key_validity_counterexample:
  "claimed_key_validity (Some (PyString ''test'')) (Some (PyFloat 0)) None
   \<and> pyobject_to_key (\<lambda>ns st. True)
       (Some (PyTuple [PyString ''test'', PyNone, PyFloat 0])) =
       Inl (as_error_update AEROSPIKE_ERR_PARAM ''key is invalid'')
   \<and> \<not> claimed_key_validity (Some (PyString ''test'')) (Some (PyInt 1))
         (Some (PyByteArray [1, 2, 3]))
   \<and> pyobject_to_key (\<lambda>ns st. True)
       (Some (PyTuple [PyString ''test'', PyNone, PyInt 1, PyByteArray [1, 2, 3]])) =
       Inr \<lparr>key_ns = ''test'', key_set = [], key_valuep = Some (KEY_INTEGER 1),
            key_digest = no_digest\<rparr>"
  by (simp add: claimed_key_validity_def present_def pyobject_to_key_def
        pyobject_to_key_parts_def pyobject_to_key_set_def pyobject_to_key_value_def
        as_key_init_def as_C_long_def PyBytes_Check_def)

text \<open>
  Claim C10. In the tuple that \<^verbatim>\<open>key_to_pyobject\<close> builds, the namespace and the set are
  strings only when their length is greater than zero, and \<^verbatim>\<open>None\<close> otherwise. A key
  built by \<^verbatim>\<open>pyobject_to_key\<close> from an empty set therefore comes back with the set
  \<^verbatim>\<open>None\<close>.
\<close>

theorem key_empty_slots_are_None:
  "(\<exists>py_key py_digest. key_to_pyobject (Some k) =
      Inr (PyTuple [if 0 < strlen (key_ns k) then PyString (c_str (key_ns k)) else PyNone,
                    if 0 < strlen (key_set k) then PyString (c_str (key_set k)) else PyNone,
                    py_key, py_digest]))
   \<and> (pyobject_to_key key_ok (Some (PyTuple [py_ns, PyString [], py_key])) = Inr k' \<longrightarrow>
        (\<exists>py_namespace py_key' py_digest'. key_to_pyobject (Some k') =
           Inr (PyTuple [py_namespace, PyNone, py_key', py_digest'])))"
proof (intro conjI impI)
  show "\<exists>py_key py_digest. key_to_pyobject (Some k) =
      Inr (PyTuple [if 0 < strlen (key_ns k) then PyString (c_str (key_ns k)) else PyNone,
                    if 0 < strlen (key_set k) then PyString (c_str (key_set k)) else PyNone,
                    py_key, py_digest])"
    by (simp add: key_to_pyobject_def Let_def or_Py_None_def PyString_FromString_def)
  show "\<exists>py_namespace py_key' py_digest'. key_to_pyobject (Some k') =
           Inr (PyTuple [py_namespace, PyNone, py_key', py_digest'])"
    if h: "pyobject_to_key key_ok (Some (PyTuple [py_ns, PyString [], py_key])) = Inr k'"
  proof -
    from h have "pyobject_to_key_parts key_ok (Some py_ns) (Some (PyString [])) (Some py_key) None
        = Inr k'"
      by (simp add: pyobject_to_key_def)
    then have "key_set k' = []"
      by (auto simp: pyobject_to_key_parts_def pyobject_to_key_set_def
            pyobject_to_key_value_def as_key_init_def Let_def
          split: if_splits sum.splits option.splits prod.splits)
    then show ?thesis
      by (simp add: key_to_pyobject_def Let_def or_Py_None_def strlen_def)
  qed
qed

theorem key_empty_slots_are_None_witness:
  "pyobject_to_key (\<lambda>ns st. True) (Some (PyTuple [PyString ''test'', PyString [], PyInt 1])) =
     Inr \<lparr>key_ns = ''test'', key_set = [], key_valuep = Some (KEY_INTEGER 1),
          key_digest = no_digest\<rparr>
   \<and> key_to_pyobject (Some \<lparr>key_ns = ''test'', key_set = [], key_valuep = Some (KEY_INTEGER 1),
          key_digest = no_digest\<rparr>) =
     Inr (PyTuple [PyString ''test'', PyNone, PyInt 1, PyNone])"
proof -
  have a: "pyobject_to_key (\<lambda>ns st. True)
      (Some (PyTuple [PyString ''test'', PyString [], PyInt 1])) =
     Inr \<lparr>key_ns = ''test'', key_set = [], key_valuep = Some (KEY_INTEGER 1),
          key_digest = no_digest\<rparr>"
    by (simp add: pyobject_to_key_def pyobject_to_key_parts_def pyobject_to_key_set_def
        pyobject_to_key_value_def as_key_init_def as_C_long_def)
  have b: "key_to_pyobject (Some \<lparr>key_ns = ''test'', key_set = [],
          key_valuep = Some (KEY_INTEGER 1), key_digest = no_digest\<rparr>) =
     Inr (PyTuple [PyString ''test'', PyNone, PyInt 1, PyNone])"
    by (simp add: key_to_pyobject_def strlen_def or_Py_None_def PyString_FromString_def
        PyInt_FromLong_def no_digest_def)
  have c: "\<exists>py_namespace py_key' py_digest'.
      key_to_pyobject (Some \<lparr>key_ns = ''test'', key_set = [],
          key_valuep = Some (KEY_INTEGER 1), key_digest = no_digest\<rparr>) =
        Inr (PyTuple [py_namespace, PyNone, py_key', py_digest'])"
    by (rule key_empty_slots_are_None [THEN conjunct2, THEN mp, OF a])
  from a b c show ?thesis by simp
qed


subsection \<open>Metadata\<close>

lemma ucast_long_32: "(ucast (word_of_int n :: 64 word) :: 32 word) = word_of_int n"
  by (rule ucast_down_wi) (simp add: is_down)

lemma ucast_long_16: "(ucast (word_of_int n :: 64 word) :: 16 word) = word_of_int n"
  by (rule ucast_down_wi) (simp add: is_down)

lemma ucast_minus_1 [simp]:
  "(ucast (- 1 :: 64 word) :: 32 word) = - 1" "(ucast (- 1 :: 64 word) :: 16 word) = - 1"
  using ucast_long_32 [of "- 1"] ucast_long_16 [of "- 1"] by simp_all

lemma as_C_long_in_range:
  "- (2 ^ 63) \<le> n \<Longrightarrow> n < 2 ^ 63 \<Longrightarrow> as_C_long n = (word_of_int n, None)"
  by (simp add: as_C_long_def)

lemma as_C_long_overflow:
  "\<not> (- (2 ^ 63) \<le> n \<and> n < 2 ^ 63) \<Longrightarrow> as_C_long n = (- 1, Some OverflowError)"
  by (simp add: as_C_long_def)

lemma record_meta_ttl_err:
  "record_meta_ttl py_ttl err = (Some e, t, exc) \<Longrightarrow>
     err = Some e \<or> code e = AEROSPIKE_ERR_PARAM"
  by (auto simp: record_meta_ttl_def Let_def as_error_update_def split: if_splits prod.splits)

lemma record_meta_gen_err:
  "record_meta_gen py_gen err pending = (Some e, g) \<Longrightarrow>
     err = Some e \<or> code e = AEROSPIKE_ERR_PARAM"
  by (auto simp: record_meta_gen_def Let_def as_error_update_def split: if_splits prod.splits)

lemma record_meta_ttl_keeps: "fst (record_meta_ttl py_ttl (Some e)) \<noteq> None"
  by (auto simp: record_meta_ttl_def Let_def split: if_splits prod.splits)

lemma record_meta_gen_keeps: "fst (record_meta_gen py_gen (Some e) pending) \<noteq> None"
  by (auto simp: record_meta_gen_def Let_def split: if_splits prod.splits)

lemma record_meta_err_param:
  assumes "fst (pyobject_to_record_meta py_meta None) = Some e"
  shows "code e = AEROSPIKE_ERR_PARAM"
proof (cases py_meta)
  case None
  with assms show ?thesis by (simp add: pyobject_to_record_meta_def)
next
  case (Some meta)
  show ?thesis
  proof (cases "PyDict_Check meta")
    case False
    with assms Some show ?thesis
      by (auto simp: pyobject_to_record_meta_def as_error_update_def split: if_splits)
  next
    case d: True
    then have nn: "meta \<noteq> PyNone" by auto
    define r1 where "r1 = (case PyDict_GetItemString (PyDict_items meta) ''ttl'' of
        None \<Rightarrow> (None, 0, None) | Some t \<Rightarrow> record_meta_ttl t None)"
    obtain err1 t pend where r1: "r1 = (err1, t, pend)" by (cases r1)
    have e1: "err1 = Some e' \<Longrightarrow> code e' = AEROSPIKE_ERR_PARAM" for e'
      using r1 record_meta_ttl_err [of _ None e' t pend]
      by (auto simp: r1_def split: option.splits)
    define r2 where "r2 = (case PyDict_GetItemString (PyDict_items meta) ''gen'' of
        None \<Rightarrow> (err1, 0) | Some g \<Rightarrow> record_meta_gen g err1 pend)"
    obtain err2 g where r2: "r2 = (err2, g)" by (cases r2)
    have e2: "err2 = Some e' \<Longrightarrow> code e' = AEROSPIKE_ERR_PARAM" for e'
      using r2 e1 record_meta_gen_err [of _ err1 pend e' g]
      by (auto simp: r2_def split: option.splits)
    have "pyobject_to_record_meta py_meta None = (err2, g, t)"
      using Some d nn r1 r2
      by (simp add: pyobject_to_record_meta_def Let_def r1_def [symmetric] r2_def [symmetric])
    with assms e2 show ?thesis by simp
  qed
qed

lemma check_for_meta_ttl_err:
  "check_for_meta_ttl py_ttl ops = (Some e, ops') \<Longrightarrow> code e = AEROSPIKE_ERR_PARAM"
  by (auto simp: check_for_meta_ttl_def Let_def as_error_update_def split: if_splits prod.splits)

lemma check_for_meta_gen_err:
  "check_for_meta_gen py_gen ops = (Some e, ops') \<Longrightarrow> code e = AEROSPIKE_ERR_PARAM"
  by (auto simp: check_for_meta_gen_def Let_def as_error_update_def split: if_splits prod.splits)

lemma check_for_meta_gen_err_fst:
  "fst (check_for_meta_gen py_gen ops) = Some e \<Longrightarrow> code e = AEROSPIKE_ERR_PARAM"
  by (cases "check_for_meta_gen py_gen ops") (auto dest: check_for_meta_gen_err)

lemma check_for_meta_err_param:
  assumes "fst (check_for_meta py_meta ops) = Some e"
  shows "code e = AEROSPIKE_ERR_PARAM"
  using assms
  by (auto simp: check_for_meta_def Let_def as_error_update_def
      dest: check_for_meta_ttl_err check_for_meta_gen_err check_for_meta_gen_err_fst
      split: if_splits option.splits prod.splits)

lemma record_meta_ttl_not_int:
  "\<not> PyInt_Check y \<Longrightarrow> \<not> PyLong_Check y \<Longrightarrow> fst (record_meta_ttl y err) \<noteq> None"
  by (simp add: record_meta_ttl_def)

lemma record_meta_gen_not_int:
  "\<not> PyInt_Check y \<Longrightarrow> \<not> PyLong_Check y \<Longrightarrow> fst (record_meta_gen y err pending) \<noteq> None"
  by (simp add: record_meta_gen_def)

lemma check_for_meta_ttl_not_int:
  "\<not> PyInt_Check y \<Longrightarrow> \<not> PyLong_Check y \<Longrightarrow> fst (check_for_meta_ttl y ops) \<noteq> None"
  by (simp add: check_for_meta_ttl_def)

lemma check_for_meta_gen_not_int:
  "\<not> PyInt_Check y \<Longrightarrow> \<not> PyLong_Check y \<Longrightarrow> fst (check_for_meta_gen y ops) \<noteq> None"
  by (simp add: check_for_meta_gen_def)

lemma record_meta_ttl_overflow:
  "z = PyInt n \<or> z = PyLong n \<Longrightarrow> \<not> (- (2 ^ 63) \<le> n \<and> n < 2 ^ 63) \<Longrightarrow>
     fst (record_meta_ttl z err) \<noteq> None"
  by (auto simp: record_meta_ttl_def PyLong_AsLongLong_def as_C_long_def)

lemma record_meta_gen_overflow:
  "z = PyInt n \<or> z = PyLong n \<Longrightarrow> \<not> (- (2 ^ 63) \<le> n \<and> n < 2 ^ 63) \<Longrightarrow>
     fst (record_meta_gen z err pending) \<noteq> None"
  by (auto simp: record_meta_gen_def PyLong_AsLongLong_def as_C_long_def split: option.splits)

lemma check_for_meta_ttl_overflow:
  "z = PyInt n \<or> z = PyLong n \<Longrightarrow> \<not> (- (2 ^ 63) \<le> n \<and> n < 2 ^ 63) \<Longrightarrow>
     fst (check_for_meta_ttl z ops) \<noteq> None"
  by (auto simp: check_for_meta_ttl_def PyLong_AsLongLong_def as_C_long_def)

lemma check_for_meta_gen_overflow:
  "z = PyInt n \<or> z = PyLong n \<Longrightarrow> \<not> (- (2 ^ 63) \<le> n \<and> n < 2 ^ 63) \<Longrightarrow>
     fst (check_for_meta_gen z ops) \<noteq> None"
  by (auto simp: check_for_meta_gen_def PyLong_AsLongLong_def as_C_long_def)

lemma record_meta_fails_ttl:
  assumes "PyDict_GetItemString m ''ttl'' = Some t" and "fst (record_meta_ttl t None) \<noteq> None"
  shows "fst (pyobject_to_record_meta (Some (PyDict m)) None) \<noteq> None"
proof -
  obtain e rec_ttl pend where r: "record_meta_ttl t None = (Some e, rec_ttl, pend)"
    using assms(2) by (cases "record_meta_ttl t None") auto
  show ?thesis
  proof (cases "PyDict_GetItemString m ''gen''")
    case None
    with assms r show ?thesis by (simp add: pyobject_to_record_meta_def)
  next
    case (Some g)
    obtain err2 rec_gen where g: "record_meta_gen g (Some e) pend = (err2, rec_gen)"
      by (cases "record_meta_gen g (Some e) pend")
    with record_meta_gen_keeps [of g e pend] have "err2 \<noteq> None" by simp
    with assms r Some g show ?thesis by (simp add: pyobject_to_record_meta_def)
  qed
qed

lemma record_meta_fails_gen:
  assumes "PyDict_GetItemString m ''gen'' = Some g"
    and "\<And>err pending. fst (record_meta_gen g err pending) \<noteq> None"
  shows "fst (pyobject_to_record_meta (Some (PyDict m)) None) \<noteq> None"
proof -
  define r1 where "r1 = (case PyDict_GetItemString m ''ttl'' of
      None \<Rightarrow> (None, 0, None) | Some t \<Rightarrow> record_meta_ttl t None)"
  obtain err1 rec_ttl pend where r1: "r1 = (err1, rec_ttl, pend)" by (cases r1)
  obtain err2 rec_gen where g: "record_meta_gen g err1 pend = (err2, rec_gen)"
    by (cases "record_meta_gen g err1 pend")
  with assms(2) [of err1 pend] have "err2 \<noteq> None" by simp
  with assms(1) r1 g show ?thesis
    by (simp add: pyobject_to_record_meta_def r1_def [symmetric])
qed

lemma check_for_meta_fails_ttl:
  assumes "PyDict_GetItemString m ''ttl'' = Some t" and "fst (check_for_meta_ttl t ops) \<noteq> None"
  shows "fst (check_for_meta (Some (PyDict m)) ops) \<noteq> None"
proof -
  obtain e ops1 where "check_for_meta_ttl t ops = (Some e, ops1)"
    using assms(2) by (cases "check_for_meta_ttl t ops") auto
  with assms(1) show ?thesis by (simp add: check_for_meta_def)
qed

lemma check_for_meta_fails_gen:
  assumes "PyDict_GetItemString m ''gen'' = Some g"
    and "\<And>ops. fst (check_for_meta_gen g ops) \<noteq> None"
  shows "fst (check_for_meta (Some (PyDict m)) ops) \<noteq> None"
proof -
  define r1 where "r1 = (case PyDict_GetItemString m ''ttl'' of
      None \<Rightarrow> (None, ops) | Some t \<Rightarrow> check_for_meta_ttl t ops)"
  obtain err1 ops1 where r1: "r1 = (err1, ops1)" by (cases r1)
  from assms(2) [of ops1] assms(1) r1 show ?thesis
    by (cases err1) (simp_all add: check_for_meta_def r1_def [symmetric])
qed

lemma meta_not_dict:
  assumes "\<not> PyDict_Check x" and "x \<noteq> PyNone"
  shows "fst (pyobject_to_record_meta (Some x) None) \<noteq> None"
    and "fst (check_for_meta (Some x) ops) \<noteq> None"
  using assms by (simp_all add: pyobject_to_record_meta_def check_for_meta_def)

lemma uint16_t_0 [simp]: "uint16_t 0 = 0"
  by (simp add: uint16_t_def)

lemma pyobject_to_record_no_bins:
  "pyobject_to_record self (Some (PyDict [])) py_meta serializer_type static_pool =
     (case pyobject_to_record_meta py_meta None of
        (err, rec_gen, rec_ttl) \<Rightarrow>
          if err \<noteq> None then (err, Destroyed, static_pool)
          else (None, Live (As_record as_key_empty rec_gen rec_ttl []), static_pool))"
  by (cases "pyobject_to_record_meta py_meta None") (simp add: pyobject_to_record_def Let_def)

lemma record_meta_ttl_in_range:
  assumes "py_ttl = PyInt t \<or> py_ttl = PyLong t" and "- (2 ^ 63) \<le> t" and "t < 2 ^ 63"
  shows "record_meta_ttl py_ttl err = (err, word_of_int t, None)"
  using assms
  by (auto simp: record_meta_ttl_def PyLong_AsLongLong_def as_C_long_def ucast_long_32)

lemma record_meta_gen_in_range:
  assumes "py_gen = PyInt g \<or> py_gen = PyLong g" and "- (2 ^ 63) \<le> g" and "g < 2 ^ 63"
  shows "record_meta_gen py_gen err None = (err, word_of_int g)"
  using assms
  by (auto simp: record_meta_gen_def PyLong_AsLongLong_def as_C_long_def ucast_long_16)

lemma check_for_meta_ttl_in_range:
  assumes "py_ttl = PyInt t \<or> py_ttl = PyLong t" and "- (2 ^ 63) \<le> t" and "t < 2 ^ 63"
  shows "check_for_meta_ttl py_ttl ops = (None, ops\<lparr>ops_ttl := word_of_int t\<rparr>)"
  using assms
  by (auto simp: check_for_meta_ttl_def PyLong_AsLongLong_def as_C_long_def ucast_long_32)

lemma check_for_meta_gen_in_range:
  assumes "py_gen = PyInt g \<or> py_gen = PyLong g" and "- (2 ^ 63) \<le> g" and "g < 2 ^ 63"
  shows "check_for_meta_gen py_gen ops = (None, ops\<lparr>ops_gen := word_of_int g\<rparr>)"
  using assms
  by (auto simp: check_for_meta_gen_def PyLong_AsLongLong_def as_C_long_def ucast_long_16)

lemma meta_stored:
  assumes "PyDict_GetItemString m ''ttl'' = map_option PyInt topt
         \<or> PyDict_GetItemString m ''ttl'' = map_option PyLong topt"
    and "PyDict_GetItemString m ''gen'' = map_option PyInt gopt
         \<or> PyDict_GetItemString m ''gen'' = map_option PyLong gopt"
    and "case topt of None \<Rightarrow> True | Some t \<Rightarrow> - (2 ^ 63) \<le> t \<and> t < 2 ^ 63"
    and "case gopt of None \<Rightarrow> True | Some g \<Rightarrow> - (2 ^ 63) \<le> g \<and> g < 2 ^ 63"
  shows "pyobject_to_record_meta (Some (PyDict m)) None =
           (None, (case gopt of None \<Rightarrow> 0 | Some g \<Rightarrow> word_of_int g),
                  (case topt of None \<Rightarrow> 0 | Some t \<Rightarrow> word_of_int t))"
    and "check_for_meta (Some (PyDict m)) ops =
           (None, ops\<lparr>ops_ttl := (case topt of None \<Rightarrow> ops_ttl ops | Some t \<Rightarrow> word_of_int t),
                       ops_gen := (case gopt of None \<Rightarrow> ops_gen ops | Some g \<Rightarrow> word_of_int g)\<rparr>)"
proof -
  have r1: "(case PyDict_GetItemString m ''ttl'' of
               None \<Rightarrow> (None, 0, None) | Some y \<Rightarrow> record_meta_ttl y None) =
            (None, (case topt of None \<Rightarrow> 0 | Some t \<Rightarrow> word_of_int t), None)"
  proof (cases topt)
    case None
    with assms(1) show ?thesis by auto
  next
    case (Some t)
    with assms(3) have r: "- (2 ^ 63) \<le> t" "t < 2 ^ 63" by simp_all
    from assms(1) Some obtain y where y: "PyDict_GetItemString m ''ttl'' = Some y"
      "y = PyInt t \<or> y = PyLong t" by auto
    from record_meta_ttl_in_range [OF y(2) r] y(1) Some show ?thesis by simp
  qed
  have r2: "(case PyDict_GetItemString m ''gen'' of
               None \<Rightarrow> (None, 0) | Some y \<Rightarrow> record_meta_gen y None None) =
            (None, (case gopt of None \<Rightarrow> 0 | Some g \<Rightarrow> word_of_int g))"
  proof (cases gopt)
    case None
    with assms(2) show ?thesis by auto
  next
    case (Some g)
    with assms(4) have r: "- (2 ^ 63) \<le> g" "g < 2 ^ 63" by simp_all
    from assms(2) Some obtain y where y: "PyDict_GetItemString m ''gen'' = Some y"
      "y = PyInt g \<or> y = PyLong g" by auto
    from record_meta_gen_in_range [OF y(2) r] y(1) Some show ?thesis by simp
  qed
  show "pyobject_to_record_meta (Some (PyDict m)) None =
           (None, (case gopt of None \<Rightarrow> 0 | Some g \<Rightarrow> word_of_int g),
                  (case topt of None \<Rightarrow> 0 | Some t \<Rightarrow> word_of_int t))"
    by (simp add: pyobject_to_record_meta_def r1 r2)
  have c1: "(case PyDict_GetItemString m ''ttl'' of
               None \<Rightarrow> (None, ops) | Some y \<Rightarrow> check_for_meta_ttl y ops) =
            (None, ops\<lparr>ops_ttl := (case topt of None \<Rightarrow> ops_ttl ops | Some t \<Rightarrow> word_of_int t)\<rparr>)"
  proof (cases topt)
    case None
    with assms(1) show ?thesis by auto
  next
    case (Some t)
    with assms(3) have r: "- (2 ^ 63) \<le> t" "t < 2 ^ 63" by simp_all
    from assms(1) Some obtain y where y: "PyDict_GetItemString m ''ttl'' = Some y"
      "y = PyInt t \<or> y = PyLong t" by auto
    from check_for_meta_ttl_in_range [OF y(2) r] y(1) Some show ?thesis by simp
  qed
  have c2: "(case PyDict_GetItemString m ''gen'' of
               None \<Rightarrow> (None, ops1) | Some y \<Rightarrow> check_for_meta_gen y ops1) =
            (None, ops1\<lparr>ops_gen := (case gopt of None \<Rightarrow> ops_gen ops1 | Some g \<Rightarrow> word_of_int g)\<rparr>)"
    for ops1
  proof (cases gopt)
    case None
    with assms(2) show ?thesis by auto
  next
    case (Some g)
    with assms(4) have r: "- (2 ^ 63) \<le> g" "g < 2 ^ 63" by simp_all
    from assms(2) Some obtain y where y: "PyDict_GetItemString m ''gen'' = Some y"
      "y = PyInt g \<or> y = PyLong g" by auto
    from check_for_meta_gen_in_range [OF y(2) r] y(1) Some show ?thesis by simp
  qed
  show "check_for_meta (Some (PyDict m)) ops =
           (None, ops\<lparr>ops_ttl := (case topt of None \<Rightarrow> ops_ttl ops | Some t \<Rightarrow> word_of_int t),
                       ops_gen := (case gopt of None \<Rightarrow> ops_gen ops | Some g \<Rightarrow> word_of_int g)\<rparr>)"
    by (cases gopt) (simp_all add: check_for_meta_def c1 c2)
qed

lemma meta_absent:
  assumes "py_meta = None \<or> py_meta = Some PyNone"
  shows "pyobject_to_record_meta py_meta err = (err, 0, 0)"
    and "check_for_meta py_meta ops = (None, ops)"
  using assms by (auto simp: pyobject_to_record_meta_def check_for_meta_def)

lemma record_set_serialized_return:
  "record_set_serialized self serializer_type capacity name py_obj st = (LoopReturn, st') \<Longrightarrow>
     rb_err st' \<noteq> None"
  by (cases "GET_BYTES_POOL self (rb_pool st)")
     (auto simp: record_set_serialized_def Let_def split: if_splits sum.splits)

lemma pyobject_to_record_value_return:
  assumes "pyobject_to_record_value self serializer_type capacity name val st = (LoopReturn, st')"
  shows "rb_err st' \<noteq> None"
proof -
  have a: "(LoopNext, x) = (LoopReturn, st') \<longleftrightarrow> False"
    "(LoopBreak, x) = (LoopReturn, st') \<longleftrightarrow> False" for x
    by simp_all
  from assms show ?thesis
    unfolding pyobject_to_record_value_def Let_def
    by (auto dest: record_set_serialized_return split: if_splits prod.splits sum.splits)
qed

lemma pyobject_to_record_bin_return:
  assumes "pyobject_to_record_bin self serializer_type capacity key val st = (LoopReturn, st')"
  shows "rb_err st' \<noteq> None"
proof (cases "pyobject_to_record_value self serializer_type capacity
    (if PyUnicode_Check key then PyBytes_AsString (PyUnicode_AsUTF8String key)
     else PyString_AsString key) val st")
  case (Pair ctl st1)
  with assms pyobject_to_record_value_return [of self serializer_type capacity _ val st st1]
  show ?thesis
    by (auto simp: pyobject_to_record_bin_def Let_def split: if_splits)
qed

lemma pyobject_to_record_loop_return:
  "pyobject_to_record_loop self serializer_type capacity py_rec st = (LoopReturn, st') \<Longrightarrow>
     rb_err st' \<noteq> None"
proof (induction py_rec arbitrary: st)
  case Nil
  then show ?case by simp
next
  case (Cons kv py_rec)
  obtain key val where kv: "kv = (key, val)" by (cases kv)
  obtain ctl st1 where b: "pyobject_to_record_bin self serializer_type capacity key val st =
      (ctl, st1)"
    by (cases "pyobject_to_record_bin self serializer_type capacity key val st")
  show ?case
  proof (cases "ctl = LoopNext")
    case True
    with Cons.prems kv b
    have "pyobject_to_record_loop self serializer_type capacity py_rec st1 = (LoopReturn, st')"
      by simp
    then show ?thesis by (rule Cons.IH)
  next
    case False
    with Cons.prems kv b pyobject_to_record_bin_return [of self serializer_type capacity key val
        st st'] show ?thesis by auto
  qed
qed

lemma pyobject_to_record_with_meta:
  assumes "pyobject_to_record self py_rec None serializer_type static_pool =
             (None, Live rec_done, static_pool')"
  shows "pyobject_to_record self py_rec py_meta serializer_type static_pool =
     (case pyobject_to_record_meta py_meta None of
        (err, rec_gen, rec_ttl) \<Rightarrow>
          if err \<noteq> None then (err, Destroyed, static_pool')
          else (None, Live (As_record as_key_empty rec_gen rec_ttl (bins rec_done)), static_pool'))"
proof (cases py_rec)
  case None
  with assms show ?thesis by (simp add: pyobject_to_record_def)
next
  case (Some r)
  show ?thesis
  proof (cases "PyDict_Check r")
    case False
    with assms Some show ?thesis by (simp add: pyobject_to_record_def)
  next
    case True
    obtain ctl st where l: "pyobject_to_record_loop self serializer_type
        (uint16_t (length (PyDict_items r))) (PyDict_items r)
        \<lparr>rb_err = None, rb_bins = [], rb_ret_val = False, rb_pool = static_pool\<rparr> = (ctl, st)"
      by (cases "pyobject_to_record_loop self serializer_type
        (uint16_t (length (PyDict_items r))) (PyDict_items r)
        \<lparr>rb_err = None, rb_bins = [], rb_ret_val = False, rb_pool = static_pool\<rparr>")
    have nr: "ctl \<noteq> LoopReturn"
    proof
      assume c: "ctl = LoopReturn"
      with l have "rb_err st \<noteq> None" by (auto dest: pyobject_to_record_loop_return)
      moreover from assms Some True l c have "rb_err st = None"
        by (simp add: pyobject_to_record_def)
      ultimately show False by simp
    qed
    from assms Some True l nr
    have e: "rb_err st = None \<and> rec_done = As_record as_key_empty 0 0 (rb_bins st)
        \<and> static_pool' = rb_pool st"
      by (auto simp: pyobject_to_record_def meta_absent(1) split: if_splits)
    obtain err g t where m: "pyobject_to_record_meta py_meta None = (err, g, t)"
      by (cases "pyobject_to_record_meta py_meta None")
    from Some True l nr e m show ?thesis
      by (simp add: pyobject_to_record_def)
  qed
qed

text \<open>
  Claim C9, as amended. Metadata that is absent or \<^verbatim>\<open>None\<close> sets nothing; metadata that
  is not a dictionary is an error, and every error of the metadata block of
  \<^verbatim>\<open>pyobject_to_record\<close> and of \<^verbatim>\<open>check_for_meta\<close> is \<^verbatim>\<open>AEROSPIKE_ERR_PARAM\<close>. A
  \<^verbatim>\<open>ttl\<close> or \<^verbatim>\<open>gen\<close> that is not an integer is an error, and so is one that does not fit
  a C \<^verbatim>\<open>long\<close>. There is no other test of the range: if each of \<^verbatim>\<open>ttl\<close> and \<^verbatim>\<open>gen\<close> is
  absent or an \<^verbatim>\<open>int\<close> or \<^verbatim>\<open>long\<close> that fits a C \<^verbatim>\<open>long\<close>, there is no error, and each
  one that is present is stored cut down to its low 32 bits (\<^verbatim>\<open>ttl\<close>) or 16 bits
  (\<^verbatim>\<open>gen\<close>), whether or not the other one is present; an absent one leaves 0 in the
  record and leaves the field of the operations as it was. The last part is
  \<^verbatim>\<open>pyobject_to_record\<close> itself: on a record that it converts without metadata, it
  returns with metadata the same bins with the \<^verbatim>\<open>gen\<close> and \<^verbatim>\<open>ttl\<close> of the metadata
  block, or the error of that block and the record destroyed.
\<close>

theorem metadata_conversion:
  "(fst (pyobject_to_record_meta py_meta None) = Some e \<longrightarrow> code e = AEROSPIKE_ERR_PARAM)
   \<and> (fst (check_for_meta py_meta ops) = Some e' \<longrightarrow> code e' = AEROSPIKE_ERR_PARAM)
   \<and> (\<not> PyDict_Check x \<and> x \<noteq> PyNone \<longrightarrow>
        fst (pyobject_to_record_meta (Some x) None) \<noteq> None \<and>
        fst (check_for_meta (Some x) ops) \<noteq> None)
   \<and> ((PyDict_GetItemString m ''ttl'' = Some y \<or> PyDict_GetItemString m ''gen'' = Some y) \<and>
        \<not> PyInt_Check y \<and> \<not> PyLong_Check y \<longrightarrow>
        fst (pyobject_to_record_meta (Some (PyDict m)) None) \<noteq> None \<and>
        fst (check_for_meta (Some (PyDict m)) ops) \<noteq> None)
   \<and> ((PyDict_GetItemString m ''ttl'' = Some z \<or> PyDict_GetItemString m ''gen'' = Some z) \<and>
        (z = PyInt n \<or> z = PyLong n) \<and> (n < - (2 ^ 63) \<or> 2 ^ 63 \<le> n) \<longrightarrow>
        fst (pyobject_to_record_meta (Some (PyDict m)) None) \<noteq> None \<and>
        fst (check_for_meta (Some (PyDict m)) ops) \<noteq> None)
   \<and> ((PyDict_GetItemString m ''ttl'' = map_option PyInt topt
          \<or> PyDict_GetItemString m ''ttl'' = map_option PyLong topt) \<and>
        (PyDict_GetItemString m ''gen'' = map_option PyInt gopt
          \<or> PyDict_GetItemString m ''gen'' = map_option PyLong gopt) \<and>
        (case topt of None \<Rightarrow> True | Some t \<Rightarrow> - (2 ^ 63) \<le> t \<and> t < 2 ^ 63) \<and>
        (case gopt of None \<Rightarrow> True | Some g \<Rightarrow> - (2 ^ 63) \<le> g \<and> g < 2 ^ 63) \<longrightarrow>
        pyobject_to_record_meta (Some (PyDict m)) None =
          (None, (case gopt of None \<Rightarrow> 0 | Some g \<Rightarrow> word_of_int g),
                 (case topt of None \<Rightarrow> 0 | Some t \<Rightarrow> word_of_int t)) \<and>
        check_for_meta (Some (PyDict m)) ops =
          (None, ops\<lparr>ops_ttl := (case topt of None \<Rightarrow> ops_ttl ops | Some t \<Rightarrow> word_of_int t),
                      ops_gen := (case gopt of None \<Rightarrow> ops_gen ops | Some g \<Rightarrow> word_of_int g)\<rparr>))
   \<and> (py_meta = None \<or> py_meta = Some PyNone \<longrightarrow>
        pyobject_to_record_meta py_meta None = (None, 0, 0) \<and>
        check_for_meta py_meta ops = (None, ops))
   \<and> (pyobject_to_record self py_rec None serializer_type static_pool =
          (None, Live rec_done, static_pool') \<longrightarrow>
        pyobject_to_record self py_rec py_meta serializer_type static_pool =
          (case pyobject_to_record_meta py_meta None of
             (err, rec_gen, rec_ttl) \<Rightarrow>
               if err \<noteq> None then (err, Destroyed, static_pool')
               else (None, Live (As_record as_key_empty rec_gen rec_ttl (bins rec_done)),
                     static_pool')))"
proof -
  have c1: "code e = AEROSPIKE_ERR_PARAM" if "fst (pyobject_to_record_meta py_meta None) = Some e"
    using that by (rule record_meta_err_param)
  have c2: "code e' = AEROSPIKE_ERR_PARAM" if "fst (check_for_meta py_meta ops) = Some e'"
    using that by (rule check_for_meta_err_param)
  have c3: "fst (pyobject_to_record_meta (Some x) None) \<noteq> None \<and>
        fst (check_for_meta (Some x) ops) \<noteq> None" if "\<not> PyDict_Check x \<and> x \<noteq> PyNone"
    using that meta_not_dict(1) [of x] meta_not_dict(2) [of x ops] by simp
  have c4a: "fst (pyobject_to_record_meta (Some (PyDict m)) None) \<noteq> None"
    if h: "(PyDict_GetItemString m ''ttl'' = Some y \<or> PyDict_GetItemString m ''gen'' = Some y) \<and>
        \<not> PyInt_Check y \<and> \<not> PyLong_Check y"
    using h record_meta_fails_ttl [of m y] record_meta_fails_gen [of m y]
      record_meta_ttl_not_int [of y] record_meta_gen_not_int [of y]
    by blast
  have c4b: "fst (check_for_meta (Some (PyDict m)) ops) \<noteq> None"
    if h: "(PyDict_GetItemString m ''ttl'' = Some y \<or> PyDict_GetItemString m ''gen'' = Some y) \<and>
        \<not> PyInt_Check y \<and> \<not> PyLong_Check y"
    using h check_for_meta_fails_ttl [of m y ops] check_for_meta_fails_gen [of m y ops]
      check_for_meta_ttl_not_int [of y] check_for_meta_gen_not_int [of y]
    by blast
  have c5a: "fst (pyobject_to_record_meta (Some (PyDict m)) None) \<noteq> None"
    if h: "(PyDict_GetItemString m ''ttl'' = Some z \<or> PyDict_GetItemString m ''gen'' = Some z) \<and>
        (z = PyInt n \<or> z = PyLong n) \<and> (n < - (2 ^ 63) \<or> 2 ^ 63 \<le> n)"
  proof -
    from h have r: "\<not> (- (2 ^ 63) \<le> n \<and> n < 2 ^ 63)" by auto
    from h have zn: "z = PyInt n \<or> z = PyLong n" by simp
    from h consider "PyDict_GetItemString m ''ttl'' = Some z"
      | "PyDict_GetItemString m ''gen'' = Some z" by blast
    then show ?thesis
    proof cases
      case 1
      then show ?thesis
        by (rule record_meta_fails_ttl) (rule record_meta_ttl_overflow [OF zn r])
    next
      case 2
      then show ?thesis
        by (rule record_meta_fails_gen) (rule record_meta_gen_overflow [OF zn r])
    qed
  qed
  have c5b: "fst (check_for_meta (Some (PyDict m)) ops) \<noteq> None"
    if h: "(PyDict_GetItemString m ''ttl'' = Some z \<or> PyDict_GetItemString m ''gen'' = Some z) \<and>
        (z = PyInt n \<or> z = PyLong n) \<and> (n < - (2 ^ 63) \<or> 2 ^ 63 \<le> n)"
  proof -
    from h have r: "\<not> (- (2 ^ 63) \<le> n \<and> n < 2 ^ 63)" by auto
    from h have zn: "z = PyInt n \<or> z = PyLong n" by simp
    from h consider "PyDict_GetItemString m ''ttl'' = Some z"
      | "PyDict_GetItemString m ''gen'' = Some z" by blast
    then show ?thesis
    proof cases
      case 1
      then show ?thesis
        by (rule check_for_meta_fails_ttl) (rule check_for_meta_ttl_overflow [OF zn r])
    next
      case 2
      then show ?thesis
        by (rule check_for_meta_fails_gen) (rule check_for_meta_gen_overflow [OF zn r])
    qed
  qed
  have c6: "pyobject_to_record_meta (Some (PyDict m)) None =
          (None, (case gopt of None \<Rightarrow> 0 | Some g \<Rightarrow> word_of_int g),
                 (case topt of None \<Rightarrow> 0 | Some t \<Rightarrow> word_of_int t)) \<and>
        check_for_meta (Some (PyDict m)) ops =
          (None, ops\<lparr>ops_ttl := (case topt of None \<Rightarrow> ops_ttl ops | Some t \<Rightarrow> word_of_int t),
                      ops_gen := (case gopt of None \<Rightarrow> ops_gen ops | Some g \<Rightarrow> word_of_int g)\<rparr>)"
    if h: "(PyDict_GetItemString m ''ttl'' = map_option PyInt topt
          \<or> PyDict_GetItemString m ''ttl'' = map_option PyLong topt) \<and>
        (PyDict_GetItemString m ''gen'' = map_option PyInt gopt
          \<or> PyDict_GetItemString m ''gen'' = map_option PyLong gopt) \<and>
        (case topt of None \<Rightarrow> True | Some t \<Rightarrow> - (2 ^ 63) \<le> t \<and> t < 2 ^ 63) \<and>
        (case gopt of None \<Rightarrow> True | Some g \<Rightarrow> - (2 ^ 63) \<le> g \<and> g < 2 ^ 63)"
  proof -
    from h have a: "PyDict_GetItemString m ''ttl'' = map_option PyInt topt
          \<or> PyDict_GetItemString m ''ttl'' = map_option PyLong topt"
      and b: "PyDict_GetItemString m ''gen'' = map_option PyInt gopt
          \<or> PyDict_GetItemString m ''gen'' = map_option PyLong gopt"
      and c: "case topt of None \<Rightarrow> True | Some t \<Rightarrow> - (2 ^ 63) \<le> t \<and> t < 2 ^ 63"
      and d: "case gopt of None \<Rightarrow> True | Some g \<Rightarrow> - (2 ^ 63) \<le> g \<and> g < 2 ^ 63"
      by blast+
    from meta_stored(1) [OF a b c d] meta_stored(2) [OF a b c d, where ops = ops] show ?thesis
      by (rule conjI)
  qed
  have c7: "pyobject_to_record_meta py_meta None = (None, 0, 0) \<and>
        check_for_meta py_meta ops = (None, ops)"
    if "py_meta = None \<or> py_meta = Some PyNone"
    using meta_absent(1) [OF that, where err = None] meta_absent(2) [OF that, where ops = ops] by (rule conjI)
  have c8: "pyobject_to_record self py_rec py_meta serializer_type static_pool =
          (case pyobject_to_record_meta py_meta None of
             (err, rec_gen, rec_ttl) \<Rightarrow>
               if err \<noteq> None then (err, Destroyed, static_pool')
               else (None, Live (As_record as_key_empty rec_gen rec_ttl (bins rec_done)),
                     static_pool'))"
    if "pyobject_to_record self py_rec None serializer_type static_pool =
          (None, Live rec_done, static_pool')"
    using that by (rule pyobject_to_record_with_meta)
  from c1 c2 c3 c4a c4b c5a c5b c6 c7 c8 show ?thesis by blast
qed

theorem metadata_conversion_witness:
  "pyobject_to_record example_client (Some (PyDict [(PyString ''a'', PyInt 1)]))
     (Some (PyDict [(PyString ''ttl'', PyInt 100), (PyString ''gen'', PyInt 2)])) 0
     \<lparr>current_bytes_id = 0\<rparr> =
     (None, Live (As_record as_key_empty 2 100 [(''a'', AS_INTEGER 1)]),
      \<lparr>current_bytes_id = 0\<rparr>)
   \<and> pyobject_to_record example_client (Some (PyDict [(PyString ''a'', PyInt 1)]))
     (Some (PyDict [(PyString ''gen'', PyLong 7)])) 0 \<lparr>current_bytes_id = 0\<rparr> =
     (None, Live (As_record as_key_empty 7 0 [(''a'', AS_INTEGER 1)]),
      \<lparr>current_bytes_id = 0\<rparr>)
   \<and> check_for_meta (Some (PyDict [(PyString ''ttl'', PyInt 100)]))
       \<lparr>ops_gen = 5, ops_ttl = 6\<rparr> = (None, \<lparr>ops_gen = 5, ops_ttl = 100\<rparr>)
   \<and> check_for_meta (Some PyNone) \<lparr>ops_gen = 5, ops_ttl = 6\<rparr> =
       (None, \<lparr>ops_gen = 5, ops_ttl = 6\<rparr>)
   \<and> fst (check_for_meta (Some (PyInt 5)) \<lparr>ops_gen = 5, ops_ttl = 6\<rparr>) \<noteq> None
   \<and> fst (check_for_meta (Some (PyDict [(PyString ''ttl'', PyString ''soon'')]))
            \<lparr>ops_gen = 5, ops_ttl = 6\<rparr>) \<noteq> None
   \<and> fst (pyobject_to_record_meta
            (Some (PyDict [(PyString ''gen'', PyLong 18446744073709551616)])) None) \<noteq> None"
proof -
  note mc = metadata_conversion [where ops = "\<lparr>ops_gen = 5, ops_ttl = 6\<rparr>"
      and self = example_client and serializer_type = 0
      and static_pool = "\<lparr>current_bytes_id = 0\<rparr>"
      and static_pool' = "\<lparr>current_bytes_id = 0\<rparr>"
      and py_rec = "Some (PyDict [(PyString ''a'', PyInt 1)])"
      and rec_done = "As_record as_key_empty 0 0 [(''a'', AS_INTEGER 1)]"]
  have v: "pyobject_to_record_value example_client 0 1 ''a'' (PyInt 1)
      \<lparr>rb_err = None, rb_bins = [], rb_ret_val = False, rb_pool = \<lparr>current_bytes_id = 0\<rparr>\<rparr> =
   (LoopNext, \<lparr>rb_err = None, rb_bins = [(''a'', AS_INTEGER 1)], rb_ret_val = True,
               rb_pool = \<lparr>current_bytes_id = 0\<rparr>\<rparr>)"
    by (simp add: pyobject_to_record_value_def as_C_long_def as_record_set_def strlen_def
        example_client_def)
  have s: "strict_types example_client = False"
    by (simp add: example_client_def)
  have b: "pyobject_to_record_bin example_client 0 1 (PyString ''a'') (PyInt 1)
      \<lparr>rb_err = None, rb_bins = [], rb_ret_val = False, rb_pool = \<lparr>current_bytes_id = 0\<rparr>\<rparr> =
   (LoopNext, \<lparr>rb_err = None, rb_bins = [(''a'', AS_INTEGER 1)], rb_ret_val = True,
               rb_pool = \<lparr>current_bytes_id = 0\<rparr>\<rparr>)"
    using v s by (simp add: pyobject_to_record_bin_def)
  have r0: "pyobject_to_record example_client (Some (PyDict [(PyString ''a'', PyInt 1)])) None 0
      \<lparr>current_bytes_id = 0\<rparr> =
      (None, Live (As_record as_key_empty 0 0 [(''a'', AS_INTEGER 1)]), \<lparr>current_bytes_id = 0\<rparr>)"
    using b by (simp add: pyobject_to_record_def uint16_t_def pyobject_to_record_meta_def)
  have m1: "pyobject_to_record_meta
      (Some (PyDict [(PyString ''ttl'', PyInt 100), (PyString ''gen'', PyInt 2)])) None =
      (None, 2, 100)"
    using mc [where m = "[(PyString ''ttl'', PyInt 100), (PyString ''gen'', PyInt 2)]"
        and topt = "Some 100" and gopt = "Some 2",
        THEN conjunct2, THEN conjunct2, THEN conjunct2, THEN conjunct2, THEN conjunct2,
        THEN conjunct1]
    by simp
  have w1: "pyobject_to_record example_client (Some (PyDict [(PyString ''a'', PyInt 1)]))
     (Some (PyDict [(PyString ''ttl'', PyInt 100), (PyString ''gen'', PyInt 2)])) 0
     \<lparr>current_bytes_id = 0\<rparr> =
     (None, Live (As_record as_key_empty 2 100 [(''a'', AS_INTEGER 1)]),
      \<lparr>current_bytes_id = 0\<rparr>)"
    using mc [where py_meta = "Some (PyDict [(PyString ''ttl'', PyInt 100),
          (PyString ''gen'', PyInt 2)])",
        THEN conjunct2, THEN conjunct2, THEN conjunct2, THEN conjunct2, THEN conjunct2,
        THEN conjunct2, THEN conjunct2] r0 m1
    by simp
  have m2: "pyobject_to_record_meta (Some (PyDict [(PyString ''gen'', PyLong 7)])) None =
      (None, 7, 0)"
    using mc [where m = "[(PyString ''gen'', PyLong 7)]"
        and topt = "None" and gopt = "Some 7",
        THEN conjunct2, THEN conjunct2, THEN conjunct2, THEN conjunct2, THEN conjunct2,
        THEN conjunct1]
    by simp
  have w2: "pyobject_to_record example_client (Some (PyDict [(PyString ''a'', PyInt 1)]))
     (Some (PyDict [(PyString ''gen'', PyLong 7)])) 0 \<lparr>current_bytes_id = 0\<rparr> =
     (None, Live (As_record as_key_empty 7 0 [(''a'', AS_INTEGER 1)]),
      \<lparr>current_bytes_id = 0\<rparr>)"
    using mc [where py_meta = "Some (PyDict [(PyString ''gen'', PyLong 7)])",
        THEN conjunct2, THEN conjunct2, THEN conjunct2, THEN conjunct2, THEN conjunct2,
        THEN conjunct2, THEN conjunct2] r0 m2
    by simp
  have w3: "check_for_meta (Some (PyDict [(PyString ''ttl'', PyInt 100)]))
       \<lparr>ops_gen = 5, ops_ttl = 6\<rparr> = (None, \<lparr>ops_gen = 5, ops_ttl = 100\<rparr>)"
    using mc [where m = "[(PyString ''ttl'', PyInt 100)]"
        and topt = "Some 100" and gopt = "None",
        THEN conjunct2, THEN conjunct2, THEN conjunct2, THEN conjunct2, THEN conjunct2,
        THEN conjunct1]
    by simp
  have w4: "check_for_meta (Some PyNone) \<lparr>ops_gen = 5, ops_ttl = 6\<rparr> =
       (None, \<lparr>ops_gen = 5, ops_ttl = 6\<rparr>)"
    using mc [where py_meta = "Some PyNone",
        THEN conjunct2, THEN conjunct2, THEN conjunct2, THEN conjunct2, THEN conjunct2,
        THEN conjunct2, THEN conjunct1]
    by simp
  have nd: "fst (check_for_meta (Some (PyInt 5)) \<lparr>ops_gen = 5, ops_ttl = 6\<rparr>) \<noteq> None"
    using mc [where x = "PyInt 5", THEN conjunct2, THEN conjunct2, THEN conjunct1]
    by simp
  have ni: "fst (check_for_meta (Some (PyDict [(PyString ''ttl'', PyString ''soon'')]))
      \<lparr>ops_gen = 5, ops_ttl = 6\<rparr>) \<noteq> None"
    using mc [where m = "[(PyString ''ttl'', PyString ''soon'')]" and y = "PyString ''soon''",
        THEN conjunct2, THEN conjunct2, THEN conjunct2, THEN conjunct1]
    by simp
  have ov: "fst (pyobject_to_record_meta
      (Some (PyDict [(PyString ''gen'', PyLong 18446744073709551616)])) None) \<noteq> None"
    using mc [where m = "[(PyString ''gen'', PyLong 18446744073709551616)]"
        and z = "PyLong 18446744073709551616" and n = 18446744073709551616,
        THEN conjunct2, THEN conjunct2, THEN conjunct2, THEN conjunct2, THEN conjunct1]
    by simp
  from w1 w2 w3 w4 nd ni ov show ?thesis by simp
qed

text \<open>
  Claim C9 as stated fails: a \<^verbatim>\<open>ttl\<close> of \<open>2 ^ 32\<close> and a \<^verbatim>\<open>gen\<close> of \<open>2 ^ 16 + 1\<close> are
  outside the unsigned 32-bit and 16-bit ranges, and both converters store them, as 0
  and 1, with the status \<^verbatim>\<open>AEROSPIKE_OK\<close>.
\<close>

theorem metadata_overflow_stored:
  "pyobject_to_record example_client (Some (PyDict []))
     (Some (PyDict [(PyString ''ttl'', PyInt 4294967296), (PyString ''gen'', PyInt 65537)])) 0
     \<lparr>current_bytes_id = 0\<rparr> =
     (None, Live (As_record as_key_empty 1 0 []), \<lparr>current_bytes_id = 0\<rparr>)
   \<and> check_for_meta
       (Some (PyDict [(PyString ''ttl'', PyInt 4294967296), (PyString ''gen'', PyInt 65537)]))
       \<lparr>ops_gen = 0, ops_ttl = 0\<rparr> = (None, \<lparr>ops_gen = 1, ops_ttl = 0\<rparr>)"
proof -
  have w: "(ucast (word_of_int 4294967296 :: 64 word) :: 32 word) = 0"
    "(ucast (word_of_int 65537 :: 64 word) :: 16 word) = 1"
    unfolding ucast_long_32 ucast_long_16 by simp_all
  have l: "as_C_long 4294967296 = (word_of_int 4294967296, None)"
    "as_C_long 65537 = (word_of_int 65537, None)"
    by (simp_all add: as_C_long_def)
  show ?thesis
    by (simp add: pyobject_to_record_no_bins pyobject_to_record_meta_def check_for_meta_def
        record_meta_ttl_def record_meta_gen_def check_for_meta_ttl_def check_for_meta_gen_def
        l w del: word_of_int_numeral)
qed

subsection \<open>Booleans\<close>






subsection \<open>The context of a nested operation\<close>

lemma get_cdt_ctx_loop_step:
  assumes "PyObject_GetAttrString py_val ''id'' = Some id_temp"
    and "PyObject_GetAttrString py_val ''value'' = Some value_temp"
    and "PyLong_AsUnsignedLong id_temp = (item_type, None)"
  shows "get_cdt_ctx_loop self serializer_type (py_val # py_ctx) cdt_ctx static_pool =
     (if requires_int item_type
      then (if snd (PyLong_AsLong self value_temp) \<noteq> None
            then (Some (as_error_update AEROSPIKE_ERR_PARAM
                          (''Failed to convert '' @ CTX_KEY)), Destroyed, static_pool)
            else get_cdt_ctx_loop self serializer_type py_ctx
                   (as_cdt_ctx_add_int cdt_ctx item_type
                      (ucast (fst (PyLong_AsLong self value_temp)))) static_pool)
      else (case pyobject_to_val self serializer_type value_temp static_pool of
              (Inl e, static_pool') \<Rightarrow>
                (Some (as_error_update AEROSPIKE_ERR_PARAM
                         (''Failed to convert '' @ CTX_KEY)), Live cdt_ctx, static_pool')
            | (Inr val, static_pool') \<Rightarrow>
                if item_type = AS_CDT_CTX_LIST_VALUE \<or> item_type = AS_CDT_CTX_MAP_KEY
                   \<or> item_type = AS_CDT_CTX_MAP_VALUE
                then get_cdt_ctx_loop self serializer_type py_ctx
                       (as_cdt_ctx_add_val cdt_ctx item_type val) static_pool'
                else (Some (as_error_update AEROSPIKE_ERR_PARAM
                              (''Failed to convert, unknown ctx operation '' @ CTX_KEY)),
                      Destroyed, static_pool')))"
proof (cases "requires_int item_type")
  case True
  then have "item_type = AS_CDT_CTX_LIST_INDEX \<or> item_type = AS_CDT_CTX_LIST_RANK
      \<or> item_type = AS_CDT_CTX_MAP_INDEX \<or> item_type = AS_CDT_CTX_MAP_RANK"
    by (simp add: requires_int_def)
  with True assms show ?thesis
    by (cases "PyLong_AsLong self value_temp") (simp add: Let_def)
next
  case False
  with assms show ?thesis by simp
qed

lemma get_cdt_ctx_loop_bad_step:
  assumes "PyObject_GetAttrString py_val ''id'' = None
     \<or> PyObject_GetAttrString py_val ''value'' = None
     \<or> (\<exists>id_temp. PyObject_GetAttrString py_val ''id'' = Some id_temp
           \<and> snd (PyLong_AsUnsignedLong id_temp) \<noteq> None)"
  shows "get_cdt_ctx_loop self serializer_type (py_val # py_ctx) cdt_ctx static_pool =
     (Some (as_error_update AEROSPIKE_ERR_PARAM (''Failed to convert '' @ CTX_KEY)),
      Destroyed, static_pool)"
proof (cases "PyObject_GetAttrString py_val ''id''")
  case None
  then show ?thesis by simp
next
  case id: (Some id_temp)
  show ?thesis
  proof (cases "PyObject_GetAttrString py_val ''value''")
    case None
    with id show ?thesis by simp
  next
    case (Some value_temp)
    with id assms have "snd (PyLong_AsUnsignedLong id_temp) \<noteq> None" by simp
    with id Some show ?thesis
      by (cases "PyLong_AsUnsignedLong id_temp") simp
  qed
qed

lemma get_cdt_ctx_loop_step_cases:
  obtains
    (bad) "get_cdt_ctx_loop self serializer_type (py_val # py_ctx) cdt_ctx static_pool =
       (Some (as_error_update AEROSPIKE_ERR_PARAM (''Failed to convert '' @ CTX_KEY)),
        Destroyed, static_pool)"
  | (good) id_temp value_temp item_type where
      "PyObject_GetAttrString py_val ''id'' = Some id_temp"
      "PyObject_GetAttrString py_val ''value'' = Some value_temp"
      "PyLong_AsUnsignedLong id_temp = (item_type, None)"
proof (cases "PyObject_GetAttrString py_val ''id'' = None
     \<or> PyObject_GetAttrString py_val ''value'' = None
     \<or> (\<exists>id_temp. PyObject_GetAttrString py_val ''id'' = Some id_temp
           \<and> snd (PyLong_AsUnsignedLong id_temp) \<noteq> None)")
  case True
  then show ?thesis by (rule bad [OF get_cdt_ctx_loop_bad_step])
next
  case False
  then obtain id_temp value_temp where
    a: "PyObject_GetAttrString py_val ''id'' = Some id_temp"
      "PyObject_GetAttrString py_val ''value'' = Some value_temp"
    by auto
  with False have "snd (PyLong_AsUnsignedLong id_temp) = None" by simp
  then have "PyLong_AsUnsignedLong id_temp = (fst (PyLong_AsUnsignedLong id_temp), None)"
    by (cases "PyLong_AsUnsignedLong id_temp") simp
  with a show ?thesis by (rule good)
qed

lemma get_cdt_ctx_loop_append:
  "get_cdt_ctx_loop self serializer_type pre ctx0 pool0 = (None, Live cdt_ctx, static_pool) \<Longrightarrow>
   get_cdt_ctx_loop self serializer_type (pre @ py_ctx) ctx0 pool0 =
     get_cdt_ctx_loop self serializer_type py_ctx cdt_ctx static_pool"
proof (induction pre arbitrary: ctx0 pool0)
  case Nil
  then show ?case by simp
next
  case (Cons py_val pre)
  show ?case
  proof (cases rule: get_cdt_ctx_loop_step_cases [of self serializer_type py_val pre ctx0 pool0])
    case bad
    with Cons.prems show ?thesis by simp
  next
    case (good id_temp value_temp item_type)
    note s = get_cdt_ctx_loop_step [OF good]
    show ?thesis
    proof (cases "requires_int item_type")
      case True
      from Cons.prems True have ne: "snd (PyLong_AsLong self value_temp) = None"
        unfolding s by (simp split: if_splits)
      from Cons.prems True ne
      have "get_cdt_ctx_loop self serializer_type pre
              (as_cdt_ctx_add_int ctx0 item_type (ucast (fst (PyLong_AsLong self value_temp))))
              pool0 = (None, Live cdt_ctx, static_pool)"
        unfolding s by simp
      from Cons.IH [OF this] True ne show ?thesis
        unfolding append_Cons s by simp
    next
      case False
      show ?thesis
      proof (cases "pyobject_to_val self serializer_type value_temp pool0")
        case (Pair r p)
        show ?thesis
        proof (cases r)
          case (Inl e)
          with Pair False Cons.prems show ?thesis unfolding s by simp
        next
          case (Inr val)
          from Cons.prems False Pair Inr
          have k: "item_type = AS_CDT_CTX_LIST_VALUE \<or> item_type = AS_CDT_CTX_MAP_KEY
                   \<or> item_type = AS_CDT_CTX_MAP_VALUE"
            unfolding s by (simp split: if_splits)
          from Cons.prems False Pair Inr k
          have "get_cdt_ctx_loop self serializer_type pre
                  (as_cdt_ctx_add_val ctx0 item_type val) p = (None, Live cdt_ctx, static_pool)"
            unfolding s by (simp split: if_splits)
          from Cons.IH [OF this] False Pair Inr k show ?thesis
            unfolding append_Cons s by simp
        qed
      qed
    qed
  qed
qed

lemma get_cdt_ctx_loop_param:
  "get_cdt_ctx_loop self serializer_type py_ctx cdt_ctx static_pool = (Some e, out, static_pool') \<Longrightarrow>
   code e = AEROSPIKE_ERR_PARAM"
proof (induction py_ctx arbitrary: cdt_ctx static_pool)
  case Nil
  then show ?case by simp
next
  case (Cons py_val py_ctx)
  show ?case
  proof (cases rule: get_cdt_ctx_loop_step_cases [of self serializer_type py_val py_ctx cdt_ctx
        static_pool])
    case bad
    with Cons.prems have "e = as_error_update AEROSPIKE_ERR_PARAM (''Failed to convert '' @ CTX_KEY)"
      by simp
    then show ?thesis by (simp add: as_error_update_def)
  next
    case (good id_temp value_temp item_type)
    note s = get_cdt_ctx_loop_step [OF good]
    show ?thesis
    proof (cases "requires_int item_type")
      case True
      show ?thesis
      proof (cases "snd (PyLong_AsLong self value_temp) = None")
        case ne: True
        from Cons.prems True ne
        have "get_cdt_ctx_loop self serializer_type py_ctx
              (as_cdt_ctx_add_int cdt_ctx item_type (ucast (fst (PyLong_AsLong self value_temp))))
              static_pool = (Some e, out, static_pool')"
          unfolding s by simp
        then show ?thesis by (rule Cons.IH)
      next
        case False
        with Cons.prems True
        have "e = as_error_update AEROSPIKE_ERR_PARAM (''Failed to convert '' @ CTX_KEY)"
          unfolding s by simp
        then show ?thesis by (simp add: as_error_update_def)
      qed
    next
      case False
      show ?thesis
      proof (cases "pyobject_to_val self serializer_type value_temp static_pool")
        case (Pair r p)
        show ?thesis
        proof (cases r)
          case (Inl e')
          with Pair False Cons.prems
          have "e = as_error_update AEROSPIKE_ERR_PARAM (''Failed to convert '' @ CTX_KEY)"
            unfolding s by simp
          then show ?thesis by (simp add: as_error_update_def)
        next
          case (Inr val)
          show ?thesis
          proof (cases "item_type = AS_CDT_CTX_LIST_VALUE \<or> item_type = AS_CDT_CTX_MAP_KEY
                   \<or> item_type = AS_CDT_CTX_MAP_VALUE")
            case k: True
            from Cons.prems False Pair Inr k
            have "get_cdt_ctx_loop self serializer_type py_ctx
                  (as_cdt_ctx_add_val cdt_ctx item_type val) p = (Some e, out, static_pool')"
              unfolding s by simp
            then show ?thesis by (rule Cons.IH)
          next
            case k: False
            from Cons.prems False Pair Inr k
            have "e = as_error_update AEROSPIKE_ERR_PARAM
                        (''Failed to convert, unknown ctx operation '' @ CTX_KEY)"
              unfolding s by simp
            then show ?thesis by (simp add: as_error_update_def)
          qed
        qed
      qed
    qed
  qed
qed

lemma pyobject_to_val_integer:
  assumes "value_temp = PyInt n \<or> value_temp = PyLong n"
    and "- (2 ^ 63) \<le> n" and "n < 2 ^ 63"
  shows "pyobject_to_val self serializer_type value_temp static_pool =
    (Inr (AS_INTEGER (word_of_int n)), static_pool)"
proof -
  have "pyobject_to_val self serializer_type (PyInt n) static_pool =
    (Inr (AS_INTEGER (word_of_int n)), static_pool)"
    using assms(2,3) by (simp add: pyobject_to_val.simps as_C_long_def)
  moreover have "pyobject_to_val self serializer_type (PyLong n) static_pool =
    (Inr (AS_INTEGER (word_of_int n)), static_pool)"
    using assms(2,3) by (simp add: pyobject_to_val.simps as_C_long_def PyLong_AsLongLong_def)
  ultimately show ?thesis using assms(1) by auto
qed

lemma get_cdt_ctx_of_list:
  assumes "PyDict_GetItemString (PyDict_items op_dict) CTX_KEY = Some (PyList py_ctx)"
  shows "get_cdt_ctx self op_dict static_pool serializer_type =
     (case get_cdt_ctx_loop self serializer_type py_ctx [] static_pool of
        (err, cdt_ctx, static_pool') \<Rightarrow> (err, cdt_ctx, True, static_pool'))"
  using assms by (simp add: get_cdt_ctx_def)

lemma get_cdt_ctx_param:
  assumes "fst (get_cdt_ctx self op_dict static_pool serializer_type) = Some e"
  shows "code e = AEROSPIKE_ERR_PARAM"
proof (cases "PyDict_GetItemString (PyDict_items op_dict) CTX_KEY")
  case None
  with assms show ?thesis by (simp add: get_cdt_ctx_def)
next
  case (Some py_ctx)
  show ?thesis
  proof (cases "PyList_Check py_ctx")
    case False
    with assms Some show ?thesis by (auto simp: get_cdt_ctx_def as_error_update_def)
  next
    case True
    obtain err out p where l: "get_cdt_ctx_loop self serializer_type (PyList_items py_ctx) []
        static_pool = (err, out, p)"
      by (cases "get_cdt_ctx_loop self serializer_type (PyList_items py_ctx) [] static_pool")
    with assms Some True have "err = Some e" by (simp add: get_cdt_ctx_def)
    with l show ?thesis by (auto dest: get_cdt_ctx_loop_param)
  qed
qed

lemma PyLong_AsLong_no_number:
  assumes "PyString_Check v \<or> PyUnicode_Check v \<or> PyByteArray_Check v \<or> PyList_Check v
           \<or> PyTuple_Check v \<or> PyDict_Check v \<or> v = PyNone"
  shows "PyLong_AsLong self v = (- 1, Some TypeError)"
  using assms by (cases v) (simp_all add: PyLong_AsLong_def)

lemma PyLong_AsLong_integer:
  assumes "v = PyInt n \<or> v = PyLong n"
  shows "PyLong_AsLong self v = as_C_long n"
  using assms by (auto simp: PyLong_AsLong_def)

lemma PyLong_AsLong_bool:
  "PyLong_AsLong self (PyBool b) = (if b then 1 else 0, None)"
  by (simp add: PyLong_AsLong_def as_C_long_def)

lemma PyLong_AsLong_float:
  "PyLong_AsLong self (PyFloat d) =
     (case float_trunc d of Inl exc \<Rightarrow> (- 1, Some exc) | Inr n \<Rightarrow> as_C_long n)"
  by (simp add: PyLong_AsLong_def)

lemma as_C_long_cases:
  "as_C_long n = (if n < - (2 ^ 63) \<or> 2 ^ 63 \<le> n then (- 1, Some OverflowError)
                  else (word_of_int n, None))"
  by (auto simp: as_C_long_def)

lemma float_trunc_one_and_a_half: "float_trunc 0x3FF8000000000000 = Inr 1"
  by (simp add: float_trunc_def Let_def)

text \<open>Claim C7, as amended. Take a step of the context of \<^verbatim>\<open>get_cdt_ctx\<close> that the loop
  reaches: the steps \<open>pre\<close> before it convert, to \<open>cdt_ctx\<close>, and its \<^verbatim>\<open>id\<close> reads as the
  kind \<open>item_type\<close>. \<open>op_last\<close> is an operation whose context ends with that step, \<open>op_dict\<close>
  one where any steps follow it. Every failure of \<^verbatim>\<open>get_cdt_ctx\<close> is
  \<^verbatim>\<open>AEROSPIKE_ERR_PARAM\<close>.

  \<^item> For the four kinds of \<open>requires_int\<close> the payload goes through \<^verbatim>\<open>PyLong_AsLong\<close>. A
    payload that is \<^verbatim>\<open>None\<close>, a \<^verbatim>\<open>str\<close>, a \<^verbatim>\<open>unicode\<close>, a byte array, a list, a tuple or
    a dictionary is rejected, and so is an \<^verbatim>\<open>int\<close> or \<^verbatim>\<open>long\<close> that does not fit a C
    \<^verbatim>\<open>long\<close>. An \<^verbatim>\<open>int\<close> or \<^verbatim>\<open>long\<close> that fits is added, cut down to the 32 bits of a C
    \<^verbatim>\<open>int\<close>, and so is a \<^verbatim>\<open>bool\<close>. A \<^verbatim>\<open>float\<close> is not rejected: it is added with its
    fraction cut off, unless it is an infinity or a NaN or does not fit a C \<^verbatim>\<open>long\<close>.
  \<^item> For the three kinds of a value, a payload that \<open>pyobject_to_val\<close> converts is added,
    and an \<^verbatim>\<open>int\<close> or \<^verbatim>\<open>long\<close> that fits 64 bits is such a payload; a payload that
    \<open>pyobject_to_val\<close> does not convert is rejected.
  \<^item> A kind that is none of the seven is rejected.\<close>

theorem ctx_step_enforcement:
  assumes "PyDict_GetItemString (PyDict_items op_pre) CTX_KEY = Some (PyList pre)"
    and "get_cdt_ctx self op_pre pool0 serializer_type = (None, Live cdt_ctx, True, static_pool)"
    and "PyDict_GetItemString (PyDict_items op_last) CTX_KEY = Some (PyList (pre @ [py_val]))"
    and "PyDict_GetItemString (PyDict_items op_dict) CTX_KEY =
           Some (PyList (pre @ py_val # py_ctx))"
    and "PyObject_GetAttrString py_val ''id'' = Some id_temp"
    and "PyObject_GetAttrString py_val ''value'' = Some value_temp"
    and "PyLong_AsUnsignedLong id_temp = (item_type, None)"
  shows
  "(fst (get_cdt_ctx self any_dict any_pool serializer_type) = Some e \<longrightarrow>
      code e = AEROSPIKE_ERR_PARAM)
   \<and> (requires_int item_type \<and>
        (PyString_Check value_temp \<or> PyUnicode_Check value_temp \<or> PyByteArray_Check value_temp
         \<or> PyList_Check value_temp \<or> PyTuple_Check value_temp \<or> PyDict_Check value_temp
         \<or> value_temp = PyNone) \<longrightarrow>
        get_cdt_ctx self op_dict pool0 serializer_type =
          (Some (as_error_update AEROSPIKE_ERR_PARAM ''Failed to convert ctx''),
           Destroyed, True, static_pool))
   \<and> (requires_int item_type \<and> (value_temp = PyInt n \<or> value_temp = PyLong n)
        \<and> (n < - (2 ^ 63) \<or> 2 ^ 63 \<le> n) \<longrightarrow>
        get_cdt_ctx self op_dict pool0 serializer_type =
          (Some (as_error_update AEROSPIKE_ERR_PARAM ''Failed to convert ctx''),
           Destroyed, True, static_pool))
   \<and> (requires_int item_type \<and> (value_temp = PyInt n \<or> value_temp = PyLong n)
        \<and> - (2 ^ 63) \<le> n \<and> n < 2 ^ 63 \<longrightarrow>
        get_cdt_ctx self op_last pool0 serializer_type =
          (None, Live (as_cdt_ctx_add_int cdt_ctx item_type (word_of_int n)), True, static_pool))
   \<and> (requires_int item_type \<and> value_temp = PyBool b \<longrightarrow>
        get_cdt_ctx self op_last pool0 serializer_type =
          (None, Live (as_cdt_ctx_add_int cdt_ctx item_type (if b then 1 else 0)), True,
           static_pool))
   \<and> (requires_int item_type \<and> value_temp = PyFloat d \<and> float_trunc d = Inr n
        \<and> - (2 ^ 63) \<le> n \<and> n < 2 ^ 63 \<longrightarrow>
        get_cdt_ctx self op_last pool0 serializer_type =
          (None, Live (as_cdt_ctx_add_int cdt_ctx item_type (word_of_int n)), True, static_pool))
   \<and> (requires_int item_type \<and> value_temp = PyFloat d
        \<and> (float_trunc d = Inl exc \<or> float_trunc d = Inr n \<and> (n < - (2 ^ 63) \<or> 2 ^ 63 \<le> n))
        \<longrightarrow>
        get_cdt_ctx self op_dict pool0 serializer_type =
          (Some (as_error_update AEROSPIKE_ERR_PARAM ''Failed to convert ctx''),
           Destroyed, True, static_pool))
   \<and> ((item_type = AS_CDT_CTX_LIST_VALUE \<or> item_type = AS_CDT_CTX_MAP_KEY
         \<or> item_type = AS_CDT_CTX_MAP_VALUE)
        \<and> pyobject_to_val self serializer_type value_temp static_pool =
            (Inr val, static_pool') \<longrightarrow>
        get_cdt_ctx self op_last pool0 serializer_type =
          (None, Live (as_cdt_ctx_add_val cdt_ctx item_type val), True, static_pool'))
   \<and> ((item_type = AS_CDT_CTX_LIST_VALUE \<or> item_type = AS_CDT_CTX_MAP_KEY
         \<or> item_type = AS_CDT_CTX_MAP_VALUE)
        \<and> (value_temp = PyInt n \<or> value_temp = PyLong n)
        \<and> - (2 ^ 63) \<le> n \<and> n < 2 ^ 63 \<longrightarrow>
        get_cdt_ctx self op_last pool0 serializer_type =
          (None, Live (as_cdt_ctx_add_val cdt_ctx item_type (AS_INTEGER (word_of_int n))), True,
           static_pool))
   \<and> (\<not> requires_int item_type
        \<and> pyobject_to_val self serializer_type value_temp static_pool =
            (Inl e', static_pool') \<longrightarrow>
        get_cdt_ctx self op_dict pool0 serializer_type =
          (Some (as_error_update AEROSPIKE_ERR_PARAM ''Failed to convert ctx''),
           Live cdt_ctx, True, static_pool'))
   \<and> (\<not> requires_int item_type \<and> item_type \<noteq> AS_CDT_CTX_LIST_VALUE
        \<and> item_type \<noteq> AS_CDT_CTX_MAP_KEY \<and> item_type \<noteq> AS_CDT_CTX_MAP_VALUE
        \<and> pyobject_to_val self serializer_type value_temp static_pool =
            (Inr val, static_pool') \<longrightarrow>
        get_cdt_ctx self op_dict pool0 serializer_type =
          (Some (as_error_update AEROSPIKE_ERR_PARAM
                   ''Failed to convert, unknown ctx operation ctx''),
           Destroyed, True, static_pool'))"
proof -
  from assms(2) have pre: "get_cdt_ctx_loop self serializer_type pre [] pool0 =
      (None, Live cdt_ctx, static_pool)"
    unfolding get_cdt_ctx_of_list [OF assms(1)]
    by (cases "get_cdt_ctx_loop self serializer_type pre [] pool0") simp
  note step = get_cdt_ctx_loop_step [OF assms(5-7), of self serializer_type _ cdt_ctx
      static_pool]
  have last: "get_cdt_ctx self op_last pool0 serializer_type =
     (case get_cdt_ctx_loop self serializer_type [py_val] cdt_ctx static_pool of
        (err, c, p) \<Rightarrow> (err, c, True, p))"
    unfolding get_cdt_ctx_of_list [OF assms(3)] get_cdt_ctx_loop_append [OF pre] ..
  have dict: "get_cdt_ctx self op_dict pool0 serializer_type =
     (case get_cdt_ctx_loop self serializer_type (py_val # py_ctx) cdt_ctx static_pool of
        (err, c, p) \<Rightarrow> (err, c, True, p))"
    unfolding get_cdt_ctx_of_list [OF assms(4)] get_cdt_ctx_loop_append [OF pre] ..
  have kinds: "\<not> requires_int item_type"
    if "item_type = AS_CDT_CTX_LIST_VALUE \<or> item_type = AS_CDT_CTX_MAP_KEY
         \<or> item_type = AS_CDT_CTX_MAP_VALUE"
    using that
    by (auto simp: requires_int_def AS_CDT_CTX_LIST_VALUE_def AS_CDT_CTX_MAP_KEY_def
        AS_CDT_CTX_MAP_VALUE_def AS_CDT_CTX_LIST_INDEX_def AS_CDT_CTX_LIST_RANK_def
        AS_CDT_CTX_MAP_INDEX_def AS_CDT_CTX_MAP_RANK_def)
  have rej: "get_cdt_ctx self op_dict pool0 serializer_type =
          (Some (as_error_update AEROSPIKE_ERR_PARAM ''Failed to convert ctx''),
           Destroyed, True, static_pool)"
    if "requires_int item_type" and "snd (PyLong_AsLong self value_temp) \<noteq> None"
    using that unfolding dict step by (simp add: CTX_KEY_def)
  have acc: "get_cdt_ctx self op_last pool0 serializer_type =
          (None, Live (as_cdt_ctx_add_int cdt_ctx item_type (ucast w)), True, static_pool)"
    if "requires_int item_type" and "PyLong_AsLong self value_temp = (w, None)" for w
    using that unfolding last step by simp
  have c0: "code e = AEROSPIKE_ERR_PARAM"
    if "fst (get_cdt_ctx self any_dict any_pool serializer_type) = Some e"
    using that by (rule get_cdt_ctx_param)
  have c1: "get_cdt_ctx self op_dict pool0 serializer_type =
          (Some (as_error_update AEROSPIKE_ERR_PARAM ''Failed to convert ctx''),
           Destroyed, True, static_pool)"
    if h: "requires_int item_type \<and>
        (PyString_Check value_temp \<or> PyUnicode_Check value_temp \<or> PyByteArray_Check value_temp
         \<or> PyList_Check value_temp \<or> PyTuple_Check value_temp \<or> PyDict_Check value_temp
         \<or> value_temp = PyNone)"
  proof -
    from h have "PyLong_AsLong self value_temp = (- 1, Some TypeError)"
      by (intro PyLong_AsLong_no_number) simp
    with h show ?thesis by (intro rej) simp_all
  qed
  have c2: "get_cdt_ctx self op_dict pool0 serializer_type =
          (Some (as_error_update AEROSPIKE_ERR_PARAM ''Failed to convert ctx''),
           Destroyed, True, static_pool)"
    if h: "requires_int item_type \<and> (value_temp = PyInt n \<or> value_temp = PyLong n)
        \<and> (n < - (2 ^ 63) \<or> 2 ^ 63 \<le> n)"
  proof -
    from h have "PyLong_AsLong self value_temp = as_C_long n"
      by (intro PyLong_AsLong_integer) simp
    with h have "PyLong_AsLong self value_temp = (- 1, Some OverflowError)"
      by (simp add: as_C_long_cases)
    with h show ?thesis by (intro rej) simp_all
  qed
  have c3: "get_cdt_ctx self op_last pool0 serializer_type =
          (None, Live (as_cdt_ctx_add_int cdt_ctx item_type (word_of_int n)), True, static_pool)"
    if h: "requires_int item_type \<and> (value_temp = PyInt n \<or> value_temp = PyLong n)
        \<and> - (2 ^ 63) \<le> n \<and> n < 2 ^ 63"
  proof -
    from h have "PyLong_AsLong self value_temp = as_C_long n"
      by (intro PyLong_AsLong_integer) simp
    with h have "PyLong_AsLong self value_temp = (word_of_int n, None)"
      by (simp add: as_C_long_def)
    with h acc [of "word_of_int n"] show ?thesis by (simp add: ucast_long_32)
  qed
  have c4: "get_cdt_ctx self op_last pool0 serializer_type =
          (None, Live (as_cdt_ctx_add_int cdt_ctx item_type (if b then 1 else 0)), True,
           static_pool)"
    if h: "requires_int item_type \<and> value_temp = PyBool b"
  proof -
    from h have "PyLong_AsLong self value_temp = (if b then 1 else 0, None)"
      by (simp add: PyLong_AsLong_bool)
    with h acc [of "if b then 1 else 0"] show ?thesis by (cases b) simp_all
  qed
  have c5: "get_cdt_ctx self op_last pool0 serializer_type =
          (None, Live (as_cdt_ctx_add_int cdt_ctx item_type (word_of_int n)), True, static_pool)"
    if h: "requires_int item_type \<and> value_temp = PyFloat d \<and> float_trunc d = Inr n
        \<and> - (2 ^ 63) \<le> n \<and> n < 2 ^ 63"
  proof -
    from h have "PyLong_AsLong self value_temp = (word_of_int n, None)"
      by (simp add: PyLong_AsLong_float as_C_long_def)
    with h acc [of "word_of_int n"] show ?thesis by (simp add: ucast_long_32)
  qed
  have c6: "get_cdt_ctx self op_dict pool0 serializer_type =
          (Some (as_error_update AEROSPIKE_ERR_PARAM ''Failed to convert ctx''),
           Destroyed, True, static_pool)"
    if h: "requires_int item_type \<and> value_temp = PyFloat d
        \<and> (float_trunc d = Inl exc \<or> float_trunc d = Inr n \<and> (n < - (2 ^ 63) \<or> 2 ^ 63 \<le> n))"
  proof -
    from h have "snd (PyLong_AsLong self value_temp) \<noteq> None"
      by (auto simp: PyLong_AsLong_float as_C_long_cases)
    with h show ?thesis by (intro rej) simp_all
  qed
  have c7: "get_cdt_ctx self op_last pool0 serializer_type =
          (None, Live (as_cdt_ctx_add_val cdt_ctx item_type v), True, p)"
    if "(item_type = AS_CDT_CTX_LIST_VALUE \<or> item_type = AS_CDT_CTX_MAP_KEY
         \<or> item_type = AS_CDT_CTX_MAP_VALUE)
        \<and> pyobject_to_val self serializer_type value_temp static_pool = (Inr v, p)" for v p
    using that kinds unfolding last step by simp
  have c8: "get_cdt_ctx self op_last pool0 serializer_type =
          (None, Live (as_cdt_ctx_add_val cdt_ctx item_type (AS_INTEGER (word_of_int n))), True,
           static_pool)"
    if h: "(item_type = AS_CDT_CTX_LIST_VALUE \<or> item_type = AS_CDT_CTX_MAP_KEY
         \<or> item_type = AS_CDT_CTX_MAP_VALUE)
        \<and> (value_temp = PyInt n \<or> value_temp = PyLong n)
        \<and> - (2 ^ 63) \<le> n \<and> n < 2 ^ 63"
  proof -
    from h have "pyobject_to_val self serializer_type value_temp static_pool =
        (Inr (AS_INTEGER (word_of_int n)), static_pool)"
      by (intro pyobject_to_val_integer) simp_all
    with h show ?thesis by (intro c7) simp
  qed
  have c9: "get_cdt_ctx self op_dict pool0 serializer_type =
          (Some (as_error_update AEROSPIKE_ERR_PARAM ''Failed to convert ctx''),
           Live cdt_ctx, True, static_pool')"
    if "\<not> requires_int item_type
        \<and> pyobject_to_val self serializer_type value_temp static_pool = (Inl e', static_pool')"
    using that unfolding dict step by (simp add: CTX_KEY_def)
  have c10: "get_cdt_ctx self op_dict pool0 serializer_type =
          (Some (as_error_update AEROSPIKE_ERR_PARAM
                   ''Failed to convert, unknown ctx operation ctx''),
           Destroyed, True, static_pool')"
    if "\<not> requires_int item_type \<and> item_type \<noteq> AS_CDT_CTX_LIST_VALUE
        \<and> item_type \<noteq> AS_CDT_CTX_MAP_KEY \<and> item_type \<noteq> AS_CDT_CTX_MAP_VALUE
        \<and> pyobject_to_val self serializer_type value_temp static_pool = (Inr val, static_pool')"
    using that unfolding dict step by (simp add: CTX_KEY_def)
  show ?thesis
    by (intro conjI impI) (erule c0 c1 c2 c3 c4 c5 c6 c7 c8 c9 c10)+
qed

theorem ctx_step_enforcement_witness:
  "get_cdt_ctx example_client
     (PyDict [(PyString ''ctx'',
               PyList [example_ctx_step 0x10 (PyInt 0), example_ctx_step 0x11 (PyString ''x''),
                       example_ctx_step 0x10 (PyInt 1)])])
     \<lparr>current_bytes_id = 0\<rparr> 0 =
     (Some (as_error_update AEROSPIKE_ERR_PARAM ''Failed to convert ctx''), Destroyed, True,
      \<lparr>current_bytes_id = 0\<rparr>)
   \<and> get_cdt_ctx example_client
     (PyDict [(PyString ''ctx'',
               PyList [example_ctx_step 0x10 (PyInt 0), example_ctx_step 0x21 (PyLong 3)])])
     \<lparr>current_bytes_id = 0\<rparr> 0 =
     (None, Live [(AS_CDT_CTX_LIST_INDEX, Ival 0), (AS_CDT_CTX_MAP_RANK, Ival 3)], True,
      \<lparr>current_bytes_id = 0\<rparr>)
   \<and> get_cdt_ctx example_client
     (PyDict [(PyString ''ctx'',
               PyList [example_ctx_step 0x10 (PyInt 0), example_ctx_step 0x22 (PyInt 7)])])
     \<lparr>current_bytes_id = 0\<rparr> 0 =
     (None, Live [(AS_CDT_CTX_LIST_INDEX, Ival 0), (AS_CDT_CTX_MAP_KEY, Pval (AS_INTEGER 7))],
      True, \<lparr>current_bytes_id = 0\<rparr>)
   \<and> get_cdt_ctx example_client
     (PyDict [(PyString ''ctx'',
               PyList [example_ctx_step 0x10 (PyInt 0), example_ctx_step 0x99 (PyInt 7)])])
     \<lparr>current_bytes_id = 0\<rparr> 0 =
     (Some (as_error_update AEROSPIKE_ERR_PARAM ''Failed to convert, unknown ctx operation ctx''),
      Destroyed, True, \<lparr>current_bytes_id = 0\<rparr>)"
proof -
  have pre: "get_cdt_ctx example_client
      (PyDict [(PyString ''ctx'', PyList [example_ctx_step 0x10 (PyInt 0)])])
      \<lparr>current_bytes_id = 0\<rparr> 0 =
      (None, Live [(AS_CDT_CTX_LIST_INDEX, Ival 0)], True, \<lparr>current_bytes_id = 0\<rparr>)"
    by (simp add: get_cdt_ctx_def CTX_KEY_def example_ctx_step_def as_C_unsigned_long_def
        requires_int_def AS_CDT_CTX_LIST_INDEX_def PyLong_AsLong_def as_C_long_def
        as_cdt_ctx_add_int_def Let_def)
  have d: "PyDict_GetItemString (PyDict_items (PyDict [(PyString ''ctx'', PyList xs)])) CTX_KEY =
      Some (PyList xs)" for xs
    by (simp add: CTX_KEY_def)
  have a: "PyObject_GetAttrString (example_ctx_step k v) ''id'' = Some (PyInt k)"
    "PyObject_GetAttrString (example_ctx_step k v) ''value'' = Some v" for k v
    by (simp_all add: example_ctx_step_def)
  have k: "PyLong_AsUnsignedLong (PyInt 0x11) = (AS_CDT_CTX_LIST_RANK, None)"
    "PyLong_AsUnsignedLong (PyInt 0x21) = (AS_CDT_CTX_MAP_RANK, None)"
    "PyLong_AsUnsignedLong (PyInt 0x22) = (AS_CDT_CTX_MAP_KEY, None)"
    "PyLong_AsUnsignedLong (PyInt 0x99) = (0x99, None)"
    by (simp_all add: as_C_unsigned_long_def AS_CDT_CTX_LIST_RANK_def AS_CDT_CTX_MAP_RANK_def
        AS_CDT_CTX_MAP_KEY_def)
  have r: "requires_int AS_CDT_CTX_LIST_RANK" "requires_int AS_CDT_CTX_MAP_RANK"
    by (simp_all add: requires_int_def)
  have u: "\<not> requires_int 0x99" "0x99 \<noteq> AS_CDT_CTX_LIST_VALUE"
    "0x99 \<noteq> AS_CDT_CTX_MAP_KEY" "0x99 \<noteq> AS_CDT_CTX_MAP_VALUE"
    by (simp_all add: requires_int_def AS_CDT_CTX_LIST_VALUE_def AS_CDT_CTX_MAP_KEY_def
        AS_CDT_CTX_MAP_VALUE_def AS_CDT_CTX_LIST_INDEX_def AS_CDT_CTX_LIST_RANK_def
        AS_CDT_CTX_MAP_INDEX_def AS_CDT_CTX_MAP_RANK_def)
  have v: "pyobject_to_val example_client 0 (PyInt 7) \<lparr>current_bytes_id = 0\<rparr> =
      (Inr (AS_INTEGER 7), \<lparr>current_bytes_id = 0\<rparr>)"
    by (simp add: pyobject_to_val.simps as_C_long_def)
  have w1: "get_cdt_ctx example_client
     (PyDict [(PyString ''ctx'',
               PyList ([example_ctx_step 0x10 (PyInt 0)] @ example_ctx_step 0x11 (PyString ''x'') #
                       [example_ctx_step 0x10 (PyInt 1)]))])
     \<lparr>current_bytes_id = 0\<rparr> 0 =
     (Some (as_error_update AEROSPIKE_ERR_PARAM ''Failed to convert ctx''), Destroyed, True,
      \<lparr>current_bytes_id = 0\<rparr>)"
    using ctx_step_enforcement [where py_ctx = "[example_ctx_step 0x10 (PyInt 1)]"
          and value_temp = "PyString ''x''", OF d pre d d a(1) a(2) k(1),
        THEN conjunct2, THEN conjunct1] r
    by simp
  have w2: "get_cdt_ctx example_client
     (PyDict [(PyString ''ctx'',
               PyList ([example_ctx_step 0x10 (PyInt 0)] @ [example_ctx_step 0x21 (PyLong 3)]))])
     \<lparr>current_bytes_id = 0\<rparr> 0 =
     (None, Live [(AS_CDT_CTX_LIST_INDEX, Ival 0), (AS_CDT_CTX_MAP_RANK, Ival 3)], True,
      \<lparr>current_bytes_id = 0\<rparr>)"
    using ctx_step_enforcement [where n = 3 and value_temp = "PyLong 3",
        OF d pre d d a(1) a(2) k(2),
        THEN conjunct2, THEN conjunct2, THEN conjunct2, THEN conjunct1] r
    by (simp add: as_cdt_ctx_add_int_def)
  have w3: "get_cdt_ctx example_client
     (PyDict [(PyString ''ctx'',
               PyList ([example_ctx_step 0x10 (PyInt 0)] @ [example_ctx_step 0x22 (PyInt 7)]))])
     \<lparr>current_bytes_id = 0\<rparr> 0 =
     (None, Live [(AS_CDT_CTX_LIST_INDEX, Ival 0), (AS_CDT_CTX_MAP_KEY, Pval (AS_INTEGER 7))],
      True, \<lparr>current_bytes_id = 0\<rparr>)"
    using ctx_step_enforcement [where n = 7 and value_temp = "PyInt 7",
        OF d pre d d a(1) a(2) k(3),
        THEN conjunct2, THEN conjunct2, THEN conjunct2, THEN conjunct2, THEN conjunct2,
        THEN conjunct2, THEN conjunct2, THEN conjunct2, THEN conjunct1]
    by (simp add: as_cdt_ctx_add_val_def)
  have w4: "get_cdt_ctx example_client
     (PyDict [(PyString ''ctx'',
               PyList ([example_ctx_step 0x10 (PyInt 0)] @ example_ctx_step 0x99 (PyInt 7) # []))])
     \<lparr>current_bytes_id = 0\<rparr> 0 =
     (Some (as_error_update AEROSPIKE_ERR_PARAM ''Failed to convert, unknown ctx operation ctx''),
      Destroyed, True, \<lparr>current_bytes_id = 0\<rparr>)"
    using ctx_step_enforcement [where py_ctx = "[]" and val = "AS_INTEGER 7"
          and static_pool' = "\<lparr>current_bytes_id = 0\<rparr>" and value_temp = "PyInt 7",
        OF d pre d d a(1) a(2) k(4),
        THEN conjunct2, THEN conjunct2, THEN conjunct2, THEN conjunct2, THEN conjunct2,
        THEN conjunct2, THEN conjunct2, THEN conjunct2, THEN conjunct2, THEN conjunct2] u v
    by simp
  from w1 w2 w3 w4 show ?thesis by simp
qed

text \<open>
  Claim C7 as stated fails: the payload \<open>1.5\<close> of a step of kind list-index is not an
  integer, and \<^verbatim>\<open>get_cdt_ctx\<close> does not reject it. \<^verbatim>\<open>PyLong_AsLong\<close> converts the float
  to 1 without raising, and the step is added with the index 1.
\<close>

theorem ctx_float_index_accepted:
  "requires_int AS_CDT_CTX_LIST_INDEX
   \<and> \<not> PyInt_Check (PyFloat 0x3FF8000000000000) \<and> \<not> PyLong_Check (PyFloat 0x3FF8000000000000)
   \<and> get_cdt_ctx example_client
       (PyDict [(PyString ''ctx'', PyList [example_ctx_step 0x10 (PyFloat 0x3FF8000000000000)])])
       \<lparr>current_bytes_id = 0\<rparr> 0 =
       (None, Live [(AS_CDT_CTX_LIST_INDEX, Ival 1)], True, \<lparr>current_bytes_id = 0\<rparr>)"
proof -
  have "PyLong_AsLong example_client (PyFloat 0x3FF8000000000000) = (1, None)"
    by (simp add: PyLong_AsLong_float float_trunc_one_and_a_half as_C_long_def)
  then show ?thesis
    by (simp add: get_cdt_ctx_def CTX_KEY_def example_ctx_step_def as_C_unsigned_long_def
        requires_int_def AS_CDT_CTX_LIST_INDEX_def as_cdt_ctx_add_int_def Let_def)
qed

subsection \<open>What a failed conversion leaves behind\<close>

lemma ctx_first_step:
  "get_cdt_ctx_loop example_client 0 (example_ctx_step 0x10 (PyInt 0) # py_ctx) []
      \<lparr>current_bytes_id = 0\<rparr> =
   get_cdt_ctx_loop example_client 0 py_ctx [(AS_CDT_CTX_LIST_INDEX, Ival 0)]
      \<lparr>current_bytes_id = 0\<rparr>"
  by (simp add: example_ctx_step_def as_C_unsigned_long_def requires_int_def
      AS_CDT_CTX_LIST_INDEX_def PyLong_AsLong_def as_C_long_def as_cdt_ctx_add_int_def Let_def)

lemma ctx_second_step:
  "get_cdt_ctx_loop example_client 0
      [example_ctx_step 0x22 (PyLong 18446744073709551616)] cdt_ctx \<lparr>current_bytes_id = 0\<rparr> =
   (Some (as_error_update AEROSPIKE_ERR_PARAM ''Failed to convert ctx''), Live cdt_ctx,
    \<lparr>current_bytes_id = 0\<rparr>)"
proof -
  have "pyobject_to_val example_client 0 (PyLong 18446744073709551616)
      \<lparr>current_bytes_id = 0\<rparr> =
      (Inl (as_error_update AEROSPIKE_ERR_PARAM ''integer value exceeds sys.maxsize''),
       \<lparr>current_bytes_id = 0\<rparr>)"
    by (simp add: pyobject_to_val.simps PyLong_AsLongLong_def as_C_long_def)
  then show ?thesis
    by (simp add: example_ctx_step_def as_C_unsigned_long_def requires_int_def
        AS_CDT_CTX_LIST_INDEX_def AS_CDT_CTX_LIST_RANK_def AS_CDT_CTX_MAP_INDEX_def
        AS_CDT_CTX_MAP_RANK_def CTX_KEY_def Let_def)
qed

lemma record_first_bin:
  "pyobject_to_record_bin example_client 0 2 (PyString ''a'') (PyInt 1)
      \<lparr>rb_err = None, rb_bins = [], rb_ret_val = False, rb_pool = \<lparr>current_bytes_id = 0\<rparr>\<rparr> =
   (LoopNext, \<lparr>rb_err = None, rb_bins = [(''a'', AS_INTEGER 1)], rb_ret_val = True,
               rb_pool = \<lparr>current_bytes_id = 0\<rparr>\<rparr>)"
proof -
  have "pyobject_to_record_value example_client 0 2 ''a'' (PyInt 1)
      \<lparr>rb_err = None, rb_bins = [], rb_ret_val = False, rb_pool = \<lparr>current_bytes_id = 0\<rparr>\<rparr> =
   (LoopNext, \<lparr>rb_err = None, rb_bins = [(''a'', AS_INTEGER 1)], rb_ret_val = True,
               rb_pool = \<lparr>current_bytes_id = 0\<rparr>\<rparr>)"
    by (simp add: pyobject_to_record_value_def as_C_long_def as_record_set_def strlen_def
        example_client_def)
  moreover have "strict_types example_client = False"
    by (simp add: example_client_def)
  ultimately show ?thesis
    by (simp add: pyobject_to_record_bin_def)
qed

text \<open>Claim C3 fails on the code. The context \<^verbatim>\<open>[cdt_ctx_list_index(0),
  cdt_ctx_map_key(2 ** 64)]\<close>: the first step is added to \<^verbatim>\<open>cdt_ctx\<close>, the payload of the
  second does not fit 64 bits, and \<^verbatim>\<open>get_cdt_ctx\<close> returns \<open>AEROSPIKE_ERR_PARAM\<close> from the
  one error path that does not call \<^verbatim>\<open>as_cdt_ctx_destroy\<close>, so the caller is left with the
  context holding the first step. Likewise the record \<^verbatim>\<open>{'a': 1, 5: 2}\<close>: the bin
  \<^verbatim>\<open>a\<close> is set, the second bin name is not a string, and \<^verbatim>\<open>pyobject_to_record\<close> returns
  \<open>AEROSPIKE_ERR_CLIENT\<close> from inside the loop, before the \<^verbatim>\<open>as_record_destroy\<close> that ends
  the function.\<close>

theorem partial_result_escapes:
  "get_cdt_ctx example_client
     (PyDict [(PyString ''ctx'',
               PyList [example_ctx_step 0x10 (PyInt 0),
                       example_ctx_step 0x22 (PyLong 18446744073709551616)])])
     \<lparr>current_bytes_id = 0\<rparr> 0 =
     (Some (as_error_update AEROSPIKE_ERR_PARAM ''Failed to convert ctx''),
      Live [(AS_CDT_CTX_LIST_INDEX, Ival 0)], True, \<lparr>current_bytes_id = 0\<rparr>)
   \<and> pyobject_to_record example_client
     (Some (PyDict [(PyString ''a'', PyInt 1), (PyInt 5, PyInt 2)])) None 0
     \<lparr>current_bytes_id = 0\<rparr> =
     (Some (as_error_update AEROSPIKE_ERR_CLIENT ''A bin name must be a string or unicode string.''),
      Live (As_record as_key_empty 0 0 [(''a'', AS_INTEGER 1)]), \<lparr>current_bytes_id = 0\<rparr>)"
proof
  show "get_cdt_ctx example_client
     (PyDict [(PyString ''ctx'',
               PyList [example_ctx_step 0x10 (PyInt 0),
                       example_ctx_step 0x22 (PyLong 18446744073709551616)])])
     \<lparr>current_bytes_id = 0\<rparr> 0 =
     (Some (as_error_update AEROSPIKE_ERR_PARAM ''Failed to convert ctx''),
      Live [(AS_CDT_CTX_LIST_INDEX, Ival 0)], True, \<lparr>current_bytes_id = 0\<rparr>)"
    unfolding get_cdt_ctx_def
    by (simp add: CTX_KEY_def ctx_first_step ctx_second_step
        del: get_cdt_ctx_loop.simps)
  have "pyobject_to_record_bin example_client 0 2 (PyInt 5) (PyInt 2) st =
      (LoopReturn, st\<lparr>rb_err := Some (as_error_update AEROSPIKE_ERR_CLIENT
                          ''A bin name must be a string or unicode string.'')\<rparr>)" for st
    by (simp add: pyobject_to_record_bin_def)
  then show "pyobject_to_record example_client
     (Some (PyDict [(PyString ''a'', PyInt 1), (PyInt 5, PyInt 2)])) None 0
     \<lparr>current_bytes_id = 0\<rparr> =
     (Some (as_error_update AEROSPIKE_ERR_CLIENT ''A bin name must be a string or unicode string.''),
      Live (As_record as_key_empty 0 0 [(''a'', AS_INTEGER 1)]), \<lparr>current_bytes_id = 0\<rparr>)"
    using record_first_bin
    by (simp add: pyobject_to_record_def uint16_t_def)
qed

subsection \<open>The round trip of a value\<close>

lemma c_str_id: "CHR 0x00 \<notin> set s \<Longrightarrow> c_str s = s"
  by (auto simp: c_str_def)

lemma sint_long:
  "- (2 ^ 63) \<le> n \<Longrightarrow> n < 2 ^ 63 \<Longrightarrow> sint (word_of_int n :: 64 word) = n"
  by (simp add: sint_sbintrunc' signed_take_bit_int_eq_self)

lemma as_map_set_fresh: "key \<notin> fst ` set m \<Longrightarrow> as_map_set m key val = m @ [(key, val)]"
  by (induction m) auto

lemma dict_set_fresh: "k \<notin> fst ` set d \<Longrightarrow> dict_set d k v = d @ [(k, v)]"
  by (induction d) auto

lemma pool_bump_0:
  "static_pool\<lparr>current_bytes_id := current_bytes_id static_pool\<rparr> = static_pool"
  by (cases static_pool) simp

lemma back_scalar:
  assumes "scalar_key a" and "representable a"
  shows "do_val_to_pyobject self (wire self serializer_type a) False = Inr (external a)"
proof (cases a)
  case (PyInt n)
  with assms show ?thesis by (simp add: do_val_to_pyobject_simps sint_long)
next
  case (PyLong n)
  with assms show ?thesis by (simp add: do_val_to_pyobject_simps sint_long)
next
  case (PyFloat d)
  then show ?thesis by (simp add: do_val_to_pyobject_simps)
next
  case (PyString s)
  with assms show ?thesis by (simp add: do_val_to_pyobject_simps c_str_id)
next
  case (PyUnicode s)
  with assms show ?thesis by (simp add: do_val_to_pyobject_simps c_str_id)
qed (use assms in simp_all)

lemma wire_key_inj:
  assumes "scalar_key a" "scalar_key b" "representable a" "representable b"
    and "wire self serializer_type a = wire self serializer_type b"
  shows "external a = external b"
  using back_scalar [OF assms(1,3), of self serializer_type]
    back_scalar [OF assms(2,4), of self serializer_type] assms(5)
  by simp

lemma external_key_hashable: "scalar_key k \<Longrightarrow> py_hashable (external k)"
  by (cases k) simp_all

lemma pyobject_to_list_wire:
  assumes "\<And>x static_pool. x \<in> set xs \<Longrightarrow> representable x \<Longrightarrow>
      current_bytes_id static_pool + bytes_needed x \<le> bytes_pool_capacity self \<Longrightarrow>
      pyobject_to_val self serializer_type x static_pool =
        (Inr (wire self serializer_type x),
         static_pool\<lparr>current_bytes_id := current_bytes_id static_pool + bytes_needed x\<rparr>)"
    and "list_all representable xs"
    and "current_bytes_id static_pool + sum_list (map bytes_needed xs) \<le> bytes_pool_capacity self"
  shows "pyobject_to_list self serializer_type xs static_pool =
     (Inr (map (wire self serializer_type) xs),
      static_pool\<lparr>current_bytes_id :=
        current_bytes_id static_pool + sum_list (map bytes_needed xs)\<rparr>)"
  using assms
proof (induction xs arbitrary: static_pool)
  case Nil
  then show ?case by (simp add: pool_bump_0)
next
  case (Cons x xs)
  let ?p = "static_pool\<lparr>current_bytes_id := current_bytes_id static_pool + bytes_needed x\<rparr>"
  have 1: "pyobject_to_val self serializer_type x static_pool =
      (Inr (wire self serializer_type x), ?p)"
    using Cons.prems by (intro Cons.prems(1)) simp_all
  have 2: "pyobject_to_list self serializer_type xs ?p =
     (Inr (map (wire self serializer_type) xs),
      ?p\<lparr>current_bytes_id := current_bytes_id ?p + sum_list (map bytes_needed xs)\<rparr>)"
    using Cons.prems by (intro Cons.IH) simp_all
  show ?case by (simp add: 1 2 add.assoc)
qed

lemma pyobject_to_map_wire:
  assumes "\<And>kv static_pool. kv \<in> set kvs \<Longrightarrow> representable (fst kv) \<Longrightarrow>
      current_bytes_id static_pool + bytes_needed (fst kv) \<le> bytes_pool_capacity self \<Longrightarrow>
      pyobject_to_val self serializer_type (fst kv) static_pool =
        (Inr (wire self serializer_type (fst kv)),
         static_pool\<lparr>current_bytes_id := current_bytes_id static_pool + bytes_needed (fst kv)\<rparr>)"
    and "\<And>kv static_pool. kv \<in> set kvs \<Longrightarrow> representable (snd kv) \<Longrightarrow>
      current_bytes_id static_pool + bytes_needed (snd kv) \<le> bytes_pool_capacity self \<Longrightarrow>
      pyobject_to_val self serializer_type (snd kv) static_pool =
        (Inr (wire self serializer_type (snd kv)),
         static_pool\<lparr>current_bytes_id := current_bytes_id static_pool + bytes_needed (snd kv)\<rparr>)"
    and "list_all (\<lambda>kv. scalar_key (fst kv) \<and> representable (fst kv) \<and> representable (snd kv)) kvs"
    and "distinct (map (\<lambda>kv. external (fst kv)) kvs)"
    and "\<forall>kv \<in> set kvs. wire self serializer_type (fst kv) \<notin> fst ` set m"
    and "current_bytes_id static_pool
           + sum_list (map (\<lambda>kv. bytes_needed (fst kv) + bytes_needed (snd kv)) kvs)
         \<le> bytes_pool_capacity self"
  shows "pyobject_to_map self serializer_type kvs m static_pool =
     (Inr (m @ map (\<lambda>kv. (wire self serializer_type (fst kv),
                           wire self serializer_type (snd kv))) kvs),
      static_pool\<lparr>current_bytes_id := current_bytes_id static_pool
        + sum_list (map (\<lambda>kv. bytes_needed (fst kv) + bytes_needed (snd kv)) kvs)\<rparr>)"
  using assms
proof (induction kvs arbitrary: m static_pool)
  case Nil
  then show ?case by (simp add: pool_bump_0)
next
  case (Cons kv kvs)
  obtain k v where kv: "kv = (k, v)" by (cases kv)
  let ?p1 = "static_pool\<lparr>current_bytes_id := current_bytes_id static_pool + bytes_needed k\<rparr>"
  let ?p2 = "?p1\<lparr>current_bytes_id := current_bytes_id ?p1 + bytes_needed v\<rparr>"
  let ?m = "m @ [(wire self serializer_type k, wire self serializer_type v)]"
  have 1: "pyobject_to_val self serializer_type k static_pool =
      (Inr (wire self serializer_type k), ?p1)"
    using Cons.prems(1) [of kv static_pool] Cons.prems(3,6) kv by simp
  have 2: "pyobject_to_val self serializer_type v ?p1 = (Inr (wire self serializer_type v), ?p2)"
    using Cons.prems(2) [of kv ?p1] Cons.prems(3,6) kv by simp
  have 3: "as_map_set m (wire self serializer_type k) (wire self serializer_type v) = ?m"
    using Cons.prems(5) kv by (intro as_map_set_fresh) simp
  have fresh: "wire self serializer_type (fst kv') \<noteq> wire self serializer_type k"
    if "kv' \<in> set kvs" for kv'
  proof
    assume "wire self serializer_type (fst kv') = wire self serializer_type k"
    moreover from that Cons.prems(3) have "scalar_key (fst kv')" "representable (fst kv')"
      by (auto simp: list_all_iff)
    moreover from Cons.prems(3) kv have "scalar_key k" "representable k" by simp_all
    ultimately have "external (fst kv') = external k"
      using wire_key_inj [of "fst kv'" k self serializer_type] by simp
    with that Cons.prems(4) kv show False by (auto simp: image_iff)
  qed
  have 4: "pyobject_to_map self serializer_type kvs ?m ?p2 =
     (Inr (?m @ map (\<lambda>kv. (wire self serializer_type (fst kv),
                            wire self serializer_type (snd kv))) kvs),
      ?p2\<lparr>current_bytes_id := current_bytes_id ?p2
        + sum_list (map (\<lambda>kv. bytes_needed (fst kv) + bytes_needed (snd kv)) kvs)\<rparr>)"
  proof (intro Cons.IH)
    show "\<forall>kv \<in> set kvs. wire self serializer_type (fst kv) \<notin> fst ` set ?m"
      using Cons.prems(5) fresh by auto
    show "current_bytes_id ?p2
           + sum_list (map (\<lambda>kv. bytes_needed (fst kv) + bytes_needed (snd kv)) kvs)
         \<le> bytes_pool_capacity self"
      using Cons.prems(6) kv by simp
  qed (use Cons.prems in simp_all)
  from 4 show ?case
    unfolding kv by (simp add: 1 2 3 add.assoc)
qed

lemma list_to_pyobject_each_external:
  assumes "\<And>x. x \<in> set xs \<Longrightarrow> representable x \<Longrightarrow>
      do_val_to_pyobject self (wire self serializer_type x) False = Inr (external x)"
    and "list_all representable xs"
  shows "list_to_pyobject_each self (map (wire self serializer_type) xs) = Inr (map external xs)"
  using assms by (induction xs) simp_all

lemma map_to_pyobject_each_external:
  assumes "\<And>kv. kv \<in> set kvs \<Longrightarrow> representable (snd kv) \<Longrightarrow>
      do_val_to_pyobject self (wire self serializer_type (snd kv)) False =
        Inr (external (snd kv))"
    and "list_all (\<lambda>kv. scalar_key (fst kv) \<and> representable (fst kv) \<and> representable (snd kv)) kvs"
    and "distinct (map (\<lambda>kv. external (fst kv)) kvs)"
    and "\<forall>kv \<in> set kvs. external (fst kv) \<notin> fst ` set d"
  shows "map_to_pyobject_each self
           (map (\<lambda>kv. (wire self serializer_type (fst kv), wire self serializer_type (snd kv))) kvs)
           d =
         Inr (d @ map (\<lambda>kv. (external (fst kv), external (snd kv))) kvs)"
  using assms
proof (induction kvs arbitrary: d)
  case Nil
  then show ?case by simp
next
  case (Cons kv kvs)
  obtain k v where kv: "kv = (k, v)" by (cases kv)
  from Cons.prems(2) kv have sk: "scalar_key k" "representable k" "representable v" by simp_all
  have 1: "do_val_to_pyobject self (wire self serializer_type k) False = Inr (external k)"
    using sk by (intro back_scalar)
  have 2: "do_val_to_pyobject self (wire self serializer_type v) False = Inr (external v)"
    using Cons.prems(1) [of kv] sk kv by simp
  have 3: "PyDict_SetItem d (external k) (external v) = Inr (d @ [(external k, external v)])"
    using Cons.prems(4) kv sk
    by (simp add: PyDict_SetItem_def external_key_hashable dict_set_fresh)
  have 4: "map_to_pyobject_each self
           (map (\<lambda>kv. (wire self serializer_type (fst kv), wire self serializer_type (snd kv))) kvs)
           (d @ [(external k, external v)]) =
         Inr ((d @ [(external k, external v)]) @
              map (\<lambda>kv. (external (fst kv), external (snd kv))) kvs)"
  proof (intro Cons.IH)
    show "\<forall>kv \<in> set kvs. external (fst kv) \<notin> fst ` set (d @ [(external k, external v)])"
      using Cons.prems(3,4) kv by (auto simp: image_iff)
  qed (use Cons.prems in simp_all)
  from 4 show ?case
    unfolding kv by (simp add: 1 2 3)
qed

lemma pyobject_to_val_wire:
  assumes ser: "\<And>b. bytes_round_trip self serializer_type (PyByteArray b)"
  shows "representable x \<Longrightarrow>
     current_bytes_id static_pool + bytes_needed x \<le> bytes_pool_capacity self \<Longrightarrow>
     pyobject_to_val self serializer_type x static_pool =
       (Inr (wire self serializer_type x),
        static_pool\<lparr>current_bytes_id := current_bytes_id static_pool + bytes_needed x\<rparr>)"
proof (induction x arbitrary: static_pool)
  case (PyInt n)
  then show ?case by (simp add: pyobject_to_val.simps as_C_long_def pool_bump_0)
next
  case (PyLong n)
  then show ?case
    by (simp add: pyobject_to_val.simps PyLong_AsLongLong_def as_C_long_def pool_bump_0)
next
  case (PyFloat d)
  then show ?case
    by (simp add: pyobject_to_val.simps PyBytes_Check_def AS_Matches_Classname_def
        AS_CDT_WILDCARD_NAME_def AS_CDT_INFINITE_NAME_def pool_bump_0)
next
  case (PyUnicode s)
  then show ?case
    by (simp add: pyobject_to_val.simps PyBytes_AsString_def c_str_id pool_bump_0)
next
  case (PyString s)
  then show ?case by (simp add: pyobject_to_val.simps c_str_id pool_bump_0)
next
  case (PyByteArray b)
  from ser [of b] obtain ty bs where
    s: "serialize self serializer_type (Some (PyByteArray b)) = Inr (ty, bs)"
    by (auto simp: bytes_round_trip_def split: sum.splits)
  with PyByteArray show ?case
    by (simp add: pyobject_to_val.simps PyBytes_Check_def serialize_from_pool_def
        GET_BYTES_POOL_def)
next
  case (PyList xs)
  have "pyobject_to_list self serializer_type xs static_pool =
     (Inr (map (wire self serializer_type) xs),
      static_pool\<lparr>current_bytes_id :=
        current_bytes_id static_pool + sum_list (map bytes_needed xs)\<rparr>)"
    using PyList.prems by (intro pyobject_to_list_wire PyList.IH) simp_all
  then show ?case by (simp add: pyobject_to_val.simps PyBytes_Check_def)
next
  case (PyDict kvs)
  have k: "pyobject_to_val self serializer_type (fst kv) p =
        (Inr (wire self serializer_type (fst kv)),
         p\<lparr>current_bytes_id := current_bytes_id p + bytes_needed (fst kv)\<rparr>)"
    if "kv \<in> set kvs" "representable (fst kv)"
      "current_bytes_id p + bytes_needed (fst kv) \<le> bytes_pool_capacity self" for kv p
  proof -
    have "fst kv \<in> Basic_BNFs.fsts kv" by (cases kv) simp
    with that show ?thesis by (intro PyDict.IH(1))
  qed
  have v: "pyobject_to_val self serializer_type (snd kv) p =
        (Inr (wire self serializer_type (snd kv)),
         p\<lparr>current_bytes_id := current_bytes_id p + bytes_needed (snd kv)\<rparr>)"
    if "kv \<in> set kvs" "representable (snd kv)"
      "current_bytes_id p + bytes_needed (snd kv) \<le> bytes_pool_capacity self" for kv p
  proof -
    have "snd kv \<in> Basic_BNFs.snds kv" by (cases kv) simp
    with that show ?thesis by (intro PyDict.IH(2))
  qed
  have "pyobject_to_map self serializer_type kvs [] static_pool =
     (Inr ([] @ map (\<lambda>kv. (wire self serializer_type (fst kv),
                           wire self serializer_type (snd kv))) kvs),
      static_pool\<lparr>current_bytes_id := current_bytes_id static_pool
        + sum_list (map (\<lambda>kv. bytes_needed (fst kv) + bytes_needed (snd kv)) kvs)\<rparr>)"
    using PyDict.prems by (intro pyobject_to_map_wire k v) simp_all
  then show ?case by (simp add: pyobject_to_val.simps PyBytes_Check_def)
qed simp_all

lemma do_val_to_pyobject_external:
  assumes ser: "\<And>b. bytes_round_trip self serializer_type (PyByteArray b)"
  shows "representable x \<Longrightarrow>
     do_val_to_pyobject self (wire self serializer_type x) False = Inr (external x)"
proof (induction x)
  case (PyInt n)
  then show ?case by (simp add: do_val_to_pyobject_simps sint_long)
next
  case (PyLong n)
  then show ?case by (simp add: do_val_to_pyobject_simps sint_long)
next
  case (PyFloat d)
  then show ?case by (simp add: do_val_to_pyobject_simps)
next
  case (PyUnicode s)
  then show ?case by (simp add: do_val_to_pyobject_simps c_str_id)
next
  case (PyString s)
  then show ?case by (simp add: do_val_to_pyobject_simps c_str_id)
next
  case (PyByteArray b)
  from ser [of b] show ?case
    by (auto simp: bytes_round_trip_def do_val_to_pyobject_simps split: sum.splits)
next
  case (PyList xs)
  have "list_to_pyobject_each self (map (wire self serializer_type) xs) = Inr (map external xs)"
    using PyList.prems by (intro list_to_pyobject_each_external PyList.IH) simp_all
  then show ?case by (simp add: do_val_to_pyobject_simps list_to_pyobject.simps)
next
  case (PyDict kvs)
  have v: "do_val_to_pyobject self (wire self serializer_type (snd kv)) False =
        Inr (external (snd kv))"
    if "kv \<in> set kvs" "representable (snd kv)" for kv
  proof -
    have "snd kv \<in> Basic_BNFs.snds kv" by (cases kv) simp
    with that show ?thesis by (intro PyDict.IH(2))
  qed
  have "map_to_pyobject_each self
           (map (\<lambda>kv. (wire self serializer_type (fst kv), wire self serializer_type (snd kv))) kvs)
           [] =
         Inr ([] @ map (\<lambda>kv. (external (fst kv), external (snd kv))) kvs)"
    using PyDict.prems by (intro map_to_pyobject_each_external v) simp_all
  then show ?case by (simp add: do_val_to_pyobject_simps map_to_pyobject.simps)
qed simp_all

text \<open>
  Claim C1, as amended. Let \<open>x\<close> be representable: an integer of 64 bits, a double, a
  string without a NUL character, a byte array, or a list or dictionary nested from
  these, the keys of a dictionary being scalars. If the serializer of the client and its
  deserializer are inverse on byte arrays, and the static pool has a free buffer for each
  byte array of \<open>x\<close>, then \<open>pyobject_to_val\<close> converts \<open>x\<close>, taking that many buffers, and
  \<open>val_to_pyobject\<close> converts the result back to \<open>external x\<close>: the object equal to \<open>x\<close>
  with every integer an \<^verbatim>\<open>int\<close>, every text a \<^verbatim>\<open>str\<close>, the same doubles and bytes, and
  the elements of lists and the entries of dictionaries in their order.
\<close>

theorem value_round_trip:
  assumes "representable x"
    and "\<forall>b. bytes_round_trip self serializer_type (PyByteArray b)"
    and "current_bytes_id static_pool + bytes_needed x \<le> bytes_pool_capacity self"
  shows "round_trip self serializer_type x static_pool = Inr (external x)
         \<and> snd (pyobject_to_val self serializer_type x static_pool) =
             static_pool\<lparr>current_bytes_id := current_bytes_id static_pool + bytes_needed x\<rparr>"
proof -
  from assms(2) have ser: "bytes_round_trip self serializer_type (PyByteArray b)" for b
    by simp
  have f: "pyobject_to_val self serializer_type x static_pool =
           (Inr (wire self serializer_type x),
            static_pool\<lparr>current_bytes_id := current_bytes_id static_pool + bytes_needed x\<rparr>)"
    using ser assms(1,3) by (rule pyobject_to_val_wire)
  have b: "val_to_pyobject self (wire self serializer_type x) = Inr (external x)"
    unfolding val_to_pyobject_def using ser assms(1) by (rule do_val_to_pyobject_external)
  from f b show ?thesis by (simp add: round_trip_def)
qed

theorem value_round_trip_witness:
  "round_trip example_client 0
     (PyDict [(PyUnicode ''a'', PyList [PyInt 1, PyLong 2, PyByteArray [1, 2]]),
              (PyInt 5, PyString ''x'')])
     \<lparr>current_bytes_id = 0\<rparr> =
     Inr (PyDict [(PyString ''a'', PyList [PyInt 1, PyInt 2, PyByteArray [1, 2]]),
                  (PyInt 5, PyString ''x'')])
   \<and> snd (pyobject_to_val example_client 0
       (PyDict [(PyUnicode ''a'', PyList [PyInt 1, PyLong 2, PyByteArray [1, 2]]),
                (PyInt 5, PyString ''x'')])
       \<lparr>current_bytes_id = 0\<rparr>) = \<lparr>current_bytes_id = 1\<rparr>"
proof -
  have r: "representable
     (PyDict [(PyUnicode ''a'', PyList [PyInt 1, PyLong 2, PyByteArray [1, 2]]),
              (PyInt 5, PyString ''x'')])"
    by simp
  have s: "\<forall>b. bytes_round_trip example_client 0 (PyByteArray b)"
    by (simp add: bytes_round_trip_def example_client_def)
  have p: "current_bytes_id \<lparr>current_bytes_id = 0\<rparr>
      + bytes_needed (PyDict [(PyUnicode ''a'', PyList [PyInt 1, PyLong 2, PyByteArray [1, 2]]),
              (PyInt 5, PyString ''x'')]) \<le> bytes_pool_capacity example_client"
    by (simp add: example_client_def)
  from value_round_trip [OF r s p] show ?thesis by simp
qed

text \<open>
  Claim C1 as stated fails. A string of Python may hold a NUL character; the value of the
  C client is a C string, which ends there, so the string \<^verbatim>\<open>a\0b\<close> comes back as
  \<^verbatim>\<open>a\<close>. And a list of five byte arrays is not converted at all when the static pool
  holds four buffers.
\<close>

theorem string_with_NUL_is_cut:
  "round_trip example_client 0 (PyString [CHR ''a'', CHR 0x00, CHR ''b''])
     \<lparr>current_bytes_id = 0\<rparr> = Inr (PyString ''a'')
   \<and> PyString ''a'' \<noteq> PyString [CHR ''a'', CHR 0x00, CHR ''b'']
   \<and> round_trip example_client 0
       (PyList [PyByteArray [1], PyByteArray [2], PyByteArray [3], PyByteArray [4],
                PyByteArray [5]])
       \<lparr>current_bytes_id = 0\<rparr> = Inl (as_error_update AEROSPIKE_ERR_CLIENT [])"
proof -
  have b: "pyobject_to_val example_client 0 (PyByteArray bs) \<lparr>current_bytes_id = n\<rparr> =
      (if n < 4 then (Inr (AS_BYTES AS_BYTES_BLOB bs), \<lparr>current_bytes_id = n + 1\<rparr>)
       else (Inl (as_error_update AEROSPIKE_ERR_CLIENT []), \<lparr>current_bytes_id = n\<rparr>))" for bs n
    by (simp add: pyobject_to_val.simps PyBytes_Check_def serialize_from_pool_def
        GET_BYTES_POOL_def example_client_def)
  have l: "pyobject_to_val example_client 0
       (PyList [PyByteArray [1], PyByteArray [2], PyByteArray [3], PyByteArray [4],
                PyByteArray [5]])
       \<lparr>current_bytes_id = 0\<rparr> =
       (Inl (as_error_update AEROSPIKE_ERR_CLIENT []), \<lparr>current_bytes_id = 4\<rparr>)"
    by (simp add: pyobject_to_val.simps [of _ _ "PyList xs" for xs] PyBytes_Check_def b)
  have s: "pyobject_to_val example_client 0 (PyString [CHR ''a'', CHR 0x00, CHR ''b''])
     \<lparr>current_bytes_id = 0\<rparr> =
     (Inr (AS_STRING (Some ''a'')), \<lparr>current_bytes_id = 0\<rparr>)"
    by (simp add: pyobject_to_val.simps)
  have v: "val_to_pyobject example_client (AS_STRING (Some ''a'')) = Inr (PyString ''a'')"
    by (simp add: val_to_pyobject_simps)
  from s v l show ?thesis by (simp add: round_trip_def)
qed

end
